theory Spec2Isabelle
  imports Complex_Main
begin

section \<open>Data model\<close>

text \<open>
  The approval service exists twice in the repository:
  \<^verbatim>\<open>src/backend/api/v1/core/approval_service.py\<close> and
  \<^verbatim>\<open>src/AI9-main/backend/api/v1/core/approval_service.py\<close>. Both are embedded.
  The functions of the first keep their source names; those of the second carry the
  prefix \<open>ai9_\<close>.

  Amounts and balances are Python floats (\<open>final_amount: Optional[float]\<close>,
  \<open>float(user.get('real_balance', 0) or 0)\<close>), which the code adds, subtracts and
  compares. A float is a finite number, an infinity or NaN. Every finite double is a
  rational number, so the finite floats are rationals here; which exact result becomes
  which double is the rounding function of the environment, applied after every addition
  and subtraction. Time stamps are natural numbers. The columns
  \<open>created_at\<close> and \<open>updated_at\<close>, which the database fills with \<open>NOW()\<close>,
  are left out. An emitted event keeps its type, its reference, the user id, the amount,
  the payload (\<open>extra_data\<close>) and the \<open>requires_action\<close> flag; its title, its
  message text and the user's names are left out.
\<close>

datatype pyfloat = Fin rat | PInf | NInf | NaN

type_synonym money = pyfloat
type_synonym timestamp = nat

text \<open>JSON values: the dictionaries the code returns, stores and emits.\<close>

datatype jval =
    JNull
  | JBool bool
  | JNum pyfloat
  | JStr string
  | JTime timestamp
  | JObj "(string \<times> jval) list"

type_synonym pydict = "(string \<times> jval) list"

datatype ActorType = ADMIN | TELEGRAM_BOT | SYSTEM

fun actor_value :: "ActorType \<Rightarrow> string" where
  "actor_value ADMIN = ''admin''"
| "actor_value TELEGRAM_BOT = ''telegram_bot''"
| "actor_value SYSTEM = ''system''"

record ApprovalResult =
  success :: bool
  message :: string
  data :: pydict

record order =
  order_id :: string
  ord_user_id :: string
  ord_status :: string
  order_type :: "string option"
  ord_amount :: money
  bonus_amount :: "money option"
  game_name :: "string option"
  payment_method :: "string option"
  payout_amount :: "money option"
  void_amount :: "money option"
  execution_attempts :: nat
  approved_by :: "string option"
  approved_by_type :: "string option"
  approved_by_id :: "string option"
  approved_at :: "timestamp option"
  total_amount :: "money option"
  amount_adjusted :: "bool option"
  adjusted_by :: "string option"
  adjusted_at :: "timestamp option"
  executed_at :: "timestamp option"
  execution_result :: "jval option"
  execution_error :: "string option"
  rejection_reason :: "string option"

record user =
  usr_id :: string
  username :: "string option"
  display_name :: "string option"
  real_balance :: "money option"
  bonus_balance :: money
  deposit_count :: nat
  total_deposited :: money
  total_withdrawn :: money

record wallet_load_request =
  request_id :: string
  wlr_user_id :: string
  wlr_status :: string
  wlr_amount :: money
  wlr_payment_method :: "string option"
  reviewed_by :: "string option"
  reviewed_at :: "timestamp option"
  wlr_rejection_reason :: "string option"

record telegram_bot =
  bot_ident :: string
  is_active :: bool
  can_approve_payments :: bool
  can_approve_wallet_loads :: bool

record game =
  game_id :: string
  gm_game_name :: string
  gm_display_name :: "string option"

record ledger_entry =
  ledger_id :: string
  led_user_id :: string
  transaction_type :: string
  led_amount :: money
  balance_before :: money
  balance_after :: money
  reference_type :: string
  reference_id :: string
  description :: string

record game_load =
  load_id :: string
  gl_user_id :: string
  gl_game_id :: string
  gl_game_name :: string
  gl_amount :: money
  wallet_balance_before :: money
  wallet_balance_after :: money
  gl_status :: string
  game_credentials :: pydict

datatype EventType =
    ORDER_APPROVED | WALLET_TOPUP_APPROVED | WITHDRAW_APPROVED | ORDER_AMOUNT_ADJUSTED
  | GAME_LOAD_SUCCESS | GAME_LOAD_FAILED | WITHDRAW_EXECUTED
  | ORDER_REJECTED | WALLET_TOPUP_REJECTED | WITHDRAW_REJECTED
  | WALLET_LOAD_APPROVED | WALLET_LOAD_REJECTED

record event =
  event_type :: EventType
  ev_reference_id :: string
  ev_reference_type :: string
  ev_user_id :: string
  ev_amount :: "money option"
  extra_data :: pydict
  requires_action :: bool

text \<open>The tables the service reads and writes. A table is the list of its rows.\<close>

record database =
  orders :: "order list"
  users :: "user list"
  wallet_load_requests :: "wallet_load_request list"
  telegram_bots :: "telegram_bot list"
  games :: "game list"
  wallet_ledger :: "ledger_entry list"
  game_loads :: "game_load list"

text \<open>
  The statements that run inside an atomic unit or write a status, one name per place in
  the source. The environment of a call decides which of them raise (a persistence
  failure). An exception that leaves a unit rolls the unit back: the database is the one
  before the unit. An exception that a \<open>try\<close> inside the unit catches leaves the
  unit's earlier writes in place, as the Python reads; a database that refuses every
  further statement of such a unit is the environment in which the later statements
  raise as well. The reads that precede a unit (the bot, the request, the user) are
  lookups that do not raise.
\<close>

datatype stmt =
    S_inc_attempts
  | S_credit_user | S_credit_ledger
  | S_game_fetch | S_game_balance_fetch | S_game_debit_user | S_game_insert_load | S_game_ledger
  | S_withdraw_user | S_withdraw_ledger | S_withdraw_balance_fetch
  | S_final_status | S_followup_status | S_reject_status
  | S_wl_user | S_wl_request | S_wl_ledger | S_wl_followup_status | S_wl_reject_status

text \<open>
  What a call takes from its surroundings: the clock (\<open>now\<close> is the reading
  at the start of the call, \<open>later\<close> the one an executor takes), the values
  \<open>uuid.uuid4()\<close> returns (numbered in the order of the calls), the statements that
  raise (with the text of the exception), the rendering of an amount in an f-string
  (\<open>{amount:,.2f}\<close> after the currency sign), and the rounding of the machine's
  arithmetic: \<open>rnd q\<close> is the float that an addition or subtraction with the exact
  result \<open>q\<close> returns (the nearest double, or an infinity on overflow).
\<close>

record env =
  now :: timestamp
  later :: timestamp
  uuid4 :: "nat \<Rightarrow> string"
  fault :: "stmt \<Rightarrow> string option"
  peso :: "money \<Rightarrow> string"
  rnd :: "rat \<Rightarrow> pyfloat"

section \<open>Python floats\<close>

text \<open>
  \<open>a + b\<close>, \<open>-a\<close>, \<open>a - b\<close>, \<open>a < b\<close> and \<open>a != b\<close> on floats, with
  the IEEE rules for the infinities and NaN: NaN spreads through every sum and difference,
  every comparison with NaN is false, and NaN differs from everything, itself included.
  The updates the SQL statements compute themselves (\<open>bonus_balance + $2\<close>,
  \<open>total_deposited + $3\<close>, \<open>total_withdrawn + $2\<close>) are additions of the same
  kind.
\<close>

fun fadd :: "env \<Rightarrow> pyfloat \<Rightarrow> pyfloat \<Rightarrow> pyfloat" where
  "fadd env NaN b = NaN"
| "fadd env a NaN = NaN"
| "fadd env (Fin a) (Fin b) = rnd env (a + b)"
| "fadd env PInf NInf = NaN"
| "fadd env NInf PInf = NaN"
| "fadd env PInf b = PInf"
| "fadd env a PInf = PInf"
| "fadd env NInf b = NInf"
| "fadd env a NInf = NInf"

fun fneg :: "pyfloat \<Rightarrow> pyfloat" where
  "fneg (Fin a) = Fin (- a)"
| "fneg PInf = NInf"
| "fneg NInf = PInf"
| "fneg NaN = NaN"

definition fsub :: "env \<Rightarrow> pyfloat \<Rightarrow> pyfloat \<Rightarrow> pyfloat" where
  "fsub env a b = fadd env a (fneg b)"

fun flt :: "pyfloat \<Rightarrow> pyfloat \<Rightarrow> bool" where
  "flt NaN b = False"
| "flt a NaN = False"
| "flt (Fin a) (Fin b) = (a < b)"
| "flt NInf NInf = False"
| "flt NInf b = True"
| "flt a NInf = False"
| "flt PInf b = False"
| "flt a PInf = True"

fun py_ne :: "pyfloat \<Rightarrow> pyfloat \<Rightarrow> bool" where
  "py_ne NaN b = True"
| "py_ne a NaN = True"
| "py_ne a b = (a \<noteq> b)"

section \<open>Database access and small Python idioms\<close>

text \<open>
  Modelled from the spec: the module \<^verbatim>\<open>database\<close> (\<open>fetch_one\<close>,
  \<open>execute\<close>, \<open>get_pool\<close>) is not among the sources. The request store is
  "read-one-by-id" and "update-status(+fields)"; the SQL text in the source gives the
  condition and the assignments.
\<close>

definition fetch_one :: "('r \<Rightarrow> bool) \<Rightarrow> 'r list \<Rightarrow> 'r option" where
  "fetch_one P rows = find P rows"

definition sql_update :: "('r \<Rightarrow> bool) \<Rightarrow> ('r \<Rightarrow> 'r) \<Rightarrow> 'r list \<Rightarrow> 'r list" where
  "sql_update P f rows = map (\<lambda>r. if P r then f r else r) rows"

text \<open>
  Modelled from the spec: \<open>emit_event\<close> of the module \<^verbatim>\<open>notification_router\<close>
  is not among the sources. It is "fire-and-forget ... no return value consumed by
  the core": a call appends the event to the list of emitted events.
\<close>

definition emit_event :: "event \<Rightarrow> event list \<Rightarrow> event list" where
  "emit_event e evs = evs @ [e]"

text \<open>\<open>float(x or 0)\<close>\<close>

definition float_or0 :: "money option \<Rightarrow> money" where
  "float_or0 v = (case v of None \<Rightarrow> Fin 0 | Some x \<Rightarrow> x)"

text \<open>\<open>str(x)\<close> of an optional text inside an f-string\<close>

definition pystr :: "string option \<Rightarrow> string" where
  "pystr v = (case v of None \<Rightarrow> ''None'' | Some s \<Rightarrow> s)"

definition jstr_opt :: "string option \<Rightarrow> jval" where
  "jstr_opt v = (case v of None \<Rightarrow> JNull | Some s \<Rightarrow> JStr s)"

text \<open>\<open>d.get('success')\<close> as a truth value\<close>

definition get_success :: "pydict \<Rightarrow> bool" where
  "get_success d = (map_of d ''success'' = Some (JBool True))"

text \<open>\<open>d.get('error', default)\<close>\<close>

definition get_error :: "pydict \<Rightarrow> string \<Rightarrow> string" where
  "get_error d dflt = (case map_of d ''error'' of Some (JStr e) \<Rightarrow> e | _ \<Rightarrow> dflt)"

definition already_processed :: "ApprovalResult \<Rightarrow> bool" where
  "already_processed r = (map_of (data r) ''already_processed'' = Some (JBool True))"

definition balance_of :: "database \<Rightarrow> string \<Rightarrow> money" where
  "balance_of db uid =
     (case fetch_one (\<lambda>u. usr_id u = uid) (users db) of
        None \<Rightarrow> Fin 0 | Some u \<Rightarrow> float_or0 (real_balance u))"

text \<open>The text of the \<open>TypeError\<close> raised by \<open>None['real_balance']\<close>.\<close>

definition none_not_subscriptable :: string where
  "none_not_subscriptable = CHR 0x27 # ''NoneType'' @ [CHR 0x27] @ '' object is not subscriptable''"

section \<open>The service of \<^verbatim>\<open>src/backend\<close>: orders\<close>

text \<open>
  The local variables of \<open>_process_approval\<close> that its atomic unit sets, with the
  database as the unit has written it and the events emitted so far.
\<close>

record exec_state =
  x_db :: database
  x_status :: string
  x_result :: "pydict option"
  x_executed_at :: "timestamp option"
  x_error :: "string option"
  x_events :: "event list"

text \<open>The bot validation at the head of \<open>approve_or_reject_order\<close>.\<close>

definition order_bot_check :: "database \<Rightarrow> ActorType \<Rightarrow> string option \<Rightarrow> ApprovalResult option" where
  "order_bot_check db actor_type bot_id =
     (case bot_id of
        None \<Rightarrow> None
      | Some b \<Rightarrow>
          if actor_type = TELEGRAM_BOT \<and> b \<noteq> [] then
            (case fetch_one (\<lambda>r. bot_ident r = b) (telegram_bots db) of
               None \<Rightarrow> Some \<lparr>success = False, message = ''Bot not found'', data = []\<rparr>
             | Some bot_row \<Rightarrow>
                 if \<not> is_active bot_row then
                   Some \<lparr>success = False, message = ''Bot is not active'', data = []\<rparr>
                 else if \<not> can_approve_payments bot_row then
                   Some \<lparr>success = False, message = ''Bot does not have approval permissions'',
                         data = []\<rparr>
                 else None)
          else None)"

text \<open>
  \<open>execute_game_load\<close>: every exception is caught and becomes a failure result; what
  the unit has written before stays in the unit.
\<close>

definition execute_game_load :: "env \<Rightarrow> order \<Rightarrow> user \<Rightarrow> database \<Rightarrow> database \<times> pydict" where
  "execute_game_load env order user db =
     (let load = uuid4 env 0;
          gname = game_name order;
          amount = ord_amount order;
          failed = (\<lambda>e. [(''success'', JBool False), (''error'', JStr e)])
      in case fault env S_game_fetch of
           Some e \<Rightarrow> (db, failed e)
         | None \<Rightarrow>
       (case (case gname of
                None \<Rightarrow> None
              | Some n \<Rightarrow> fetch_one (\<lambda>g. gm_game_name g = n \<or> game_id g = n) (games db)) of
          None \<Rightarrow> (db, failed (''Game not found: '' @ pystr gname))
        | Some game \<Rightarrow>
       (case fault env S_game_balance_fetch of
          Some e \<Rightarrow> (db, failed e)
        | None \<Rightarrow>
       (case fetch_one (\<lambda>u. usr_id u = usr_id user) (users db) of
          None \<Rightarrow> (db, failed none_not_subscriptable)
        | Some current_user \<Rightarrow>
            let wallet_before = float_or0 (real_balance current_user);
                new_balance = fsub env wallet_before amount
            in if flt new_balance (Fin 0) then
                 (db, [(''success'', JBool False), (''error'', JStr ''Insufficient wallet balance''),
                       (''balance'', JNum wallet_before)])
               else
       (case fault env S_game_debit_user of
          Some e \<Rightarrow> (db, failed e)
        | None \<Rightarrow>
            let db1 = db\<lparr>users := sql_update (\<lambda>u. usr_id u = usr_id user)
                         (\<lambda>u. u\<lparr>real_balance := Some new_balance\<rparr>) (users db)\<rparr>;
                creds = [(''session_id'', JStr (take 8 (uuid4 env 1))),
                         (''game_token'', JStr (''GT-'' @ take 8 load)),
                         (''loaded_at'', JTime (later env))]
            in
       (case fault env S_game_insert_load of
          Some e \<Rightarrow> (db1, failed e)
        | None \<Rightarrow>
            let db2 = db1\<lparr>game_loads := game_loads db1 @
                         [\<lparr>load_id = load, gl_user_id = usr_id user, gl_game_id = game_id game,
                           gl_game_name = gm_game_name game, gl_amount = amount,
                           wallet_balance_before = wallet_before,
                           wallet_balance_after = new_balance, gl_status = ''completed'',
                           game_credentials = creds\<rparr>]\<rparr>
            in
       (case fault env S_game_ledger of
          Some e \<Rightarrow> (db2, failed e)
        | None \<Rightarrow>
            (db2\<lparr>wallet_ledger := wallet_ledger db2 @
                   [\<lparr>ledger_id = uuid4 env 2, led_user_id = usr_id user,
                     transaction_type = ''debit'', led_amount = amount,
                     balance_before = wallet_before, balance_after = new_balance,
                     reference_type = ''game_load'', reference_id = load,
                     description = ''Game load: '' @ pystr (gm_display_name game) @
                       '' (Order: '' @ take 8 (order_id order) @ '')''\<rparr>]\<rparr>,
             [(''success'', JBool True), (''load_id'', JStr load),
              (''amount_loaded'', JNum amount),
              (''wallet_balance_remaining'', JNum new_balance),
              (''game_name'', JStr (gm_game_name game)),
              (''game_display_name'', jstr_opt (gm_display_name game)),
              (''game_credentials'', JObj creds)]))))))))"

text \<open>\<open>execute_withdrawal\<close>: it reads the balance and reports; it writes nothing.\<close>

definition execute_withdrawal :: "env \<Rightarrow> order \<Rightarrow> user \<Rightarrow> database \<Rightarrow> pydict" where
  "execute_withdrawal env order user db =
     (let transaction_id = uuid4 env 1;
          payout = (case payout_amount order of
                      None \<Rightarrow> ord_amount order
                    | Some p \<Rightarrow> if p = Fin 0 then ord_amount order else p);
          void = float_or0 (void_amount order);
          failed = (\<lambda>e. [(''success'', JBool False), (''error'', JStr e)])
      in case fault env S_withdraw_balance_fetch of
           Some e \<Rightarrow> failed e
         | None \<Rightarrow>
             (case fetch_one (\<lambda>u. usr_id u = usr_id user) (users db) of
                None \<Rightarrow> failed none_not_subscriptable
              | Some current_user \<Rightarrow>
                  [(''success'', JBool True), (''transaction_id'', JStr transaction_id),
                   (''payout_amount'', JNum payout), (''void_amount'', JNum void),
                   (''wallet_balance_remaining'', JNum (float_or0 (real_balance current_user))),
                   (''executed_at'', JTime (later env))]))"

text \<open>The branch \<open>order_type in ['wallet_topup', 'deposit']\<close> of the atomic unit.\<close>

definition credit_wallet :: "env \<Rightarrow> order \<Rightarrow> user \<Rightarrow> money \<Rightarrow> money \<Rightarrow> database \<Rightarrow> exec_state" where
  "credit_wallet env order user amount bonus db =
     (let current_balance = float_or0 (real_balance user);
          new_balance = fadd env current_balance amount;
          failed = (\<lambda>e d.
            \<lparr>x_db = d, x_status = ''APPROVED_FAILED'',
             x_result = Some [(''success'', JBool False),
                              (''error'', JStr (''Wallet credit failed: '' @ e))],
             x_executed_at = Some (now env),
             x_error = Some (''Wallet credit failed: '' @ e), x_events = []\<rparr>)
      in case fault env S_credit_user of
           Some e \<Rightarrow> failed e db
         | None \<Rightarrow>
             let db1 = db\<lparr>users := sql_update (\<lambda>u. usr_id u = usr_id user)
                          (\<lambda>u. u\<lparr>real_balance := Some new_balance,
                                  bonus_balance := fadd env (bonus_balance u) bonus,
                                  deposit_count := deposit_count u + 1,
                                  total_deposited := fadd env (total_deposited u) amount\<rparr>)
                          (users db)\<rparr>
             in (case fault env S_credit_ledger of
                  Some e \<Rightarrow> failed e db1
                | None \<Rightarrow>
                    \<lparr>x_db = db1\<lparr>wallet_ledger := wallet_ledger db1 @
                              [\<lparr>ledger_id = uuid4 env 0, led_user_id = usr_id user,
                                transaction_type = ''credit'', led_amount = amount,
                                balance_before = current_balance, balance_after = new_balance,
                                reference_type = ''order'', reference_id = order_id order,
                                description = ''Wallet top-up via '' @
                                  pystr (payment_method order)\<rparr>]\<rparr>,
                     x_status = ''APPROVED_EXECUTED'',
                     x_result = Some [(''success'', JBool True), (''wallet_credited'', JNum amount),
                                      (''wallet_balance'', JNum new_balance),
                                      (''executed_at'', JTime (now env))],
                     x_executed_at = Some (now env), x_error = None, x_events = []\<rparr>))"

text \<open>The branch \<open>order_type == 'game_load'\<close>.\<close>

definition game_load_branch :: "env \<Rightarrow> order \<Rightarrow> user \<Rightarrow> database \<Rightarrow> exec_state" where
  "game_load_branch env order user db =
     (case execute_game_load env order user db of
        (db1, res) \<Rightarrow>
          if \<not> get_success res then
            \<lparr>x_db = db1, x_status = ''APPROVED_FAILED'', x_result = Some res,
             x_executed_at = Some (now env),
             x_error = Some (get_error res ''Game load execution failed''),
             x_events = emit_event
               \<lparr>event_type = GAME_LOAD_FAILED, ev_reference_id = order_id order,
                ev_reference_type = ''order'', ev_user_id = usr_id user, ev_amount = None,
                extra_data = [], requires_action = True\<rparr> []\<rparr>
          else
            \<lparr>x_db = db1, x_status = ''APPROVED_EXECUTED'', x_result = Some res,
             x_executed_at = Some (now env), x_error = None, x_events = []\<rparr>)"

text \<open>The branch \<open>order_type == 'withdrawal'\<close>.\<close>

definition withdraw_wallet :: "env \<Rightarrow> order \<Rightarrow> user \<Rightarrow> money \<Rightarrow> database \<Rightarrow> exec_state" where
  "withdraw_wallet env order user amount db =
     (let current_balance = float_or0 (real_balance user);
          new_balance = fsub env current_balance amount;
          failed = (\<lambda>e d.
            \<lparr>x_db = d, x_status = ''APPROVED_FAILED'',
             x_result = Some [(''success'', JBool False),
                              (''error'', JStr (''Withdrawal failed: '' @ e))],
             x_executed_at = Some (now env),
             x_error = Some (''Withdrawal failed: '' @ e), x_events = []\<rparr>)
      in if flt new_balance (Fin 0) then failed ''Insufficient balance for withdrawal'' db
         else
           case fault env S_withdraw_user of
             Some e \<Rightarrow> failed e db
           | None \<Rightarrow>
               let db1 = db\<lparr>users := sql_update (\<lambda>u. usr_id u = usr_id user)
                            (\<lambda>u. u\<lparr>real_balance := Some new_balance,
                                    total_withdrawn := fadd env (total_withdrawn u) amount\<rparr>)
                            (users db)\<rparr>
               in (case fault env S_withdraw_ledger of
                    Some e \<Rightarrow> failed e db1
                  | None \<Rightarrow>
                      let db2 = db1\<lparr>wallet_ledger := wallet_ledger db1 @
                                  [\<lparr>ledger_id = uuid4 env 0, led_user_id = usr_id user,
                                    transaction_type = ''debit'', led_amount = amount,
                                    balance_before = current_balance,
                                    balance_after = new_balance,
                                    reference_type = ''withdrawal'',
                                    reference_id = order_id order,
                                    description = ''Withdrawal to '' @
                                      pystr (payment_method order)\<rparr>]\<rparr>;
                          res = execute_withdrawal env order user db2
                      in if \<not> get_success res then
                           \<lparr>x_db = db2, x_status = ''APPROVED_FAILED'',
                            x_result = Some res, x_executed_at = Some (now env),
                            x_error = Some (get_error res
                                              ''Withdrawal execution failed''),
                            x_events = []\<rparr>
                         else
                           \<lparr>x_db = db2, x_status = ''APPROVED_EXECUTED'',
                            x_result = Some res, x_executed_at = Some (now env),
                            x_error = None, x_events = []\<rparr>))"

text \<open>
  The side effects by order type. An order of no listed type runs no branch and keeps
  the defaults the unit starts with.
\<close>

definition apply_side_effects :: "env \<Rightarrow> order \<Rightarrow> user \<Rightarrow> money \<Rightarrow> money \<Rightarrow> database \<Rightarrow> exec_state" where
  "apply_side_effects env order user amount bonus db =
     (if order_type order = Some ''wallet_topup'' \<or> order_type order = Some ''deposit'' then
        credit_wallet env order user amount bonus db
      else if order_type order = Some ''game_load'' then game_load_branch env order user db
      else if order_type order = Some ''withdrawal'' then withdraw_wallet env order user amount db
      else \<lparr>x_db = db, x_status = ''APPROVED_EXECUTED'', x_result = None,
            x_executed_at = None, x_error = None, x_events = []\<rparr>)"

text \<open>
  The body of \<open>async with conn.transaction()\<close> in \<open>_process_approval\<close>. \<open>Inl\<close> is an
  exception that leaves the block (the unit is rolled back), with the events emitted
  before it.
\<close>

definition approval_unit ::
  "env \<Rightarrow> order \<Rightarrow> user \<Rightarrow> ActorType \<Rightarrow> string \<Rightarrow> money \<Rightarrow> money \<Rightarrow> bool \<Rightarrow> database
     \<Rightarrow> (string \<times> event list) + exec_state" where
  "approval_unit env order user actor_type actor_id amount bonus adjusted db =
     (case fault env S_inc_attempts of
        Some e \<Rightarrow> Inl (e, [])
      | None \<Rightarrow>
          let db1 = db\<lparr>orders := sql_update (\<lambda>r. order_id r = order_id order)
                       (\<lambda>r. r\<lparr>execution_attempts := execution_attempts r + 1\<rparr>) (orders db)\<rparr>;
              x = apply_side_effects env order user amount bonus db1
          in (case fault env S_final_status of
               Some e \<Rightarrow> Inl (e, x_events x)
             | None \<Rightarrow>
                 Inr (x\<lparr>x_db := (x_db x)\<lparr>orders := sql_update (\<lambda>r. order_id r = order_id order)
                        (\<lambda>r. r\<lparr>ord_status := x_status x,
                                approved_by := Some actor_id,
                                approved_by_type := Some (actor_value actor_type),
                                approved_by_id := Some actor_id,
                                approved_at := Some (now env),
                                ord_amount := amount,
                                total_amount := Some (fadd env amount bonus),
                                amount_adjusted := Some adjusted,
                                adjusted_by := (if adjusted then Some actor_id else None),
                                adjusted_at := (if adjusted then Some (now env) else None),
                                executed_at := x_executed_at x,
                                execution_result := map_option JObj (x_result x),
                                execution_error := x_error x\<rparr>)
                        (orders (x_db x))\<rparr>\<rparr>)))"

text \<open>The events \<open>_process_approval\<close> emits after the unit has committed.\<close>

definition approval_events ::
  "order \<Rightarrow> user \<Rightarrow> ActorType \<Rightarrow> string \<Rightarrow> money \<Rightarrow> bool \<Rightarrow> exec_state \<Rightarrow> event list" where
  "approval_events order user actor_type actor_id amount adjusted x =
     (let otype = order_type order;
          ev1 = \<lparr>event_type =
                   (if otype = Some ''wallet_topup'' then WALLET_TOPUP_APPROVED
                    else if otype = Some ''withdrawal'' then WITHDRAW_APPROVED
                    else ORDER_APPROVED),
                 ev_reference_id = order_id order, ev_reference_type = ''order'',
                 ev_user_id = usr_id user, ev_amount = Some amount,
                 extra_data = [(''order_type'', jstr_opt otype), (''approved_by'', JStr actor_id),
                               (''actor_type'', JStr (actor_value actor_type)),
                               (''amount_adjusted'', JBool adjusted),
                               (''original_amount'',
                                  if adjusted then JNum (ord_amount order) else JNull),
                               (''final_status'', JStr (x_status x))],
                 requires_action = False\<rparr>;
          evs1 = emit_event ev1 (x_events x);
          evs2 = (if adjusted then
                    emit_event
                      \<lparr>event_type = ORDER_AMOUNT_ADJUSTED, ev_reference_id = order_id order,
                       ev_reference_type = ''order'', ev_user_id = usr_id user,
                       ev_amount = Some amount,
                       extra_data = [(''old_amount'', JNum (ord_amount order)),
                                     (''new_amount'', JNum amount),
                                     (''adjusted_by'', JStr actor_id)],
                       requires_action = False\<rparr> evs1
                  else evs1)
      in case x_result x of
           None \<Rightarrow> evs2
         | Some res \<Rightarrow>
             if \<not> get_success res then evs2
             else if otype = Some ''game_load'' then
               emit_event
                 \<lparr>event_type = GAME_LOAD_SUCCESS, ev_reference_id = order_id order,
                  ev_reference_type = ''order'', ev_user_id = usr_id user,
                  ev_amount = Some amount,
                  extra_data =
                    [(''load_id'', case map_of res ''load_id'' of
                                     None \<Rightarrow> JNull | Some v \<Rightarrow> v),
                     (''game_name'', case map_of res ''game_name'' of
                                       None \<Rightarrow> JNull | Some v \<Rightarrow> v),
                     (''wallet_balance_remaining'',
                        case map_of res ''wallet_balance_remaining'' of
                          None \<Rightarrow> JNull | Some v \<Rightarrow> v)],
                  requires_action = False\<rparr> evs2
             else if otype = Some ''withdrawal'' then
               emit_event
                 \<lparr>event_type = WITHDRAW_EXECUTED, ev_reference_id = order_id order,
                  ev_reference_type = ''order'', ev_user_id = usr_id user,
                  ev_amount = Some amount, extra_data = res,
                  requires_action = False\<rparr> evs2
             else if otype = Some ''wallet_topup'' \<or> otype = Some ''deposit'' then
               emit_event
                 \<lparr>event_type = WALLET_TOPUP_APPROVED, ev_reference_id = order_id order,
                  ev_reference_type = ''order'', ev_user_id = usr_id user,
                  ev_amount = Some amount, extra_data = res,
                  requires_action = False\<rparr> evs2
             else evs2)"

text \<open>\<open>_process_approval\<close>\<close>

definition process_approval ::
  "env \<Rightarrow> order \<Rightarrow> user \<Rightarrow> ActorType \<Rightarrow> string \<Rightarrow> money option \<Rightarrow> database
     \<Rightarrow> (string + ApprovalResult) \<times> database \<times> event list" where
  "process_approval env order user actor_type actor_id final_amount db =
     (let amount = (case final_amount of None \<Rightarrow> ord_amount order | Some a \<Rightarrow> a);
          bonus = float_or0 (bonus_amount order);
          adjusted = (case final_amount of
                        None \<Rightarrow> False | Some a \<Rightarrow> py_ne a (ord_amount order))
      in case approval_unit env order user actor_type actor_id amount bonus adjusted db of
           Inl (e, evs) \<Rightarrow> (Inl e, db, evs)
         | Inr x \<Rightarrow>
             if x_status x = ''APPROVED_FAILED'' then
               (Inr \<lparr>success = False,
                     message = ''Execution failed: '' @ pystr (x_error x),
                     data = [(''order_id'', JStr (order_id order)),
                             (''status'', JStr (x_status x)),
                             (''execution_error'', jstr_opt (x_error x))]\<rparr>,
                x_db x, x_events x)
             else
               (Inr \<lparr>success = True,
                     message = ''Order approved and executed successfully'',
                     data = [(''order_id'', JStr (order_id order)), (''amount'', JNum amount),
                             (''amount_adjusted'', JBool adjusted),
                             (''order_type'', jstr_opt (order_type order)),
                             (''status'', JStr (x_status x)),
                             (''executed'', JBool (x_executed_at x \<noteq> None)),
                             (''execution_result'',
                                case x_result x of None \<Rightarrow> JNull | Some d \<Rightarrow> JObj d)]\<rparr>,
                x_db x,
                approval_events order user actor_type actor_id amount adjusted x))"

text \<open>\<open>_process_rejection\<close>: one status write outside any unit, then the event.\<close>

definition process_rejection ::
  "env \<Rightarrow> order \<Rightarrow> user \<Rightarrow> ActorType \<Rightarrow> string \<Rightarrow> string option \<Rightarrow> database
     \<Rightarrow> (string + ApprovalResult) \<times> database \<times> event list" where
  "process_rejection env order user actor_type actor_id rejection_reason_arg db =
     (let otype = order_type order;
          reason = (case rejection_reason_arg of
                      None \<Rightarrow> ''Rejected by reviewer''
                    | Some r \<Rightarrow> if r = [] then ''Rejected by reviewer'' else r)
      in case fault env S_reject_status of
           Some e \<Rightarrow> (Inl e, db, [])
         | None \<Rightarrow>
             (Inr \<lparr>success = True, message = ''Order rejected'',
                   data = [(''order_id'', JStr (order_id order)), (''reason'', JStr reason),
                           (''order_type'', jstr_opt otype)]\<rparr>,
              db\<lparr>orders := sql_update (\<lambda>r. order_id r = order_id order)
                   (\<lambda>r. r\<lparr>ord_status := ''REJECTED'', rejection_reason := Some reason,
                           approved_by := Some actor_id,
                           approved_by_type := Some (actor_value actor_type),
                           approved_by_id := Some actor_id,
                           approved_at := Some (now env)\<rparr>) (orders db)\<rparr>,
              emit_event
                \<lparr>event_type =
                   (if otype = Some ''wallet_topup'' then WALLET_TOPUP_REJECTED
                    else if otype = Some ''withdrawal'' then WITHDRAW_REJECTED
                    else ORDER_REJECTED),
                 ev_reference_id = order_id order, ev_reference_type = ''order'',
                 ev_user_id = usr_id user, ev_amount = Some (ord_amount order),
                 extra_data = [(''order_type'', jstr_opt otype), (''rejected_by'', JStr actor_id),
                               (''actor_type'', JStr (actor_value actor_type)),
                               (''reason'', JStr reason)],
                 requires_action = False\<rparr> []))"

text \<open>\<open>approve_or_reject_order\<close>\<close>

definition approve_or_reject_order ::
  "env \<Rightarrow> string \<Rightarrow> string \<Rightarrow> ActorType \<Rightarrow> string \<Rightarrow> money option \<Rightarrow> string option
     \<Rightarrow> string option \<Rightarrow> database \<Rightarrow> (string + ApprovalResult) \<times> database \<times> event list" where
  "approve_or_reject_order env oid action actor_type actor_id final_amount rejection_reason_arg
       bot_id db =
     (case order_bot_check db actor_type bot_id of
        Some r \<Rightarrow> (Inr r, db, [])
      | None \<Rightarrow>
     (case fetch_one (\<lambda>r. order_id r = oid) (orders db) of
        None \<Rightarrow> (Inr \<lparr>success = False, message = ''Order not found'', data = []\<rparr>, db, [])
      | Some order \<Rightarrow>
          if ord_status order \<notin> set [''pending'', ''PENDING_REVIEW'', ''initiated'',
                                     ''awaiting_payment_proof''] then
            (Inr \<lparr>success = False, message = ''Order already '' @ ord_status order,
                  data = [(''already_processed'', JBool True)]\<rparr>, db, [])
          else
     (case fetch_one (\<lambda>u. usr_id u = ord_user_id order) (users db) of
        None \<Rightarrow> (Inr \<lparr>success = False, message = ''User not found'', data = []\<rparr>, db, [])
      | Some user \<Rightarrow>
          if action = ''approve'' then
            process_approval env order user actor_type actor_id final_amount db
          else
            process_rejection env order user actor_type actor_id rejection_reason_arg db)))"

section \<open>The service of \<^verbatim>\<open>src/backend\<close>: wallet load requests\<close>

definition wallet_bot_check :: "database \<Rightarrow> ActorType \<Rightarrow> string option \<Rightarrow> ApprovalResult option" where
  "wallet_bot_check db actor_type bot_id =
     (case bot_id of
        None \<Rightarrow> None
      | Some b \<Rightarrow>
          if actor_type = TELEGRAM_BOT \<and> b \<noteq> [] then
            (case fetch_one (\<lambda>r. bot_ident r = b) (telegram_bots db) of
               None \<Rightarrow> Some \<lparr>success = False, message = ''Bot not found'', data = []\<rparr>
             | Some bot_row \<Rightarrow>
                 if \<not> is_active bot_row then
                   Some \<lparr>success = False, message = ''Bot is not active'', data = []\<rparr>
                 else if \<not> can_approve_wallet_loads bot_row then
                   Some \<lparr>success = False,
                         message = ''Bot does not have wallet load approval permissions'',
                         data = []\<rparr>
                 else None)
          else None)"

text \<open>
  \<open>SELECT wlr.*, u.username, u.display_name, u.real_balance FROM wallet_load_requests wlr
  JOIN users u ON wlr.user_id = u.user_id WHERE wlr.request_id = $1\<close>: the first row of
  the join, as the request and the user it was joined with.
\<close>

definition fetch_load_request :: "string \<Rightarrow> database \<Rightarrow> (wallet_load_request \<times> user) option" where
  "fetch_load_request rid db =
     fetch_one (\<lambda>row. request_id (fst row) = rid)
       (concat (map (\<lambda>r. map (Pair r) (filter (\<lambda>u. usr_id u = wlr_user_id r) (users db)))
          (wallet_load_requests db)))"

text \<open>\<open>approve_or_reject_wallet_load\<close>. Nothing catches an exception of the unit.\<close>

definition approve_or_reject_wallet_load ::
  "env \<Rightarrow> string \<Rightarrow> string \<Rightarrow> ActorType \<Rightarrow> string \<Rightarrow> money option \<Rightarrow> string option
     \<Rightarrow> string option \<Rightarrow> database \<Rightarrow> (string + ApprovalResult) \<times> database \<times> event list" where
  "approve_or_reject_wallet_load env rid action actor_type actor_id final_amount
       rejection_reason_arg bot_id db =
     (case wallet_bot_check db actor_type bot_id of
        Some r \<Rightarrow> (Inr r, db, [])
      | None \<Rightarrow>
     (case fetch_load_request rid db of
        None \<Rightarrow> (Inr \<lparr>success = False, message = ''Request not found'', data = []\<rparr>, db, [])
      | Some (load_request, joined_user) \<Rightarrow>
          if wlr_status load_request \<noteq> ''pending'' then
            (Inr \<lparr>success = False, message = ''Request already '' @ wlr_status load_request,
                  data = [(''already_processed'', JBool True)]\<rparr>, db, [])
          else
            (let amount = (case final_amount of None \<Rightarrow> wlr_amount load_request | Some a \<Rightarrow> a);
                 adjusted = (case final_amount of
                               None \<Rightarrow> False | Some a \<Rightarrow> py_ne a (wlr_amount load_request))
             in if action = ''approve'' then
                  (let current_balance = float_or0 (real_balance joined_user);
                       new_balance = fadd env current_balance amount
                   in
                  (case fault env S_wl_user of
                     Some e \<Rightarrow> (Inl e, db, [])
                   | None \<Rightarrow>
                  (case fault env S_wl_request of
                     Some e \<Rightarrow> (Inl e, db, [])
                   | None \<Rightarrow>
                  (case fault env S_wl_ledger of
                     Some e \<Rightarrow> (Inl e, db, [])
                   | None \<Rightarrow>
                       (Inr \<lparr>success = True, message = ''Wallet load approved'',
                             data = [(''request_id'', JStr rid), (''amount'', JNum amount),
                                     (''new_balance'', JNum new_balance),
                                     (''amount_adjusted'', JBool adjusted)]\<rparr>,
                        db\<lparr>users := sql_update (\<lambda>u. usr_id u = wlr_user_id load_request)
                             (\<lambda>u. u\<lparr>real_balance := Some new_balance\<rparr>) (users db),
                           wallet_load_requests := sql_update (\<lambda>r. request_id r = rid)
                             (\<lambda>r. r\<lparr>wlr_status := ''approved'', wlr_amount := amount,
                                     reviewed_by := Some actor_id,
                                     reviewed_at := Some (now env)\<rparr>) (wallet_load_requests db),
                           wallet_ledger := wallet_ledger db @
                             [\<lparr>ledger_id = uuid4 env 0,
                               led_user_id = wlr_user_id load_request,
                               transaction_type = ''credit'', led_amount = amount,
                               balance_before = current_balance, balance_after = new_balance,
                               reference_type = ''wallet_load'', reference_id = rid,
                               description = ''Wallet load via '' @
                                 pystr (wlr_payment_method load_request)\<rparr>]\<rparr>,
                        emit_event
                          \<lparr>event_type = WALLET_LOAD_APPROVED, ev_reference_id = rid,
                           ev_reference_type = ''wallet_load'',
                           ev_user_id = wlr_user_id load_request, ev_amount = Some amount,
                           extra_data = [(''new_balance'', JNum new_balance),
                                         (''approved_by'', JStr actor_id),
                                         (''actor_type'', JStr (actor_value actor_type)),
                                         (''amount_adjusted'', JBool adjusted)],
                           requires_action = False\<rparr> [])))))
                else
                  (let reason = (case rejection_reason_arg of
                                   None \<Rightarrow> ''Rejected by reviewer''
                                 | Some r \<Rightarrow> if r = [] then ''Rejected by reviewer'' else r)
                   in
                  (case fault env S_wl_reject_status of
                     Some e \<Rightarrow> (Inl e, db, [])
                   | None \<Rightarrow>
                       (Inr \<lparr>success = True, message = ''Wallet load rejected'',
                             data = [(''request_id'', JStr rid), (''reason'', JStr reason)]\<rparr>,
                        db\<lparr>wallet_load_requests := sql_update (\<lambda>r. request_id r = rid)
                             (\<lambda>r. r\<lparr>wlr_status := ''rejected'',
                                     wlr_rejection_reason := Some reason,
                                     reviewed_by := Some actor_id,
                                     reviewed_at := Some (now env)\<rparr>) (wallet_load_requests db)\<rparr>,
                        emit_event
                          \<lparr>event_type = WALLET_LOAD_REJECTED, ev_reference_id = rid,
                           ev_reference_type = ''wallet_load'',
                           ev_user_id = wlr_user_id load_request,
                           ev_amount = Some (wlr_amount load_request),
                           extra_data = [(''rejected_by'', JStr actor_id),
                                         (''actor_type'', JStr (actor_value actor_type)),
                                         (''reason'', JStr reason)],
                           requires_action = False\<rparr> []))))))"

section \<open>The service of \<^verbatim>\<open>src/AI9-main\<close>\<close>

text \<open>
  What the atomic unit of \<open>_process_approval\<close> leaves when no exception escapes it:
  the database as written and the variables \<open>execution_success\<close>,
  \<open>execution_result\<close> and \<open>final_status\<close>.
\<close>

record ai9_state =
  y_db :: database
  y_success :: bool
  y_result :: "string option"
  y_status :: string

definition ai9_side_effects :: "env \<Rightarrow> order \<Rightarrow> user \<Rightarrow> money \<Rightarrow> money \<Rightarrow> database
     \<Rightarrow> string + (database \<times> bool \<times> string option)" where
  "ai9_side_effects env order user amount bonus db =
     (if order_type order = Some ''wallet_topup'' \<or> order_type order = Some ''deposit'' then
        (let current_balance = float_or0 (real_balance user);
             new_balance = fadd env current_balance amount
         in
        (case fault env S_credit_user of
           Some e \<Rightarrow> Inl e
         | None \<Rightarrow>
        (case fault env S_credit_ledger of
           Some e \<Rightarrow> Inl e
         | None \<Rightarrow>
             Inr (db\<lparr>users := sql_update (\<lambda>u. usr_id u = usr_id user)
                       (\<lambda>u. u\<lparr>real_balance := Some new_balance,
                               bonus_balance := fadd env (bonus_balance u) bonus,
                               deposit_count := deposit_count u + 1,
                               total_deposited := fadd env (total_deposited u) amount\<rparr>)
                       (users db),
                     wallet_ledger := wallet_ledger db @
                       [\<lparr>ledger_id = uuid4 env 0, led_user_id = usr_id user,
                         transaction_type = ''credit'', led_amount = amount,
                         balance_before = current_balance, balance_after = new_balance,
                         reference_type = ''order'', reference_id = order_id order,
                         description = ''Wallet top-up via '' @
                           pystr (payment_method order)\<rparr>]\<rparr>,
                  True, Some (''Wallet credited: '' @ peso env amount)))))
      else if order_type order = Some ''game_load'' then
        Inr (db, True, Some ''Game load approved - pending execution via game_routes'')
      else if order_type order = Some ''withdrawal'' then
        (let current_balance = float_or0 (real_balance user)
         in if flt current_balance amount then
              Inl (''Insufficient balance: has '' @ peso env current_balance @
                   '', needs '' @ peso env amount)
            else
        (let new_balance = fsub env current_balance amount
         in
        (case fault env S_withdraw_user of
           Some e \<Rightarrow> Inl e
         | None \<Rightarrow>
        (case fault env S_withdraw_ledger of
           Some e \<Rightarrow> Inl e
         | None \<Rightarrow>
             Inr (db\<lparr>users := sql_update (\<lambda>u. usr_id u = usr_id user)
                       (\<lambda>u. u\<lparr>real_balance := Some new_balance,
                               total_withdrawn := fadd env (total_withdrawn u) amount\<rparr>)
                       (users db),
                     wallet_ledger := wallet_ledger db @
                       [\<lparr>ledger_id = uuid4 env 0, led_user_id = usr_id user,
                         transaction_type = ''debit'', led_amount = amount,
                         balance_before = current_balance, balance_after = new_balance,
                         reference_type = ''withdrawal'', reference_id = order_id order,
                         description = ''Withdrawal to '' @
                           pystr (payment_method order)\<rparr>]\<rparr>,
                  True, Some (''Withdrawal processed: '' @ peso env amount))))))
      else Inr (db, False, None))"

text \<open>The body of the unit: \<open>Inl\<close> is the exception that reaches \<open>except Exception\<close>.\<close>

definition ai9_approval_unit ::
  "env \<Rightarrow> order \<Rightarrow> user \<Rightarrow> string \<Rightarrow> money \<Rightarrow> money \<Rightarrow> bool \<Rightarrow> database
     \<Rightarrow> string + ai9_state" where
  "ai9_approval_unit env order user actor_id amount bonus adjusted db =
     (case ai9_side_effects env order user amount bonus db of
        Inl e \<Rightarrow> Inl e
      | Inr (db1, execution_success, result) \<Rightarrow>
          (let final_status = (if execution_success then ''APPROVED_EXECUTED''
                               else ''APPROVED_FAILED'')
           in
          (case fault env S_final_status of
             Some e \<Rightarrow> Inl e
           | None \<Rightarrow>
               Inr \<lparr>y_db = db1\<lparr>orders := sql_update (\<lambda>r. order_id r = order_id order)
                      (\<lambda>r. r\<lparr>ord_status := final_status,
                              approved_by := Some actor_id,
                              approved_at := Some (now env),
                              executed_at := (if execution_success then Some (now env)
                                              else None),
                              execution_result := map_option JStr result,
                              ord_amount := amount,
                              total_amount := Some (fadd env amount bonus),
                              amount_adjusted := Some adjusted,
                              adjusted_by := (if adjusted then Some actor_id else None),
                              adjusted_at := (if adjusted then Some (now env) else None)\<rparr>)
                      (orders db1)\<rparr>,
                    y_success = execution_success, y_result = result,
                    y_status = final_status\<rparr>)))"

text \<open>\<open>_process_approval\<close> of \<^verbatim>\<open>src/AI9-main\<close>\<close>

definition ai9_process_approval ::
  "env \<Rightarrow> order \<Rightarrow> user \<Rightarrow> ActorType \<Rightarrow> string \<Rightarrow> money option \<Rightarrow> database
     \<Rightarrow> (string + ApprovalResult) \<times> database \<times> event list" where
  "ai9_process_approval env order user actor_type actor_id final_amount db =
     (let amount = (case final_amount of None \<Rightarrow> ord_amount order | Some a \<Rightarrow> a);
          bonus = float_or0 (bonus_amount order);
          adjusted = (case final_amount of
                        None \<Rightarrow> False | Some a \<Rightarrow> py_ne a (ord_amount order))
      in
     (case ai9_approval_unit env order user actor_id amount bonus adjusted db of
        Inl e \<Rightarrow>
          (case fault env S_followup_status of
             Some e2 \<Rightarrow> (Inl e2, db, [])
           | None \<Rightarrow>
               (Inr \<lparr>success = False,
                     message = ''Order approved but execution failed: '' @ e,
                     data = [(''order_id'', JStr (order_id order)),
                             (''status'', JStr ''APPROVED_FAILED''), (''error'', JStr e)]\<rparr>,
                db\<lparr>orders := sql_update (\<lambda>r. order_id r = order_id order)
                     (\<lambda>r. r\<lparr>ord_status := ''APPROVED_FAILED'',
                             approved_by := Some actor_id,
                             approved_at := Some (now env),
                             execution_result := Some (JStr (''Execution failed: '' @ e))\<rparr>)
                     (orders db)\<rparr>,
                []))
      | Inr y \<Rightarrow>
          (let otype = order_type order;
               ev1 = \<lparr>event_type =
                        (if otype = Some ''wallet_topup'' then WALLET_TOPUP_APPROVED
                         else if otype = Some ''withdrawal'' then WITHDRAW_APPROVED
                         else ORDER_APPROVED),
                      ev_reference_id = order_id order, ev_reference_type = ''order'',
                      ev_user_id = usr_id user, ev_amount = Some amount,
                      extra_data = [(''order_type'', jstr_opt otype),
                                    (''approved_by'', JStr actor_id),
                                    (''actor_type'', JStr (actor_value actor_type)),
                                    (''amount_adjusted'', JBool adjusted),
                                    (''original_amount'',
                                       if adjusted then JNum (ord_amount order) else JNull),
                                    (''final_status'', JStr (y_status y)),
                                    (''execution_result'', jstr_opt (y_result y))],
                      requires_action = False\<rparr>;
               evs1 = emit_event ev1 [];
               evs2 = (if adjusted then
                         emit_event
                           \<lparr>event_type = ORDER_AMOUNT_ADJUSTED,
                            ev_reference_id = order_id order, ev_reference_type = ''order'',
                            ev_user_id = usr_id user, ev_amount = Some amount,
                            extra_data = [(''old_amount'', JNum (ord_amount order)),
                                          (''new_amount'', JNum amount),
                                          (''adjusted_by'', JStr actor_id)],
                            requires_action = False\<rparr> evs1
                       else evs1)
           in (Inr \<lparr>success = True,
                    message = ''Order approved and executed successfully ('' @ y_status y @ '')'',
                    data = [(''order_id'', JStr (order_id order)), (''amount'', JNum amount),
                            (''amount_adjusted'', JBool adjusted),
                            (''order_type'', jstr_opt otype),
                            (''final_status'', JStr (y_status y)),
                            (''execution_result'', jstr_opt (y_result y))]\<rparr>,
               y_db y, evs2))))"

text \<open>\<open>_process_rejection\<close> of \<^verbatim>\<open>src/AI9-main\<close>\<close>

definition ai9_process_rejection ::
  "env \<Rightarrow> order \<Rightarrow> user \<Rightarrow> ActorType \<Rightarrow> string \<Rightarrow> string option \<Rightarrow> database
     \<Rightarrow> (string + ApprovalResult) \<times> database \<times> event list" where
  "ai9_process_rejection env order user actor_type actor_id rejection_reason_arg db =
     (let otype = order_type order;
          reason = (case rejection_reason_arg of
                      None \<Rightarrow> ''Rejected by reviewer''
                    | Some r \<Rightarrow> if r = [] then ''Rejected by reviewer'' else r)
      in
     (case fault env S_reject_status of
        Some e \<Rightarrow> (Inl e, db, [])
      | None \<Rightarrow>
          (Inr \<lparr>success = True, message = ''Order rejected'',
                data = [(''order_id'', JStr (order_id order)), (''reason'', JStr reason),
                        (''order_type'', jstr_opt otype),
                        (''final_status'', JStr ''REJECTED'')]\<rparr>,
           db\<lparr>orders := sql_update (\<lambda>r. order_id r = order_id order)
                (\<lambda>r. r\<lparr>ord_status := ''REJECTED'', rejection_reason := Some reason,
                        approved_by := Some actor_id,
                        approved_at := Some (now env)\<rparr>) (orders db)\<rparr>,
           emit_event
             \<lparr>event_type =
                (if otype = Some ''wallet_topup'' then WALLET_TOPUP_REJECTED
                 else if otype = Some ''withdrawal'' then WITHDRAW_REJECTED
                 else ORDER_REJECTED),
              ev_reference_id = order_id order, ev_reference_type = ''order'',
              ev_user_id = usr_id user, ev_amount = Some (ord_amount order),
              extra_data = [(''order_type'', jstr_opt otype), (''rejected_by'', JStr actor_id),
                            (''actor_type'', JStr (actor_value actor_type)),
                            (''reason'', JStr reason), (''final_status'', JStr ''REJECTED'')],
              requires_action = False\<rparr> [])))"

text \<open>\<open>approve_or_reject_order\<close> of \<^verbatim>\<open>src/AI9-main\<close>\<close>

definition ai9_approve_or_reject_order ::
  "env \<Rightarrow> string \<Rightarrow> string \<Rightarrow> ActorType \<Rightarrow> string \<Rightarrow> money option \<Rightarrow> string option
     \<Rightarrow> string option \<Rightarrow> database \<Rightarrow> (string + ApprovalResult) \<times> database \<times> event list" where
  "ai9_approve_or_reject_order env oid action actor_type actor_id final_amount
       rejection_reason_arg bot_id db =
     (case order_bot_check db actor_type bot_id of
        Some r \<Rightarrow> (Inr r, db, [])
      | None \<Rightarrow>
     (case fetch_one (\<lambda>r. order_id r = oid) (orders db) of
        None \<Rightarrow> (Inr \<lparr>success = False, message = ''Order not found'', data = []\<rparr>, db, [])
      | Some order \<Rightarrow>
          if ord_status order \<notin> set [''PENDING_REVIEW'', ''pending_review'', ''pending'',
                                     ''initiated'', ''awaiting_payment_proof''] then
            (Inr \<lparr>success = False, message = ''Order already '' @ ord_status order,
                  data = [(''already_processed'', JBool True)]\<rparr>, db, [])
          else
     (case fetch_one (\<lambda>u. usr_id u = ord_user_id order) (users db) of
        None \<Rightarrow> (Inr \<lparr>success = False, message = ''User not found'', data = []\<rparr>, db, [])
      | Some user \<Rightarrow>
          if action = ''approve'' then
            ai9_process_approval env order user actor_type actor_id final_amount db
          else
            ai9_process_rejection env order user actor_type actor_id rejection_reason_arg db)))"

text \<open>\<open>approve_or_reject_wallet_load\<close> of \<^verbatim>\<open>src/AI9-main\<close>\<close>

definition ai9_approve_or_reject_wallet_load ::
  "env \<Rightarrow> string \<Rightarrow> string \<Rightarrow> ActorType \<Rightarrow> string \<Rightarrow> money option \<Rightarrow> string option
     \<Rightarrow> string option \<Rightarrow> database \<Rightarrow> (string + ApprovalResult) \<times> database \<times> event list" where
  "ai9_approve_or_reject_wallet_load env rid action actor_type actor_id final_amount
       rejection_reason_arg bot_id db =
     (case wallet_bot_check db actor_type bot_id of
        Some r \<Rightarrow> (Inr r, db, [])
      | None \<Rightarrow>
     (case fetch_load_request rid db of
        None \<Rightarrow> (Inr \<lparr>success = False, message = ''Request not found'', data = []\<rparr>, db, [])
      | Some (load_request, joined_user) \<Rightarrow>
          if wlr_status load_request \<notin> set [''PENDING_REVIEW'', ''pending_review'', ''pending''] then
            (Inr \<lparr>success = False, message = ''Request already '' @ wlr_status load_request,
                  data = [(''already_processed'', JBool True)]\<rparr>, db, [])
          else
            (let amount = (case final_amount of None \<Rightarrow> wlr_amount load_request | Some a \<Rightarrow> a);
                 adjusted = (case final_amount of
                               None \<Rightarrow> False | Some a \<Rightarrow> py_ne a (wlr_amount load_request))
             in if action = ''approve'' then
                  (let current_balance = float_or0 (real_balance joined_user);
                       new_balance = fadd env current_balance amount;
                       handler = (\<lambda>e.
                         (case fault env S_wl_followup_status of
                            Some e2 \<Rightarrow> (Inl e2, db, [])
                          | None \<Rightarrow>
                              (Inr \<lparr>success = False,
                                    message = ''Wallet load approved but execution failed: '' @ e,
                                    data = [(''request_id'', JStr rid),
                                            (''status'', JStr ''APPROVED_FAILED''),
                                            (''error'', JStr e)]\<rparr>,
                               db\<lparr>wallet_load_requests := sql_update (\<lambda>r. request_id r = rid)
                                    (\<lambda>r. r\<lparr>wlr_status := ''APPROVED_FAILED'',
                                            reviewed_by := Some actor_id,
                                            reviewed_at := Some (now env),
                                            wlr_rejection_reason :=
                                              Some (''Execution failed: '' @ e)\<rparr>)
                                    (wallet_load_requests db)\<rparr>,
                               [])))
                   in
                  (case fault env S_wl_user of
                     Some e \<Rightarrow> handler e
                   | None \<Rightarrow>
                  (case fault env S_wl_request of
                     Some e \<Rightarrow> handler e
                   | None \<Rightarrow>
                  (case fault env S_wl_ledger of
                     Some e \<Rightarrow> handler e
                   | None \<Rightarrow>
                       (Inr \<lparr>success = True,
                             message = ''Wallet load approved and executed (APPROVED_EXECUTED)'',
                             data = [(''request_id'', JStr rid), (''amount'', JNum amount),
                                     (''new_balance'', JNum new_balance),
                                     (''amount_adjusted'', JBool adjusted),
                                     (''final_status'', JStr ''APPROVED_EXECUTED'')]\<rparr>,
                        db\<lparr>users := sql_update (\<lambda>u. usr_id u = wlr_user_id load_request)
                             (\<lambda>u. u\<lparr>real_balance := Some new_balance\<rparr>) (users db),
                           wallet_load_requests := sql_update (\<lambda>r. request_id r = rid)
                             (\<lambda>r. r\<lparr>wlr_status := ''APPROVED_EXECUTED'', wlr_amount := amount,
                                     reviewed_by := Some actor_id,
                                     reviewed_at := Some (now env)\<rparr>) (wallet_load_requests db),
                           wallet_ledger := wallet_ledger db @
                             [\<lparr>ledger_id = uuid4 env 0,
                               led_user_id = wlr_user_id load_request,
                               transaction_type = ''credit'', led_amount = amount,
                               balance_before = current_balance, balance_after = new_balance,
                               reference_type = ''wallet_load'', reference_id = rid,
                               description = ''Wallet load via '' @
                                 pystr (wlr_payment_method load_request)\<rparr>]\<rparr>,
                        emit_event
                          \<lparr>event_type = WALLET_LOAD_APPROVED, ev_reference_id = rid,
                           ev_reference_type = ''wallet_load'',
                           ev_user_id = wlr_user_id load_request, ev_amount = Some amount,
                           extra_data = [(''new_balance'', JNum new_balance),
                                         (''approved_by'', JStr actor_id),
                                         (''actor_type'', JStr (actor_value actor_type)),
                                         (''amount_adjusted'', JBool adjusted),
                                         (''final_status'', JStr ''APPROVED_EXECUTED'')],
                           requires_action = False\<rparr> [])))))
                else
                  (let reason = (case rejection_reason_arg of
                                   None \<Rightarrow> ''Rejected by reviewer''
                                 | Some r \<Rightarrow> if r = [] then ''Rejected by reviewer'' else r)
                   in
                  (case fault env S_wl_reject_status of
                     Some e \<Rightarrow> (Inl e, db, [])
                   | None \<Rightarrow>
                       (Inr \<lparr>success = True, message = ''Wallet load rejected'',
                             data = [(''request_id'', JStr rid), (''reason'', JStr reason),
                                     (''final_status'', JStr ''REJECTED'')]\<rparr>,
                        db\<lparr>wallet_load_requests := sql_update (\<lambda>r. request_id r = rid)
                             (\<lambda>r. r\<lparr>wlr_status := ''REJECTED'',
                                     wlr_rejection_reason := Some reason,
                                     reviewed_by := Some actor_id,
                                     reviewed_at := Some (now env)\<rparr>) (wallet_load_requests db)\<rparr>,
                        emit_event
                          \<lparr>event_type = WALLET_LOAD_REJECTED, ev_reference_id = rid,
                           ev_reference_type = ''wallet_load'',
                           ev_user_id = wlr_user_id load_request,
                           ev_amount = Some (wlr_amount load_request),
                           extra_data = [(''rejected_by'', JStr actor_id),
                                         (''actor_type'', JStr (actor_value actor_type)),
                                         (''reason'', JStr reason),
                                         (''final_status'', JStr ''REJECTED'')],
                           requires_action = False\<rparr> []))))))"

section \<open>The public operation\<close>

text \<open>
  The spec's \<open>decide\<close> is one of four functions: the order flow or the wallet-load
  flow, in either copy of the service.
\<close>

datatype impl = Backend | AI9_main
datatype flow = OrderFlow | WalletLoadFlow

fun decide ::
  "impl \<Rightarrow> flow \<Rightarrow> env \<Rightarrow> string \<Rightarrow> string \<Rightarrow> ActorType \<Rightarrow> string \<Rightarrow> money option
     \<Rightarrow> string option \<Rightarrow> string option \<Rightarrow> database
     \<Rightarrow> (string + ApprovalResult) \<times> database \<times> event list" where
  "decide Backend OrderFlow = approve_or_reject_order"
| "decide Backend WalletLoadFlow = approve_or_reject_wallet_load"
| "decide AI9_main OrderFlow = ai9_approve_or_reject_order"
| "decide AI9_main WalletLoadFlow = ai9_approve_or_reject_wallet_load"

text \<open>The stored status of a request, as the flow's own lookup reads it.\<close>

fun request_status :: "flow \<Rightarrow> database \<Rightarrow> string \<Rightarrow> string option" where
  "request_status OrderFlow db rid =
     map_option ord_status (fetch_one (\<lambda>r. order_id r = rid) (orders db))"
| "request_status WalletLoadFlow db rid =
     map_option (\<lambda>row. wlr_status (fst row)) (fetch_load_request rid db)"

definition canonical_statuses :: "string list" where
  "canonical_statuses = [''PENDING_REVIEW'', ''APPROVED_EXECUTED'', ''APPROVED_FAILED'', ''REJECTED'']"

text \<open>
  The statuses each idempotency check lets through, and the bot validation of each
  flow: the lists and the block as they stand in the four functions.
\<close>

fun pending_statuses :: "impl \<Rightarrow> flow \<Rightarrow> string list" where
  "pending_statuses Backend OrderFlow =
     [''pending'', ''PENDING_REVIEW'', ''initiated'', ''awaiting_payment_proof'']"
| "pending_statuses Backend WalletLoadFlow = [''pending'']"
| "pending_statuses AI9_main OrderFlow =
     [''PENDING_REVIEW'', ''pending_review'', ''pending'', ''initiated'',
      ''awaiting_payment_proof'']"
| "pending_statuses AI9_main WalletLoadFlow = [''PENDING_REVIEW'', ''pending_review'', ''pending'']"

fun bot_check :: "flow \<Rightarrow> database \<Rightarrow> ActorType \<Rightarrow> string option \<Rightarrow> ApprovalResult option" where
  "bot_check OrderFlow = order_bot_check"
| "bot_check WalletLoadFlow = wallet_bot_check"

fun capability :: "flow \<Rightarrow> telegram_bot \<Rightarrow> bool" where
  "capability OrderFlow = can_approve_payments"
| "capability WalletLoadFlow = can_approve_wallet_loads"

fun capability_message :: "flow \<Rightarrow> string" where
  "capability_message OrderFlow = ''Bot does not have approval permissions''"
| "capability_message WalletLoadFlow = ''Bot does not have wallet load approval permissions''"

text \<open>
  A call passes the checks that precede the branch on the action: the bot validation
  lets the actor through, the request is found, its status is one of the pending ones and
  (in the order flow, which reads the user separately) its owner is found.
\<close>

definition processable :: "impl \<Rightarrow> flow \<Rightarrow> database \<Rightarrow> string \<Rightarrow> ActorType \<Rightarrow> string option \<Rightarrow> bool" where
  "processable i f db rid actor_type bot_id =
     (bot_check f db actor_type bot_id = None \<and>
      (case request_status f db rid of
         None \<Rightarrow> False
       | Some s \<Rightarrow> s \<in> set (pending_statuses i f)) \<and>
      (case f of
         OrderFlow \<Rightarrow>
           (case fetch_one (\<lambda>r. order_id r = rid) (orders db) of
              None \<Rightarrow> False
            | Some ord \<Rightarrow> fetch_one (\<lambda>u. usr_id u = ord_user_id ord) (users db) \<noteq> None)
       | WalletLoadFlow \<Rightarrow> True))"

text \<open>The result of a call that the idempotency check stops.\<close>

definition already_result :: "flow \<Rightarrow> string \<Rightarrow> ApprovalResult" where
  "already_result f s =
     \<lparr>success = False,
      message = (case f of OrderFlow \<Rightarrow> ''Order already '' | WalletLoadFlow \<Rightarrow> ''Request already '') @ s,
      data = [(''already_processed'', JBool True)]\<rparr>"

section \<open>Two calls at once\<close>

text \<open>
  \<open>approve_or_reject_order\<close> of \<^verbatim>\<open>src/backend\<close> up to its branch on the action:
  the bot validation, the read of the order, the idempotency check and the read of the
  user. Every read is an \<open>await\<close>, where another call may run.
\<close>

definition load_and_guard :: "database \<Rightarrow> string \<Rightarrow> ActorType \<Rightarrow> string option
     \<Rightarrow> ApprovalResult + (order \<times> user)" where
  "load_and_guard db oid actor_type bot_id =
     (case order_bot_check db actor_type bot_id of
        Some r \<Rightarrow> Inl r
      | None \<Rightarrow>
     (case fetch_one (\<lambda>r. order_id r = oid) (orders db) of
        None \<Rightarrow> Inl \<lparr>success = False, message = ''Order not found'', data = []\<rparr>
      | Some order \<Rightarrow>
          if ord_status order \<notin> set [''pending'', ''PENDING_REVIEW'', ''initiated'',
                                     ''awaiting_payment_proof''] then
            Inl \<lparr>success = False, message = ''Order already '' @ ord_status order,
                 data = [(''already_processed'', JBool True)]\<rparr>
          else
     (case fetch_one (\<lambda>u. usr_id u = ord_user_id order) (users db) of
        None \<Rightarrow> Inl \<lparr>success = False, message = ''User not found'', data = []\<rparr>
      | Some user \<Rightarrow> Inr (order, user))))"

text \<open>
  Two approve calls A and B on one order, in the schedule where both finish their reads on
  the same database before either opens its atomic unit; then A's unit runs, then B's.
  The result is A's and B's return values and the database after both.
\<close>

definition two_approvals_interleaved ::
  "env \<Rightarrow> env \<Rightarrow> string \<Rightarrow> ActorType \<Rightarrow> string \<Rightarrow> database
     \<Rightarrow> ((string + ApprovalResult) \<times> (string + ApprovalResult) \<times> database) option" where
  "two_approvals_interleaved envA envB oid actor_type actor_id db =
     (case load_and_guard db oid actor_type None of
        Inl r \<Rightarrow> None
      | Inr (orderA, userA) \<Rightarrow>
     (case load_and_guard db oid actor_type None of
        Inl r \<Rightarrow> None
      | Inr (orderB, userB) \<Rightarrow>
     (case process_approval envA orderA userA actor_type actor_id None db of
        (outA, dbA, evsA) \<Rightarrow>
     (case process_approval envB orderB userB actor_type actor_id None dbA of
        (outB, dbB, evsB) \<Rightarrow> Some (outA, outB, dbB)))))"

section \<open>Example data\<close>

text \<open>
  The environment of the examples rounds nothing: the amounts of the examples are whole
  numbers far below \<open>2^53\<close>, and so are their sums and differences, which a double
  holds exactly.
\<close>

definition env0 :: env where
  "env0 = \<lparr>now = 100, later = 101,
            uuid4 = (\<lambda>n. if n = 0 then ''1b4e28ba-2fa1'' else if n = 1 then ''6fa459ea-ee8a''
                         else ''9c5b94b1-35ad''),
            fault = (\<lambda>s. None),
            peso = (\<lambda>a. ''PHP''),
            rnd = Fin\<rparr>"

definition env1 :: env where
  "env1 = env0\<lparr>now := 102, later := 103, uuid4 := (\<lambda>n. ''7d444840-9dc0'')\<rparr>"

definition faulty :: "stmt \<Rightarrow> env" where
  "faulty s = env0\<lparr>fault := (\<lambda>x. if x = s then Some ''connection lost'' else None)\<rparr>"

definition order0 :: "string \<Rightarrow> rat \<Rightarrow> order" where
  "order0 kind amt =
     \<lparr>order_id = ''o1'', ord_user_id = ''u1'', ord_status = ''PENDING_REVIEW'',
      order_type = Some kind, ord_amount = Fin amt, bonus_amount = None,
      game_name = Some ''slots'', payment_method = Some ''gcash'', payout_amount = None,
      void_amount = None, execution_attempts = 0, approved_by = None,
      approved_by_type = None, approved_by_id = None, approved_at = None,
      total_amount = None, amount_adjusted = None, adjusted_by = None, adjusted_at = None,
      executed_at = None, execution_result = None, execution_error = None,
      rejection_reason = None\<rparr>"

definition user0 :: "rat \<Rightarrow> user" where
  "user0 bal =
     \<lparr>usr_id = ''u1'', username = Some ''alice'', display_name = None,
      real_balance = Some (Fin bal), bonus_balance = Fin 0, deposit_count = 0,
      total_deposited = Fin 0, total_withdrawn = Fin 0\<rparr>"

definition request0 :: "string \<Rightarrow> wallet_load_request" where
  "request0 st =
     \<lparr>request_id = ''w1'', wlr_user_id = ''u1'', wlr_status = st, wlr_amount = Fin 500,
      wlr_payment_method = Some ''gcash'', reviewed_by = None, reviewed_at = None,
      wlr_rejection_reason = None\<rparr>"

definition bot0 :: "bool \<Rightarrow> telegram_bot" where
  "bot0 active =
     \<lparr>bot_ident = ''b1'', is_active = active, can_approve_payments = True,
      can_approve_wallet_loads = True\<rparr>"

text \<open>One order of the given kind and amount, its user with the given balance.\<close>

definition order_db :: "string \<Rightarrow> rat \<Rightarrow> rat \<Rightarrow> database" where
  "order_db kind amt bal =
     \<lparr>orders = [order0 kind amt], users = [user0 bal], wallet_load_requests = [],
      telegram_bots = [bot0 False],
      games = [\<lparr>game_id = ''g1'', gm_game_name = ''slots'', gm_display_name = Some ''Slots''\<rparr>],
      wallet_ledger = [], game_loads = []\<rparr>"

text \<open>One wallet load request of 500.00 in the given status, its user with the given balance.\<close>

definition wallet_db :: "string \<Rightarrow> rat \<Rightarrow> database" where
  "wallet_db st bal =
     \<lparr>orders = [], users = [user0 bal], wallet_load_requests = [request0 st],
      telegram_bots = [bot0 False], games = [], wallet_ledger = [], game_loads = []\<rparr>"

section \<open>Unfolding rules\<close>

text \<open>The definitions to unfold when a call is evaluated on the example data.\<close>

lemmas example_defs = env0_def env1_def faulty_def order0_def user0_def request0_def bot0_def
  order_db_def wallet_db_def

lemmas python_defs = fetch_one_def sql_update_def emit_event_def float_or0_def pystr_def
  jstr_opt_def get_success_def get_error_def already_processed_def balance_of_def fsub_def

lemmas backend_order_defs = approve_or_reject_order_def order_bot_check_def
  process_approval_def approval_unit_def apply_side_effects_def credit_wallet_def
  withdraw_wallet_def game_load_branch_def execute_game_load_def execute_withdrawal_def
  approval_events_def process_rejection_def

lemmas ai9_order_defs = ai9_approve_or_reject_order_def order_bot_check_def
  ai9_process_approval_def ai9_approval_unit_def ai9_side_effects_def ai9_process_rejection_def

lemmas wallet_load_defs = approve_or_reject_wallet_load_def
  ai9_approve_or_reject_wallet_load_def wallet_bot_check_def fetch_load_request_def

section \<open>Reads and writes of a table\<close>

text \<open>
  A lookup returns a row that satisfies its condition, and an update that keeps the
  key of every row it touches shows through a later lookup by that key. The join of
  \<open>fetch_load_request\<close> follows updates of both of its tables in the same way.
\<close>

lemma fetch_one_SomeD: "fetch_one P rows = Some r \<Longrightarrow> P r"
  by (induction rows) (auto simp: fetch_one_def split: if_splits)

lemma fetch_one_sql_update:
  "(\<And>r. P (f r) = P r) \<Longrightarrow> fetch_one P (sql_update P f rows) = map_option f (fetch_one P rows)"
  by (induction rows) (auto simp: fetch_one_def sql_update_def)

lemma find_map_option: "find P (map h xs) = map_option h (find (\<lambda>x. P (h x)) xs)"
  by (induction xs) auto

lemma fetch_load_request_map:
  assumes "\<And>r. request_id (gr r) = request_id r" "\<And>r. wlr_user_id (gr r) = wlr_user_id r"
    "\<And>u. usr_id (gu u) = usr_id u"
  shows "fetch_load_request rid (db\<lparr>users := map gu (users db),
            wallet_load_requests := map gr (wallet_load_requests db)\<rparr>) =
         map_option (map_prod gr gu) (fetch_load_request rid db)"
proof -
  have "concat (map (\<lambda>r. map (Pair r) (filter (\<lambda>u. usr_id u = wlr_user_id r) (map gu us))) (map gr rs))
      = map (map_prod gr gu) (concat (map (\<lambda>r. map (Pair r) (filter (\<lambda>u. usr_id u = wlr_user_id r) us)) rs))"
    for us rs
    by (induction rs) (auto simp: filter_map comp_def assms)
  then show ?thesis
    by (simp add: fetch_load_request_def fetch_one_def find_map_option assms)
qed

lemma fetch_load_request_upd:
  assumes "users db' = map gu (users db)"
    "wallet_load_requests db' = map gr (wallet_load_requests db)"
    "\<And>r. request_id (gr r) = request_id r" "\<And>r. wlr_user_id (gr r) = wlr_user_id r"
    "\<And>u. usr_id (gu u) = usr_id u"
  shows "fetch_load_request rid db' = map_option (map_prod gr gu) (fetch_load_request rid db)"
proof -
  have "fetch_load_request rid db' = fetch_load_request rid (db\<lparr>users := map gu (users db),
            wallet_load_requests := map gr (wallet_load_requests db)\<rparr>)"
    by (simp add: fetch_load_request_def assms(1,2))
  then show ?thesis
    using fetch_load_request_map[of gr gu rid db] assms(3-5) by simp
qed

lemma fetch_load_request_id:
  "fetch_load_request rid db = Some (lr, u) \<Longrightarrow> request_id lr = rid"
  by (auto simp: fetch_load_request_def dest: fetch_one_SomeD)

lemma flr_upd3:
  assumes "\<And>r. request_id (f r) = request_id r" "\<And>r. wlr_user_id (f r) = wlr_user_id r"
    "\<And>u. usr_id (g u) = usr_id u"
  shows "fetch_load_request rid (db\<lparr>users := sql_update P g (users db),
            wallet_load_requests := sql_update Q f (wallet_load_requests db),
            wallet_ledger := l\<rparr>) =
         map_option (map_prod (\<lambda>r. if Q r then f r else r) (\<lambda>u. if P u then g u else u))
           (fetch_load_request rid db)"
  by (rule fetch_load_request_upd) (simp_all add: sql_update_def assms)

lemma flr_upd1:
  assumes "\<And>r. request_id (f r) = request_id r" "\<And>r. wlr_user_id (f r) = wlr_user_id r"
  shows "fetch_load_request rid (db\<lparr>wallet_load_requests := sql_update Q f (wallet_load_requests db)\<rparr>) =
         map_option (map_prod (\<lambda>r. if Q r then f r else r) (\<lambda>u. u))
           (fetch_load_request rid db)"
  by (rule fetch_load_request_upd) (simp_all add: sql_update_def assms)

lemma balance_of_updated:
  assumes "fetch_one (\<lambda>u. usr_id u = uid) (users db) = Some usr"
    and "users db' = sql_update (\<lambda>u. usr_id u = uid) g (users db)"
    and "\<And>u. usr_id (g u) = usr_id u"
  shows "balance_of db' uid = float_or0 (real_balance (g usr))"
  using assms by (simp add: balance_of_def fetch_one_sql_update)

section \<open>The bot validation\<close>

text \<open>
  The validation reads only the table of bots, and what it returns is a failure without
  data.
\<close>

lemma order_bot_check_bots:
  "telegram_bots db' = telegram_bots db \<Longrightarrow> order_bot_check db' atype bid = order_bot_check db atype bid"
  by (simp add: order_bot_check_def cong: option.case_cong if_cong)

lemma wallet_bot_check_bots:
  "telegram_bots db' = telegram_bots db \<Longrightarrow> wallet_bot_check db' atype bid = wallet_bot_check db atype bid"
  by (simp add: wallet_bot_check_def cong: option.case_cong if_cong)

lemma order_bot_check_fails: "order_bot_check db atype bid = Some r \<Longrightarrow> \<not> success r \<and> data r = []"
  by (auto simp: order_bot_check_def split: option.splits if_splits)

lemma wallet_bot_check_fails: "wallet_bot_check db atype bid = Some r \<Longrightarrow> \<not> success r \<and> data r = []"
  by (auto simp: wallet_bot_check_def split: option.splits if_splits)

section \<open>The order flow of \<^verbatim>\<open>src/backend\<close>\<close>

text \<open>
  What the atomic unit leaves: the side effects touch neither the orders nor the bots,
  the status is one of the two approved ones, and the order row is the old row with the
  fields of the final update.
\<close>

lemma execute_game_load_frame:
  "orders (fst (execute_game_load env order user db)) = orders db \<and>
   telegram_bots (fst (execute_game_load env order user db)) = telegram_bots db \<and>
   wallet_load_requests (fst (execute_game_load env order user db)) = wallet_load_requests db"
  by (simp add: execute_game_load_def Let_def split: option.splits)

lemma side_effects_frame:
  "orders (x_db (apply_side_effects env order user amount bonus db)) = orders db \<and>
   telegram_bots (x_db (apply_side_effects env order user amount bonus db)) = telegram_bots db"
  using execute_game_load_frame[of env order user db]
  by (auto simp: apply_side_effects_def credit_wallet_def game_load_branch_def withdraw_wallet_def
      Let_def split: option.splits prod.splits)

lemma side_effects_status:
  "x_status (apply_side_effects env order user amount bonus db) = ''APPROVED_EXECUTED'' \<or>
   x_status (apply_side_effects env order user amount bonus db) = ''APPROVED_FAILED''"
  by (auto simp: apply_side_effects_def credit_wallet_def game_load_branch_def withdraw_wallet_def
      Let_def split: option.splits prod.splits)

lemma approval_unit_status:
  assumes "approval_unit env order user atype aid amount bonus adj db = Inr x"
  shows "x_status x = ''APPROVED_EXECUTED'' \<or> x_status x = ''APPROVED_FAILED''"
proof -
  let ?db1 = "db\<lparr>orders := sql_update (\<lambda>r. order_id r = order_id order)
                       (\<lambda>r. r\<lparr>execution_attempts := execution_attempts r + 1\<rparr>) (orders db)\<rparr>"
  from assms have "x_status x = x_status (apply_side_effects env order user amount bonus ?db1)"
    by (auto simp: approval_unit_def Let_def split: option.splits)
  with side_effects_status[of env order user amount bonus ?db1] show ?thesis by simp
qed

lemma approval_unit_bots:
  "approval_unit env order user atype aid amount bonus adj db = Inr x \<Longrightarrow>
   telegram_bots (x_db x) = telegram_bots db"
  by (auto simp: approval_unit_def Let_def side_effects_frame split: option.splits)

lemma approval_unit_row:
  "approval_unit env order user atype aid amount bonus adj db = Inr x \<Longrightarrow>
   fetch_one (\<lambda>r. order_id r = order_id order) (orders (x_db x)) =
         map_option (\<lambda>r. r\<lparr>execution_attempts := execution_attempts r + 1,
                               ord_status := x_status x,
                                approved_by := Some aid,
                                approved_by_type := Some (actor_value atype),
                                approved_by_id := Some aid,
                                approved_at := Some (now env),
                                ord_amount := amount,
                                total_amount := Some (fadd env amount bonus),
                                amount_adjusted := Some adj,
                                adjusted_by := (if adj then Some aid else None),
                                adjusted_at := (if adj then Some (now env) else None),
                                executed_at := x_executed_at x,
                                execution_result := map_option JObj (x_result x),
                                execution_error := x_error x\<rparr>)
           (fetch_one (\<lambda>r. order_id r = order_id order) (orders db))"
  by (auto simp: approval_unit_def Let_def side_effects_frame fetch_one_sql_update
        option.map_comp comp_def split: option.splits)

lemma approval_unit_ledger:
  "approval_unit env order user atype aid amount bonus adj db = Inr x \<Longrightarrow>
   wallet_ledger (x_db x) =
     wallet_ledger (x_db (apply_side_effects env order user amount bonus
       (db\<lparr>orders := sql_update (\<lambda>r. order_id r = order_id order)
                       (\<lambda>r. r\<lparr>execution_attempts := execution_attempts r + 1\<rparr>) (orders db)\<rparr>))) \<and>
   x_status x = x_status (apply_side_effects env order user amount bonus
       (db\<lparr>orders := sql_update (\<lambda>r. order_id r = order_id order)
                       (\<lambda>r. r\<lparr>execution_attempts := execution_attempts r + 1\<rparr>) (orders db)\<rparr>))"
  by (auto simp: approval_unit_def Let_def split: option.splits)

lemma process_approval_cases:
  assumes "process_approval env order user atype aid fa db = (out, db', evs)"
  shows "(\<exists>e. out = Inl e \<and> db' = db) \<or>
     (\<exists>x r. approval_unit env order user atype aid (case fa of None \<Rightarrow> ord_amount order | Some a \<Rightarrow> a)
         (float_or0 (bonus_amount order)) (case fa of None \<Rightarrow> False | Some a \<Rightarrow> py_ne a (ord_amount order)) db = Inr x \<and>
        db' = x_db x \<and> out = Inr r \<and> success r = (x_status x \<noteq> ''APPROVED_FAILED''))"
  using assms
  by (auto simp: process_approval_def Let_def split: sum.splits prod.splits if_splits)

lemma process_approval_success:
  assumes "process_approval env order user atype aid fa db = (Inr r, db', evs)" "success r"
  shows "\<exists>x. approval_unit env order user atype aid (case fa of None \<Rightarrow> ord_amount order | Some a \<Rightarrow> a)
         (float_or0 (bonus_amount order)) (case fa of None \<Rightarrow> False | Some a \<Rightarrow> py_ne a (ord_amount order)) db = Inr x \<and>
        db' = x_db x \<and>
        evs = approval_events order user atype aid (case fa of None \<Rightarrow> ord_amount order | Some a \<Rightarrow> a)
                (case fa of None \<Rightarrow> False | Some a \<Rightarrow> py_ne a (ord_amount order)) x \<and>
        data r = [(''order_id'', JStr (order_id order)),
                  (''amount'', JNum (case fa of None \<Rightarrow> ord_amount order | Some a \<Rightarrow> a)),
                  (''amount_adjusted'', JBool (case fa of None \<Rightarrow> False | Some a \<Rightarrow> py_ne a (ord_amount order))),
                  (''order_type'', jstr_opt (order_type order)),
                  (''status'', JStr (x_status x)),
                  (''executed'', JBool (x_executed_at x \<noteq> None)),
                  (''execution_result'', case x_result x of None \<Rightarrow> JNull | Some d \<Rightarrow> JObj d)]"
  using assms
  by (auto simp: process_approval_def Let_def split: sum.splits prod.splits if_splits)

lemma process_approval_post:
  assumes "process_approval env order user atype aid fa db = (Inr r, db', evs)"
    and "fetch_one (\<lambda>r. order_id r = order_id order) (orders db) = Some order"
  shows "telegram_bots db' = telegram_bots db"
    and "\<exists>s'. map_option ord_status (fetch_one (\<lambda>r. order_id r = order_id order) (orders db')) = Some s' \<and>
           (s' = ''APPROVED_EXECUTED'' \<or> s' = ''APPROVED_FAILED'') \<and>
           (success r = (s' = ''APPROVED_EXECUTED''))"
proof -
  from process_approval_cases[OF assms(1)] obtain x amount bonus adj where
    x: "approval_unit env order user atype aid amount bonus adj db = Inr x" "db' = x_db x"
       "success r = (x_status x \<noteq> ''APPROVED_FAILED'')"
    by auto
  from x show "telegram_bots db' = telegram_bots db" by (simp add: approval_unit_bots)
  from approval_unit_status[OF x(1)] approval_unit_row[OF x(1)] x(2,3) assms(2)
  show "\<exists>s'. map_option ord_status (fetch_one (\<lambda>r. order_id r = order_id order) (orders db')) = Some s' \<and>
           (s' = ''APPROVED_EXECUTED'' \<or> s' = ''APPROVED_FAILED'') \<and>
           (success r = (s' = ''APPROVED_EXECUTED''))"
    by auto
qed

lemma process_rejection_post:
  assumes "process_rejection env order user atype aid rr db = (Inr r, db', evs)"
    and "fetch_one (\<lambda>r. order_id r = order_id order) (orders db) = Some order"
  shows "telegram_bots db' = telegram_bots db"
    and "map_option ord_status (fetch_one (\<lambda>r. order_id r = order_id order) (orders db')) = Some ''REJECTED''"
    and "success r"
  using assms
  by (auto simp: process_rejection_def Let_def fetch_one_sql_update split: option.splits)

lemma aro_pass:
  assumes "order_bot_check db atype bid = None"
    "fetch_one (\<lambda>r. order_id r = oid) (orders db) = Some order"
    "ord_status order \<in> set [''pending'', ''PENDING_REVIEW'', ''initiated'', ''awaiting_payment_proof'']"
    "fetch_one (\<lambda>u. usr_id u = ord_user_id order) (users db) = Some user"
  shows "approve_or_reject_order env oid action atype aid fa rr bid db =
     (if action = ''approve'' then process_approval env order user atype aid fa db
      else process_rejection env order user atype aid rr db)"
  using assms by (simp add: approve_or_reject_order_def)

lemma aro_trip:
  assumes "order_bot_check db atype bid = None"
    "fetch_one (\<lambda>r. order_id r = oid) (orders db) = Some order"
    "ord_status order \<notin> set [''pending'', ''PENDING_REVIEW'', ''initiated'', ''awaiting_payment_proof'']"
  shows "approve_or_reject_order env oid action atype aid fa rr bid db =
     (Inr \<lparr>success = False, message = ''Order already '' @ ord_status order,
                  data = [(''already_processed'', JBool True)]\<rparr>, db, [])"
  using assms by (simp add: approve_or_reject_order_def)

lemma aro_success_guard:
  assumes "approve_or_reject_order env oid action atype aid fa rr bid db = (Inr r, db', evs)" "success r"
  shows "\<exists>order user. order_bot_check db atype bid = None \<and>
    fetch_one (\<lambda>r. order_id r = oid) (orders db) = Some order \<and>
    ord_status order \<in> set [''pending'', ''PENDING_REVIEW'', ''initiated'', ''awaiting_payment_proof''] \<and>
    fetch_one (\<lambda>u. usr_id u = ord_user_id order) (users db) = Some user"
  using assms order_bot_check_fails[of db atype bid]
  by (auto simp: approve_or_reject_order_def split: option.splits if_splits)

lemma aro_post:
  assumes pass: "order_bot_check db atype bid = None"
    "fetch_one (\<lambda>r. order_id r = oid) (orders db) = Some order"
    "ord_status order \<in> set [''pending'', ''PENDING_REVIEW'', ''initiated'', ''awaiting_payment_proof'']"
    "fetch_one (\<lambda>u. usr_id u = ord_user_id order) (users db) = Some user"
   and run: "approve_or_reject_order env oid action atype aid fa rr bid db = (Inr r, db', evs)"
  shows "order_bot_check db' atype bid = None \<and>
    (\<exists>s'. request_status OrderFlow db' oid = Some s' \<and>
       (s' = ''APPROVED_EXECUTED'' \<or> s' = ''APPROVED_FAILED'' \<or> s' = ''REJECTED''))"
proof -
  have oid: "order_id order = oid" using fetch_one_SomeD[OF pass(2)] by simp
  have row: "fetch_one (\<lambda>r. order_id r = order_id order) (orders db) = Some order"
    using pass(2) oid by simp
  show ?thesis
  proof (cases "action = ''approve''")
    case True
    with run aro_pass[OF pass] have "process_approval env order user atype aid fa db = (Inr r, db', evs)"
      by simp
    from process_approval_post[OF this row] have
      "telegram_bots db' = telegram_bots db"
      "\<exists>s'. map_option ord_status (fetch_one (\<lambda>r. order_id r = order_id order) (orders db')) = Some s' \<and>
           (s' = ''APPROVED_EXECUTED'' \<or> s' = ''APPROVED_FAILED'') \<and>
           (success r = (s' = ''APPROVED_EXECUTED''))" by blast+
    with pass(1) order_bot_check_bots[of db' db atype bid] show ?thesis
      unfolding oid by auto
  next
    case False
    with run aro_pass[OF pass] have "process_rejection env order user atype aid rr db = (Inr r, db', evs)"
      by simp
    from process_rejection_post[OF this row] pass(1) order_bot_check_bots[of db' db atype bid]
    show ?thesis unfolding oid by auto
  qed
qed

lemma aro_not_already:
  assumes "approve_or_reject_order env oid action atype aid fa rr bid db = (Inr r, db', evs)"
    and "fetch_one (\<lambda>r. order_id r = oid) (orders db) = Some ord"
    and "ord_status ord \<in> set [''pending'', ''PENDING_REVIEW'', ''initiated'', ''awaiting_payment_proof'']"
  shows "\<not> already_processed r"
  using assms order_bot_check_fails[of db atype bid]
  by (auto simp: approve_or_reject_order_def process_approval_def process_rejection_def Let_def
      already_processed_def split: option.splits if_splits sum.splits prod.splits)

lemma approve_or_reject_order_phases:
  "approve_or_reject_order env oid action atype aid fa rr bid db =
     (case load_and_guard db oid atype bid of
        Inl r \<Rightarrow> (Inr r, db, [])
      | Inr (order, user) \<Rightarrow>
          if action = ''approve'' then process_approval env order user atype aid fa db
          else process_rejection env order user atype aid rr db)"
  by (simp add: approve_or_reject_order_def load_and_guard_def split: option.splits)

section \<open>The order flow of \<^verbatim>\<open>src/AI9-main\<close>\<close>

text \<open>
  The same facts for the second copy of the service.
\<close>

lemma ai9_side_effects_frame:
  "ai9_side_effects env order user amount bonus db = Inr (db1, ok, res) \<Longrightarrow>
     orders db1 = orders db \<and> telegram_bots db1 = telegram_bots db"
  by (auto simp: ai9_side_effects_def Let_def split: option.splits if_splits)

lemma ai9_approval_unit_bots:
  "ai9_approval_unit env order user aid amount bonus adj db = Inr y \<Longrightarrow>
   telegram_bots (y_db y) = telegram_bots db"
  by (auto simp: ai9_approval_unit_def Let_def dest: ai9_side_effects_frame
      split: option.splits sum.splits prod.splits)

lemma ai9_approval_unit_status:
  "ai9_approval_unit env order user aid amount bonus adj db = Inr y \<Longrightarrow>
   y_status y = (if y_success y then ''APPROVED_EXECUTED'' else ''APPROVED_FAILED'')"
  by (auto simp: ai9_approval_unit_def Let_def split: option.splits sum.splits prod.splits)

lemma ai9_approval_unit_row:
  "ai9_approval_unit env order user aid amount bonus adj db = Inr y \<Longrightarrow>
   fetch_one (\<lambda>r. order_id r = order_id order) (orders (y_db y)) =
     map_option (\<lambda>r. r\<lparr>ord_status := y_status y,
                              approved_by := Some aid,
                              approved_at := Some (now env),
                              executed_at := (if y_success y then Some (now env) else None),
                              execution_result := map_option JStr (y_result y),
                              ord_amount := amount,
                              total_amount := Some (fadd env amount bonus),
                              amount_adjusted := Some adj,
                              adjusted_by := (if adj then Some aid else None),
                              adjusted_at := (if adj then Some (now env) else None)\<rparr>)
       (fetch_one (\<lambda>r. order_id r = order_id order) (orders db))"
  by (auto simp: ai9_approval_unit_def Let_def fetch_one_sql_update dest!: ai9_side_effects_frame
      split: option.splits sum.splits prod.splits)

lemma ai9_process_approval_post:
  assumes "ai9_process_approval env order user atype aid fa db = (Inr r, db', evs)"
    and "fetch_one (\<lambda>r. order_id r = order_id order) (orders db) = Some order"
  shows "telegram_bots db' = telegram_bots db \<and>
     (\<exists>s'. map_option ord_status (fetch_one (\<lambda>r. order_id r = order_id order) (orders db')) = Some s' \<and>
           (s' = ''APPROVED_EXECUTED'' \<or> s' = ''APPROVED_FAILED''))"
proof (cases "ai9_approval_unit env order user aid (case fa of None \<Rightarrow> ord_amount order | Some a \<Rightarrow> a)
         (float_or0 (bonus_amount order)) (case fa of None \<Rightarrow> False | Some a \<Rightarrow> py_ne a (ord_amount order)) db")
  case (Inl e)
  with assms show ?thesis
    by (auto simp: ai9_process_approval_def Let_def fetch_one_sql_update split: option.splits)
next
  case (Inr y)
  with assms(1) have "db' = y_db y"
    by (auto simp: ai9_process_approval_def Let_def)
  with ai9_approval_unit_bots[OF Inr] ai9_approval_unit_status[OF Inr] ai9_approval_unit_row[OF Inr]
    assms(2)
  show ?thesis by auto
qed

lemma ai9_process_rejection_post:
  assumes "ai9_process_rejection env order user atype aid rr db = (Inr r, db', evs)"
    and "fetch_one (\<lambda>r. order_id r = order_id order) (orders db) = Some order"
  shows "telegram_bots db' = telegram_bots db"
    and "map_option ord_status (fetch_one (\<lambda>r. order_id r = order_id order) (orders db')) = Some ''REJECTED''"
    and "success r"
  using assms
  by (auto simp: ai9_process_rejection_def Let_def fetch_one_sql_update split: option.splits)

lemma ai9_aro_pass:
  assumes "order_bot_check db atype bid = None"
    "fetch_one (\<lambda>r. order_id r = oid) (orders db) = Some order"
    "ord_status order \<in> set [''PENDING_REVIEW'', ''pending_review'', ''pending'', ''initiated'', ''awaiting_payment_proof'']"
    "fetch_one (\<lambda>u. usr_id u = ord_user_id order) (users db) = Some user"
  shows "ai9_approve_or_reject_order env oid action atype aid fa rr bid db =
     (if action = ''approve'' then ai9_process_approval env order user atype aid fa db
      else ai9_process_rejection env order user atype aid rr db)"
  using assms by (simp add: ai9_approve_or_reject_order_def)

lemma ai9_aro_trip:
  assumes "order_bot_check db atype bid = None"
    "fetch_one (\<lambda>r. order_id r = oid) (orders db) = Some order"
    "ord_status order \<notin> set [''PENDING_REVIEW'', ''pending_review'', ''pending'', ''initiated'', ''awaiting_payment_proof'']"
  shows "ai9_approve_or_reject_order env oid action atype aid fa rr bid db =
     (Inr \<lparr>success = False, message = ''Order already '' @ ord_status order,
                  data = [(''already_processed'', JBool True)]\<rparr>, db, [])"
  using assms by (simp add: ai9_approve_or_reject_order_def)

lemma ai9_aro_success_guard:
  assumes "ai9_approve_or_reject_order env oid action atype aid fa rr bid db = (Inr r, db', evs)" "success r"
  shows "\<exists>order user. order_bot_check db atype bid = None \<and>
    fetch_one (\<lambda>r. order_id r = oid) (orders db) = Some order \<and>
    ord_status order \<in> set [''PENDING_REVIEW'', ''pending_review'', ''pending'', ''initiated'', ''awaiting_payment_proof''] \<and>
    fetch_one (\<lambda>u. usr_id u = ord_user_id order) (users db) = Some user"
  using assms order_bot_check_fails[of db atype bid]
  by (auto simp: ai9_approve_or_reject_order_def split: option.splits if_splits)

lemma ai9_aro_post:
  assumes pass: "order_bot_check db atype bid = None"
    "fetch_one (\<lambda>r. order_id r = oid) (orders db) = Some order"
    "ord_status order \<in> set [''PENDING_REVIEW'', ''pending_review'', ''pending'', ''initiated'', ''awaiting_payment_proof'']"
    "fetch_one (\<lambda>u. usr_id u = ord_user_id order) (users db) = Some user"
   and run: "ai9_approve_or_reject_order env oid action atype aid fa rr bid db = (Inr r, db', evs)"
  shows "order_bot_check db' atype bid = None \<and>
    (\<exists>s'. request_status OrderFlow db' oid = Some s' \<and>
       (s' = ''APPROVED_EXECUTED'' \<or> s' = ''APPROVED_FAILED'' \<or> s' = ''REJECTED''))"
proof -
  have oid: "order_id order = oid" using fetch_one_SomeD[OF pass(2)] by simp
  have row: "fetch_one (\<lambda>r. order_id r = order_id order) (orders db) = Some order"
    using pass(2) oid by simp
  show ?thesis
  proof (cases "action = ''approve''")
    case True
    with run ai9_aro_pass[OF pass] have "ai9_process_approval env order user atype aid fa db = (Inr r, db', evs)"
      by simp
    from ai9_process_approval_post[OF this row] pass(1) order_bot_check_bots[of db' db atype bid]
    show ?thesis unfolding oid by auto
  next
    case False
    with run ai9_aro_pass[OF pass] have "ai9_process_rejection env order user atype aid rr db = (Inr r, db', evs)"
      by simp
    from ai9_process_rejection_post[OF this row] pass(1) order_bot_check_bots[of db' db atype bid]
    show ?thesis unfolding oid by auto
  qed
qed

lemma ai9_aro_not_already:
  assumes "ai9_approve_or_reject_order env oid action atype aid fa rr bid db = (Inr r, db', evs)"
    and "fetch_one (\<lambda>r. order_id r = oid) (orders db) = Some ord"
    and "ord_status ord \<in> set [''PENDING_REVIEW'', ''pending_review'', ''pending'', ''initiated'',
          ''awaiting_payment_proof'']"
  shows "\<not> already_processed r"
  using assms order_bot_check_fails[of db atype bid]
  by (auto simp: ai9_approve_or_reject_order_def ai9_process_approval_def ai9_process_rejection_def
      Let_def already_processed_def split: option.splits if_splits sum.splits prod.splits)

section \<open>The wallet-load flow\<close>

text \<open>
  Both copies: what a call that passes the checks writes, and what the idempotency
  check returns.
\<close>

lemma wl_pass_approve:
  assumes "wallet_bot_check db atype bid = None"
    "fetch_load_request rid db = Some (lr, u)" "wlr_status lr = ''pending''"
    "approve_or_reject_wallet_load env rid ''approve'' atype aid fa rr bid db = (Inr r, db', evs)"
  shows "success r \<and> users db' = sql_update (\<lambda>v. usr_id v = wlr_user_id lr)
           (\<lambda>v. v\<lparr>real_balance := Some (fadd env (float_or0 (real_balance u))
                (case fa of None \<Rightarrow> wlr_amount lr | Some a \<Rightarrow> a))\<rparr>) (users db) \<and>
     wallet_load_requests db' = sql_update (\<lambda>r. request_id r = rid)
        (\<lambda>r. r\<lparr>wlr_status := ''approved'',
                wlr_amount := (case fa of None \<Rightarrow> wlr_amount lr | Some a \<Rightarrow> a),
                reviewed_by := Some aid, reviewed_at := Some (now env)\<rparr>) (wallet_load_requests db) \<and>
     telegram_bots db' = telegram_bots db"
  using assms
  by (auto simp: approve_or_reject_wallet_load_def Let_def split: option.splits)

lemma wl_pass_reject:
  assumes "wallet_bot_check db atype bid = None"
    "fetch_load_request rid db = Some (lr, u)" "wlr_status lr = ''pending''"
    "action \<noteq> ''approve''"
    "approve_or_reject_wallet_load env rid action atype aid fa rr bid db = (Inr r, db', evs)"
  shows "success r \<and> users db' = users db \<and>
     wallet_load_requests db' = sql_update (\<lambda>r. request_id r = rid)
        (\<lambda>r. r\<lparr>wlr_status := ''rejected'',
                wlr_rejection_reason := Some (case rr of None \<Rightarrow> ''Rejected by reviewer''
                    | Some x \<Rightarrow> if x = [] then ''Rejected by reviewer'' else x),
                reviewed_by := Some aid, reviewed_at := Some (now env)\<rparr>) (wallet_load_requests db) \<and>
     telegram_bots db' = telegram_bots db"
  using assms
  by (auto simp: approve_or_reject_wallet_load_def Let_def split: option.splits)

lemma wl_post:
  assumes pass: "wallet_bot_check db atype bid = None"
    "fetch_load_request rid db = Some (lr, u)" "wlr_status lr = ''pending''"
   and run: "approve_or_reject_wallet_load env rid action atype aid fa rr bid db = (Inr r, db', evs)"
  shows "wallet_bot_check db' atype bid = None \<and>
    request_status WalletLoadFlow db' rid =
      Some (if action = ''approve'' then ''approved'' else ''rejected'')"
proof -
  have rid: "request_id lr = rid" using pass(2) by (rule fetch_load_request_id)
  show ?thesis
  proof (cases "action = ''approve''")
    case True
    from wl_pass_approve[OF pass run[unfolded True]] have
      u: "users db' = map (\<lambda>v. if usr_id v = wlr_user_id lr then v\<lparr>real_balance := Some (fadd env (float_or0 (real_balance u))
                (case fa of None \<Rightarrow> wlr_amount lr | Some a \<Rightarrow> a))\<rparr> else v) (users db)"
      and w: "wallet_load_requests db' = map (\<lambda>r. if request_id r = rid then
           r\<lparr>wlr_status := ''approved'',
                wlr_amount := (case fa of None \<Rightarrow> wlr_amount lr | Some a \<Rightarrow> a),
                reviewed_by := Some aid, reviewed_at := Some (now env)\<rparr> else r) (wallet_load_requests db)"
      and b: "telegram_bots db' = telegram_bots db"
      by (simp_all add: sql_update_def)
    have "request_status WalletLoadFlow db' rid = Some ''approved''"
      using fetch_load_request_upd[OF u w, of rid] pass(2) rid by simp
    with True b pass(1) wallet_bot_check_bots[of db' db atype bid] show ?thesis by simp
  next
    case False
    from wl_pass_reject[OF pass False run] have
      u: "users db' = map (\<lambda>v. v) (users db)"
      and w: "wallet_load_requests db' = map (\<lambda>r. if request_id r = rid then
           r\<lparr>wlr_status := ''rejected'',
                wlr_rejection_reason := Some (case rr of None \<Rightarrow> ''Rejected by reviewer''
                    | Some x \<Rightarrow> if x = [] then ''Rejected by reviewer'' else x),
                reviewed_by := Some aid, reviewed_at := Some (now env)\<rparr> else r) (wallet_load_requests db)"
      and b: "telegram_bots db' = telegram_bots db"
      by (simp_all add: sql_update_def)
    have "request_status WalletLoadFlow db' rid = Some ''rejected''"
      using fetch_load_request_upd[OF u w, of rid] pass(2) rid by simp
    with False b pass(1) wallet_bot_check_bots[of db' db atype bid] show ?thesis by simp
  qed
qed

lemma wl_trip:
  assumes "wallet_bot_check db atype bid = None"
    "fetch_load_request rid db = Some (lr, u)" "wlr_status lr \<noteq> ''pending''"
  shows "approve_or_reject_wallet_load env rid action atype aid fa rr bid db =
     (Inr \<lparr>success = False, message = ''Request already '' @ wlr_status lr,
                  data = [(''already_processed'', JBool True)]\<rparr>, db, [])"
  using assms by (simp add: approve_or_reject_wallet_load_def)

lemma wl_success_guard:
  assumes "approve_or_reject_wallet_load env rid action atype aid fa rr bid db = (Inr r, db', evs)" "success r"
  shows "\<exists>lr u. wallet_bot_check db atype bid = None \<and>
    fetch_load_request rid db = Some (lr, u) \<and> wlr_status lr = ''pending''"
  using assms wallet_bot_check_fails[of db atype bid]
  by (auto simp: approve_or_reject_wallet_load_def split: option.splits if_splits)

lemma wl_not_already:
  assumes "approve_or_reject_wallet_load env rid action atype aid fa rr bid db = (Inr r, db', evs)"
    and "fetch_load_request rid db = Some (lr, u)" and "wlr_status lr = ''pending''"
  shows "\<not> already_processed r"
  using assms wallet_bot_check_fails[of db atype bid]
  by (auto simp: approve_or_reject_wallet_load_def Let_def already_processed_def
      split: option.splits if_splits)

lemma ai9_wl_post:
  assumes pass: "wallet_bot_check db atype bid = None"
    "fetch_load_request rid db = Some (lr, u)"
    "wlr_status lr \<in> set [''PENDING_REVIEW'', ''pending_review'', ''pending'']"
   and run: "ai9_approve_or_reject_wallet_load env rid action atype aid fa rr bid db = (Inr r, db', evs)"
  shows "wallet_bot_check db' atype bid = None \<and>
    (\<exists>s'. request_status WalletLoadFlow db' rid = Some s' \<and>
       (s' = ''APPROVED_EXECUTED'' \<or> s' = ''APPROVED_FAILED'' \<or> s' = ''REJECTED''))"
proof -
  have rid: "request_id lr = rid" using pass(2) by (rule fetch_load_request_id)
  have b: "telegram_bots db' = telegram_bots db"
    using pass run
    by (auto simp: ai9_approve_or_reject_wallet_load_def Let_def split: option.splits if_splits)
  have "\<exists>s'. request_status WalletLoadFlow db' rid = Some s' \<and>
       (s' = ''APPROVED_EXECUTED'' \<or> s' = ''APPROVED_FAILED'' \<or> s' = ''REJECTED'')"
    using pass run rid
    by (auto simp: ai9_approve_or_reject_wallet_load_def Let_def flr_upd3 flr_upd1
        split: option.splits if_splits)
  with b pass(1) wallet_bot_check_bots[of db' db atype bid] show ?thesis by simp
qed

lemma ai9_wl_trip:
  assumes "wallet_bot_check db atype bid = None"
    "fetch_load_request rid db = Some (lr, u)"
    "wlr_status lr \<notin> set [''PENDING_REVIEW'', ''pending_review'', ''pending'']"
  shows "ai9_approve_or_reject_wallet_load env rid action atype aid fa rr bid db =
     (Inr \<lparr>success = False, message = ''Request already '' @ wlr_status lr,
                  data = [(''already_processed'', JBool True)]\<rparr>, db, [])"
  using assms by (simp add: ai9_approve_or_reject_wallet_load_def)

lemma ai9_wl_success_guard:
  assumes "ai9_approve_or_reject_wallet_load env rid action atype aid fa rr bid db = (Inr r, db', evs)" "success r"
  shows "\<exists>lr u. wallet_bot_check db atype bid = None \<and>
    fetch_load_request rid db = Some (lr, u) \<and>
    wlr_status lr \<in> set [''PENDING_REVIEW'', ''pending_review'', ''pending'']"
  using assms wallet_bot_check_fails[of db atype bid]
  by (auto simp: ai9_approve_or_reject_wallet_load_def Let_def split: option.splits if_splits)

lemma ai9_wl_not_already:
  assumes "ai9_approve_or_reject_wallet_load env rid action atype aid fa rr bid db = (Inr r, db', evs)"
    and "fetch_load_request rid db = Some (lr, u)"
    and "wlr_status lr \<in> set [''PENDING_REVIEW'', ''pending_review'', ''pending'']"
  shows "\<not> already_processed r"
  using assms wallet_bot_check_fails[of db atype bid]
  by (auto simp: ai9_approve_or_reject_wallet_load_def Let_def already_processed_def
      split: option.splits if_splits)

section \<open>The four functions together\<close>

text \<open>
  The facts above, stated once for \<open>decide\<close>: a call that passes the checks and
  returns leaves a status that is no longer pending; the idempotency check answers a
  request that is not pending without touching anything; a call that succeeds has passed
  the checks.
\<close>

lemma decide_post:
  assumes "bot_check f db atype bid = None"
    and "request_status f db rid = Some s" and "s \<in> set (pending_statuses i f)"
    and "f = OrderFlow \<Longrightarrow> \<exists>ord usr. fetch_one (\<lambda>r. order_id r = rid) (orders db) = Some ord \<and>
          fetch_one (\<lambda>u. usr_id u = ord_user_id ord) (users db) = Some usr"
    and "decide i f env rid action atype aid fa rr bid db = (Inr r, db', evs)"
  shows "bot_check f db' atype bid = None \<and>
     (\<exists>s'. request_status f db' rid = Some s' \<and> s' \<notin> set (pending_statuses i f) \<and>
        (i = Backend \<and> f = WalletLoadFlow \<or>
          s' = ''APPROVED_EXECUTED'' \<or> s' = ''APPROVED_FAILED'' \<or> s' = ''REJECTED''))"
proof (cases i; cases f)
  assume i: "i = Backend" and f: "f = OrderFlow"
  from assms(4)[OF f] obtain ord usr where
    o: "fetch_one (\<lambda>r. order_id r = rid) (orders db) = Some ord"
    and u: "fetch_one (\<lambda>u. usr_id u = ord_user_id ord) (users db) = Some usr" by blast
  from assms(2,3) o have st: "ord_status ord \<in> set [''pending'', ''PENDING_REVIEW'', ''initiated'', ''awaiting_payment_proof'']"
    by (simp add: i f)
  from aro_post[OF _ o st u, of atype bid env action aid fa rr r db' evs] assms(1,5)
  show ?thesis by (auto simp: i f)
next
  assume i: "i = AI9_main" and f: "f = OrderFlow"
  from assms(4)[OF f] obtain ord usr where
    o: "fetch_one (\<lambda>r. order_id r = rid) (orders db) = Some ord"
    and u: "fetch_one (\<lambda>u. usr_id u = ord_user_id ord) (users db) = Some usr" by blast
  from assms(2,3) o have st: "ord_status ord \<in> set [''PENDING_REVIEW'', ''pending_review'', ''pending'', ''initiated'', ''awaiting_payment_proof'']"
    by (simp add: i f)
  from ai9_aro_post[OF _ o st u, of atype bid env action aid fa rr r db' evs] assms(1,5)
  show ?thesis by (auto simp: i f)
next
  assume i: "i = Backend" and f: "f = WalletLoadFlow"
  from assms(2) obtain lr u where l: "fetch_load_request rid db = Some (lr, u)" and s: "s = wlr_status lr"
    by (auto simp: f)
  from assms(3) s have st: "wlr_status lr = ''pending''" by (simp add: i f)
  from wl_post[OF _ l st, of atype bid env action aid fa rr r db' evs] assms(1,5)
  show ?thesis by (auto simp: i f)
next
  assume i: "i = AI9_main" and f: "f = WalletLoadFlow"
  from assms(2) obtain lr u where l: "fetch_load_request rid db = Some (lr, u)" and s: "s = wlr_status lr"
    by (auto simp: f)
  from assms(3) s have st: "wlr_status lr \<in> set [''PENDING_REVIEW'', ''pending_review'', ''pending'']" by (simp add: i f)
  from ai9_wl_post[OF _ l st, of atype bid env action aid fa rr r db' evs] assms(1,5)
  show ?thesis by (auto simp: i f)
qed

lemma decide_trip:
  assumes "bot_check f db atype bid = None"
    and "request_status f db rid = Some s" and "s \<notin> set (pending_statuses i f)"
  shows "decide i f env rid action atype aid fa rr bid db = (Inr (already_result f s), db, [])"
proof (cases i; cases f)
  assume i: "i = Backend" and f: "f = OrderFlow"
  from assms(2) obtain ord where o: "fetch_one (\<lambda>r. order_id r = rid) (orders db) = Some ord"
    and s: "s = ord_status ord" by (auto simp: f)
  from aro_trip[OF _ o, of atype bid] assms(1,3) s show ?thesis
    by (simp add: i f already_result_def)
next
  assume i: "i = AI9_main" and f: "f = OrderFlow"
  from assms(2) obtain ord where o: "fetch_one (\<lambda>r. order_id r = rid) (orders db) = Some ord"
    and s: "s = ord_status ord" by (auto simp: f)
  from ai9_aro_trip[OF _ o, of atype bid] assms(1,3) s show ?thesis
    by (simp add: i f already_result_def)
next
  assume i: "i = Backend" and f: "f = WalletLoadFlow"
  from assms(2) obtain lr u where l: "fetch_load_request rid db = Some (lr, u)" and s: "s = wlr_status lr"
    by (auto simp: f)
  from wl_trip[OF _ l, of atype bid] assms(1,3) s show ?thesis
    by (simp add: i f already_result_def)
next
  assume i: "i = AI9_main" and f: "f = WalletLoadFlow"
  from assms(2) obtain lr u where l: "fetch_load_request rid db = Some (lr, u)" and s: "s = wlr_status lr"
    by (auto simp: f)
  from ai9_wl_trip[OF _ l, of atype bid] assms(1,3) s show ?thesis
    by (simp add: i f already_result_def)
qed

lemma decide_success_guard:
  assumes "decide i f env rid action atype aid fa rr bid db = (Inr r, db', evs)" "success r"
  shows "bot_check f db atype bid = None \<and>
    (\<exists>s. request_status f db rid = Some s \<and> s \<in> set (pending_statuses i f)) \<and>
    (f = OrderFlow \<longrightarrow> (\<exists>ord usr. fetch_one (\<lambda>r. order_id r = rid) (orders db) = Some ord \<and>
          fetch_one (\<lambda>u. usr_id u = ord_user_id ord) (users db) = Some usr))"
proof (cases i; cases f)
  assume i: "i = Backend" and f: "f = OrderFlow"
  from assms have "approve_or_reject_order env rid action atype aid fa rr bid db = (Inr r, db', evs)"
    by (simp add: i f)
  from aro_success_guard[OF this assms(2)] obtain ord usr where
    "order_bot_check db atype bid = None" "fetch_one (\<lambda>r. order_id r = rid) (orders db) = Some ord"
    "ord_status ord \<in> set (pending_statuses Backend OrderFlow)"
    "fetch_one (\<lambda>u. usr_id u = ord_user_id ord) (users db) = Some usr"
    unfolding pending_statuses.simps by blast
  then show ?thesis unfolding i f by simp
next
  assume i: "i = AI9_main" and f: "f = OrderFlow"
  from assms have "ai9_approve_or_reject_order env rid action atype aid fa rr bid db = (Inr r, db', evs)"
    by (simp add: i f)
  from ai9_aro_success_guard[OF this assms(2)] obtain ord usr where
    "order_bot_check db atype bid = None" "fetch_one (\<lambda>r. order_id r = rid) (orders db) = Some ord"
    "ord_status ord \<in> set (pending_statuses AI9_main OrderFlow)"
    "fetch_one (\<lambda>u. usr_id u = ord_user_id ord) (users db) = Some usr"
    unfolding pending_statuses.simps by blast
  then show ?thesis unfolding i f by simp
next
  assume i: "i = Backend" and f: "f = WalletLoadFlow"
  from assms have "approve_or_reject_wallet_load env rid action atype aid fa rr bid db = (Inr r, db', evs)"
    by (simp add: i f)
  from wl_success_guard[OF this assms(2)] obtain lr u where
    "wallet_bot_check db atype bid = None" "fetch_load_request rid db = Some (lr, u)"
    "wlr_status lr = ''pending''" by blast
  then show ?thesis unfolding i f by simp
next
  assume i: "i = AI9_main" and f: "f = WalletLoadFlow"
  from assms have "ai9_approve_or_reject_wallet_load env rid action atype aid fa rr bid db = (Inr r, db', evs)"
    by (simp add: i f)
  from ai9_wl_success_guard[OF this assms(2)] obtain lr u where
    "wallet_bot_check db atype bid = None" "fetch_load_request rid db = Some (lr, u)"
    "wlr_status lr \<in> set (pending_statuses AI9_main WalletLoadFlow)"
    unfolding pending_statuses.simps by blast
  then show ?thesis unfolding i f by simp
qed

lemma decide_not_already:
  assumes run: "decide i f env rid action atype aid fa rr bid db = (Inr r, db', evs)"
    and st: "request_status f db rid = Some s" and p: "s \<in> set (pending_statuses i f)"
  shows "\<not> already_processed r"
proof (cases i; cases f)
  assume i: "i = Backend" and f: "f = OrderFlow"
  from st obtain ord where o: "fetch_one (\<lambda>r. order_id r = rid) (orders db) = Some ord"
    and s: "s = ord_status ord" by (auto simp: f)
  from p s have "ord_status ord \<in> set [''pending'', ''PENDING_REVIEW'', ''initiated'', ''awaiting_payment_proof'']"
    by (simp add: i f)
  from aro_not_already[OF _ o this] run show ?thesis by (simp add: i f)
next
  assume i: "i = AI9_main" and f: "f = OrderFlow"
  from st obtain ord where o: "fetch_one (\<lambda>r. order_id r = rid) (orders db) = Some ord"
    and s: "s = ord_status ord" by (auto simp: f)
  from p s have "ord_status ord \<in> set [''PENDING_REVIEW'', ''pending_review'', ''pending'', ''initiated'',
          ''awaiting_payment_proof'']"
    by (simp add: i f)
  from ai9_aro_not_already[OF _ o this] run show ?thesis by (simp add: i f)
next
  assume i: "i = Backend" and f: "f = WalletLoadFlow"
  from st obtain lr u where l: "fetch_load_request rid db = Some (lr, u)" and s: "s = wlr_status lr"
    by (auto simp: f)
  from p s have "wlr_status lr = ''pending''" by (simp add: i f)
  from wl_not_already[OF _ l this] run show ?thesis by (simp add: i f)
next
  assume i: "i = AI9_main" and f: "f = WalletLoadFlow"
  from st obtain lr u where l: "fetch_load_request rid db = Some (lr, u)" and s: "s = wlr_status lr"
    by (auto simp: f)
  from p s have "wlr_status lr \<in> set [''PENDING_REVIEW'', ''pending_review'', ''pending'']"
    by (simp add: i f)
  from ai9_wl_not_already[OF _ l this] run show ?thesis by (simp add: i f)
qed

lemma processableD:
  assumes "processable i f db rid atype bid"
  shows "bot_check f db atype bid = None"
    and "\<exists>s. request_status f db rid = Some s \<and> s \<in> set (pending_statuses i f)"
    and "f = OrderFlow \<Longrightarrow> \<exists>ord usr. fetch_one (\<lambda>r. order_id r = rid) (orders db) = Some ord \<and>
          fetch_one (\<lambda>u. usr_id u = ord_user_id ord) (users db) = Some usr"
  using assms by (auto simp: processable_def split: option.splits)

lemma success_processable:
  assumes "decide i f env rid action atype aid fa rr bid db = (Inr r, db', evs)" "success r"
  shows "processable i f db rid atype bid"
  using decide_success_guard[OF assms]
  by (cases f) (auto simp: processable_def split: option.splits)

lemma processable_decided:
  assumes p: "processable i f db rid atype bid"
    and run: "decide i f env rid action atype aid fa rr bid db = (Inr r, db', evs)"
  shows "bot_check f db' atype bid = None \<and>
     (\<exists>s'. request_status f db' rid = Some s' \<and> s' \<notin> set (pending_statuses i f) \<and>
        (i = Backend \<and> f = WalletLoadFlow \<or>
          s' = ''APPROVED_EXECUTED'' \<or> s' = ''APPROVED_FAILED'' \<or> s' = ''REJECTED''))"
proof -
  from processableD(2)[OF p] obtain s where
    s: "request_status f db rid = Some s" "s \<in> set (pending_statuses i f)" by blast
  from decide_post[OF processableD(1)[OF p] s processableD(3)[OF p] run] show ?thesis .
qed

lemma other_action_is_a_rejection_aux:
  assumes "bot_check f db atype bid = None"
    and "request_status f db rid = Some s" and "s \<in> set (pending_statuses i f)"
    and "f = OrderFlow \<Longrightarrow> \<exists>ord usr. fetch_one (\<lambda>r. order_id r = rid) (orders db) = Some ord \<and>
          fetch_one (\<lambda>u. usr_id u = ord_user_id ord) (users db) = Some usr"
    and "action \<noteq> ''approve''"
    and "decide i f env rid action atype aid fa rr bid db = (Inr r, db', evs)"
    and "i = AI9_main \<or> f = OrderFlow"
  shows "success r \<and> request_status f db' rid = Some ''REJECTED'' \<and>
         (\<exists>e. evs = [e] \<and> event_type e \<in> set [ORDER_REJECTED, WALLET_TOPUP_REJECTED,
                  WITHDRAW_REJECTED, WALLET_LOAD_REJECTED]) \<and>
         users db' = users db \<and> wallet_ledger db' = wallet_ledger db"
proof (cases f)
  case OrderFlow
  from assms(4)[OF OrderFlow] obtain ord usr where
    o: "fetch_one (\<lambda>r. order_id r = rid) (orders db) = Some ord"
    and u: "fetch_one (\<lambda>u. usr_id u = ord_user_id ord) (users db) = Some usr" by blast
  have oid: "order_id ord = rid" using fetch_one_SomeD[OF o] by simp
  have row: "fetch_one (\<lambda>r. order_id r = order_id ord) (orders db) = Some ord"
    using o oid by simp
  show ?thesis
  proof (cases i)
    case Backend
    from assms(2,3) o have st: "ord_status ord \<in> set [''pending'', ''PENDING_REVIEW'',
        ''initiated'', ''awaiting_payment_proof'']"
      by (simp add: Backend OrderFlow)
    from aro_pass[OF _ o st u, of atype bid env action aid fa rr] assms(1,5,6)
    have pr: "process_rejection env ord usr atype aid rr db = (Inr r, db', evs)"
      by (simp add: Backend OrderFlow)
    from process_rejection_post[OF pr row] pr show ?thesis
      by (auto simp: OrderFlow oid process_rejection_def Let_def emit_event_def
          split: option.splits)
  next
    case AI9_main
    from assms(2,3) o have st: "ord_status ord \<in> set [''PENDING_REVIEW'', ''pending_review'',
        ''pending'', ''initiated'', ''awaiting_payment_proof'']"
      by (simp add: AI9_main OrderFlow)
    from ai9_aro_pass[OF _ o st u, of atype bid env action aid fa rr] assms(1,5,6)
    have pr: "ai9_process_rejection env ord usr atype aid rr db = (Inr r, db', evs)"
      by (simp add: AI9_main OrderFlow)
    from ai9_process_rejection_post[OF pr row] pr show ?thesis
      by (auto simp: OrderFlow oid ai9_process_rejection_def Let_def emit_event_def
          split: option.splits)
  qed
next
  case WalletLoadFlow
  with assms(7) have i: "i = AI9_main" by simp
  from assms(2) obtain lr u where l: "fetch_load_request rid db = Some (lr, u)"
    and s: "s = wlr_status lr" by (auto simp: WalletLoadFlow)
  have rid: "request_id lr = rid" using l by (rule fetch_load_request_id)
  from assms(1,3,5,6) l s rid show ?thesis
    by (auto simp: i WalletLoadFlow ai9_approve_or_reject_wallet_load_def Let_def flr_upd1
        emit_event_def split: option.splits)
qed

section \<open>The debit branches\<close>

text \<open>
  A debit branch either leaves the users table alone or writes a balance that the
  comparison \<open>< 0\<close> does not find negative; with a balance that the comparison finds
  too low it writes nothing. \<^verbatim>\<open>src/backend\<close> compares the difference it is about
  to write. \<^verbatim>\<open>src/AI9-main\<close> compares the balance with the amount and then
  writes the difference; there the written balance is not negative as long as no exact
  result that is at least zero is rounded below zero.
\<close>

lemma fsub_not_negative:
  assumes "\<And>q. 0 \<le> q \<Longrightarrow> \<not> flt (rnd env q) (Fin 0)" and "\<not> flt a b"
  shows "\<not> flt (fsub env a b) (Fin 0)"
  using assms by (cases a; cases b) (auto simp: fsub_def)

lemma withdraw_wallet_users:
  "users (x_db (withdraw_wallet env order user amount db)) = users db \<or>
   (\<not> flt (fsub env (float_or0 (real_balance user)) amount) (Fin 0) \<and>
    users (x_db (withdraw_wallet env order user amount db)) =
      sql_update (\<lambda>u. usr_id u = usr_id user)
        (\<lambda>u. u\<lparr>real_balance := Some (fsub env (float_or0 (real_balance user)) amount),
                total_withdrawn := fadd env (total_withdrawn u) amount\<rparr>) (users db))"
  by (auto simp: withdraw_wallet_def Let_def split: option.splits)

lemma withdraw_wallet_insufficient:
  "flt (fsub env (float_or0 (real_balance user)) amount) (Fin 0) \<Longrightarrow>
   withdraw_wallet env order user amount db =
     \<lparr>x_db = db, x_status = ''APPROVED_FAILED'',
      x_result = Some [(''success'', JBool False),
                       (''error'', JStr ''Withdrawal failed: Insufficient balance for withdrawal'')],
      x_executed_at = Some (now env),
      x_error = Some ''Withdrawal failed: Insufficient balance for withdrawal'', x_events = []\<rparr>"
  by (simp add: withdraw_wallet_def Let_def)

lemma withdraw_wallet_executed:
  "x_status (withdraw_wallet env order user amount db) \<noteq> ''APPROVED_FAILED'' \<Longrightarrow>
   wallet_ledger (x_db (withdraw_wallet env order user amount db)) = wallet_ledger db @
     [\<lparr>ledger_id = uuid4 env 0, led_user_id = usr_id user,
       transaction_type = ''debit'', led_amount = amount,
       balance_before = float_or0 (real_balance user),
       balance_after = fsub env (float_or0 (real_balance user)) amount,
       reference_type = ''withdrawal'', reference_id = order_id order,
       description = ''Withdrawal to '' @ pystr (payment_method order)\<rparr>] \<and>
   users (x_db (withdraw_wallet env order user amount db)) =
      sql_update (\<lambda>u. usr_id u = usr_id user)
        (\<lambda>u. u\<lparr>real_balance := Some (fsub env (float_or0 (real_balance user)) amount),
                total_withdrawn := fadd env (total_withdrawn u) amount\<rparr>) (users db)"
  by (auto simp: withdraw_wallet_def Let_def split: option.splits if_splits)

lemma credit_wallet_executed:
  "x_status (credit_wallet env order user amount bonus db) \<noteq> ''APPROVED_FAILED'' \<Longrightarrow>
   wallet_ledger (x_db (credit_wallet env order user amount bonus db)) = wallet_ledger db @
     [\<lparr>ledger_id = uuid4 env 0, led_user_id = usr_id user,
       transaction_type = ''credit'', led_amount = amount,
       balance_before = float_or0 (real_balance user),
       balance_after = fadd env (float_or0 (real_balance user)) amount,
       reference_type = ''order'', reference_id = order_id order,
       description = ''Wallet top-up via '' @ pystr (payment_method order)\<rparr>] \<and>
   users (x_db (credit_wallet env order user amount bonus db)) =
      sql_update (\<lambda>u. usr_id u = usr_id user)
        (\<lambda>u. u\<lparr>real_balance := Some (fadd env (float_or0 (real_balance user)) amount),
                bonus_balance := fadd env (bonus_balance u) bonus,
                deposit_count := deposit_count u + 1,
                total_deposited := fadd env (total_deposited u) amount\<rparr>) (users db)"
  by (auto simp: credit_wallet_def Let_def split: option.splits)

lemma execute_game_load_users:
  assumes "fetch_one (\<lambda>u. usr_id u = usr_id user) (users db) = Some usr"
  shows "users (fst (execute_game_load env order user db)) = users db \<or>
   (\<not> flt (fsub env (float_or0 (real_balance usr)) (ord_amount order)) (Fin 0) \<and>
    users (fst (execute_game_load env order user db)) =
      sql_update (\<lambda>u. usr_id u = usr_id user)
        (\<lambda>u. u\<lparr>real_balance := Some (fsub env (float_or0 (real_balance usr)) (ord_amount order))\<rparr>)
        (users db))"
  using assms by (auto simp: execute_game_load_def Let_def split: option.splits)

lemma execute_game_load_insufficient:
  assumes "fetch_one (\<lambda>u. usr_id u = usr_id user) (users db) = Some usr"
    and "flt (fsub env (float_or0 (real_balance usr)) (ord_amount order)) (Fin 0)"
  shows "fst (execute_game_load env order user db) = db \<and>
     \<not> get_success (snd (execute_game_load env order user db))"
  using assms
  by (auto simp: execute_game_load_def Let_def get_success_def split: option.splits)

lemma backend_withdrawal_safe:
  assumes t: "order_type order = Some ''withdrawal''"
    and run: "process_approval env order user atype aid fa db = (out, db', evs)"
    and usr: "fetch_one (\<lambda>u. usr_id u = usr_id user) (users db) = Some user"
  shows "users db' = users db \<or> \<not> flt (balance_of db' (usr_id user)) (Fin 0)"
proof -
  let ?amount = "case fa of None \<Rightarrow> ord_amount order | Some a \<Rightarrow> a"
  let ?db1 = "db\<lparr>orders := sql_update (\<lambda>r. order_id r = order_id order)
                       (\<lambda>r. r\<lparr>execution_attempts := execution_attempts r + 1\<rparr>) (orders db)\<rparr>"
  from run t have "db' = db \<or> users db' = users (x_db (withdraw_wallet env order user ?amount ?db1))"
    by (auto simp: process_approval_def approval_unit_def apply_side_effects_def Let_def
        split: option.splits if_splits)
  with withdraw_wallet_users[of env order user ?amount ?db1]
  consider "users db' = users db"
    | "\<not> flt (fsub env (float_or0 (real_balance user)) ?amount) (Fin 0)"
      "users db' = sql_update (\<lambda>u. usr_id u = usr_id user)
        (\<lambda>u. u\<lparr>real_balance := Some (fsub env (float_or0 (real_balance user)) ?amount),
                total_withdrawn := fadd env (total_withdrawn u) ?amount\<rparr>) (users db)"
    by auto
  then show ?thesis
  proof cases
    case 1
    then show ?thesis by simp
  next
    case 2
    from balance_of_updated[OF usr 2(2)] 2(1) show ?thesis by (simp add: float_or0_def)
  qed
qed

lemma backend_withdrawal_insufficient:
  assumes t: "order_type order = Some ''withdrawal''"
    and run: "process_approval env order user atype aid fa db = (out, db', evs)"
    and row: "fetch_one (\<lambda>r. order_id r = order_id order) (orders db) = Some order"
    and low: "flt (fsub env (float_or0 (real_balance user))
                (case fa of None \<Rightarrow> ord_amount order | Some a \<Rightarrow> a)) (Fin 0)"
  shows "users db' = users db \<and> wallet_ledger db' = wallet_ledger db \<and>
     (\<forall>r. out = Inr r \<longrightarrow> \<not> success r \<and>
        message r = ''Execution failed: Withdrawal failed: Insufficient balance for withdrawal'' \<and>
        request_status OrderFlow db' (order_id order) = Some ''APPROVED_FAILED'')"
  using run t row withdraw_wallet_insufficient[OF low]
  by (auto simp: process_approval_def approval_unit_def apply_side_effects_def Let_def pystr_def
      fetch_one_sql_update split: option.splits if_splits)

lemma backend_game_load_safe:
  assumes t: "order_type order = Some ''game_load''"
    and run: "process_approval env order user atype aid fa db = (out, db', evs)"
    and usr: "fetch_one (\<lambda>u. usr_id u = usr_id user) (users db) = Some user"
  shows "users db' = users db \<or> \<not> flt (balance_of db' (usr_id user)) (Fin 0)"
proof -
  let ?db1 = "db\<lparr>orders := sql_update (\<lambda>r. order_id r = order_id order)
                       (\<lambda>r. r\<lparr>execution_attempts := execution_attempts r + 1\<rparr>) (orders db)\<rparr>"
  from run t have "db' = db \<or> users db' = users (fst (execute_game_load env order user ?db1))"
    by (auto simp: process_approval_def approval_unit_def apply_side_effects_def
        game_load_branch_def Let_def split: option.splits if_splits prod.splits)
  moreover from usr have "fetch_one (\<lambda>u. usr_id u = usr_id user) (users ?db1) = Some user"
    by simp
  note execute_game_load_users[OF this, of env order]
  ultimately consider "users db' = users db"
    | "\<not> flt (fsub env (float_or0 (real_balance user)) (ord_amount order)) (Fin 0)"
      "users db' = sql_update (\<lambda>u. usr_id u = usr_id user)
        (\<lambda>u. u\<lparr>real_balance := Some (fsub env (float_or0 (real_balance user)) (ord_amount order))\<rparr>)
        (users db)"
    by auto
  then show ?thesis
  proof cases
    case 1
    then show ?thesis by simp
  next
    case 2
    from balance_of_updated[OF usr 2(2)] 2(1) show ?thesis by (simp add: float_or0_def)
  qed
qed

lemma backend_game_load_insufficient:
  assumes t: "order_type order = Some ''game_load''"
    and run: "process_approval env order user atype aid fa db = (out, db', evs)"
    and row: "fetch_one (\<lambda>r. order_id r = order_id order) (orders db) = Some order"
    and usr: "fetch_one (\<lambda>u. usr_id u = usr_id user) (users db) = Some user"
    and low: "flt (fsub env (float_or0 (real_balance user)) (ord_amount order)) (Fin 0)"
  shows "users db' = users db \<and> wallet_ledger db' = wallet_ledger db \<and>
     (\<forall>r. out = Inr r \<longrightarrow> \<not> success r \<and>
        request_status OrderFlow db' (order_id order) = Some ''APPROVED_FAILED'')"
proof -
  let ?db1 = "db\<lparr>orders := sql_update (\<lambda>r. order_id r = order_id order)
                       (\<lambda>r. r\<lparr>execution_attempts := execution_attempts r + 1\<rparr>) (orders db)\<rparr>"
  from usr have "fetch_one (\<lambda>u. usr_id u = usr_id user) (users ?db1) = Some user" by simp
  from execute_game_load_insufficient[OF this low] run t row
  show ?thesis
    by (auto simp: process_approval_def approval_unit_def apply_side_effects_def
        game_load_branch_def Let_def pystr_def fetch_one_sql_update
        split: option.splits if_splits prod.splits)
qed

lemma ai9_withdrawal_safe:
  assumes t: "order_type order = Some ''withdrawal''"
    and run: "ai9_process_approval env order user atype aid fa db = (out, db', evs)"
    and usr: "fetch_one (\<lambda>u. usr_id u = usr_id user) (users db) = Some user"
    and sign: "\<And>q. 0 \<le> q \<Longrightarrow> \<not> flt (rnd env q) (Fin 0)"
  shows "users db' = users db \<or> \<not> flt (balance_of db' (usr_id user)) (Fin 0)"
proof -
  let ?amount = "case fa of None \<Rightarrow> ord_amount order | Some a \<Rightarrow> a"
  from run t consider "users db' = users db"
    | "\<not> flt (float_or0 (real_balance user)) ?amount"
      "users db' = sql_update (\<lambda>u. usr_id u = usr_id user)
        (\<lambda>u. u\<lparr>real_balance := Some (fsub env (float_or0 (real_balance user)) ?amount),
                total_withdrawn := fadd env (total_withdrawn u) ?amount\<rparr>) (users db)"
    by (auto simp: ai9_process_approval_def ai9_approval_unit_def ai9_side_effects_def Let_def
        split: option.splits if_splits sum.splits)
  then show ?thesis
  proof cases
    case 1
    then show ?thesis by simp
  next
    case 2
    from balance_of_updated[OF usr 2(2)] fsub_not_negative[OF sign 2(1)]
    show ?thesis by (simp add: float_or0_def)
  qed
qed

lemma ai9_withdrawal_insufficient:
  assumes t: "order_type order = Some ''withdrawal''"
    and run: "ai9_process_approval env order user atype aid fa db = (out, db', evs)"
    and row: "fetch_one (\<lambda>r. order_id r = order_id order) (orders db) = Some order"
    and low: "flt (float_or0 (real_balance user)) (case fa of None \<Rightarrow> ord_amount order | Some a \<Rightarrow> a)"
  shows "users db' = users db \<and> wallet_ledger db' = wallet_ledger db \<and>
     (\<forall>r. out = Inr r \<longrightarrow> \<not> success r \<and>
        message r = ''Order approved but execution failed: Insufficient balance: has '' @
            peso env (float_or0 (real_balance user)) @ '', needs '' @
            peso env (case fa of None \<Rightarrow> ord_amount order | Some a \<Rightarrow> a) \<and>
        request_status OrderFlow db' (order_id order) = Some ''APPROVED_FAILED'')"
  using run t row low
  by (auto simp: ai9_process_approval_def ai9_approval_unit_def ai9_side_effects_def Let_def
      fetch_one_sql_update split: option.splits if_splits sum.splits)

section \<open>What a successful approval commits\<close>

text \<open>
  When an approve call on a top-up, deposit or withdrawal order succeeds, the ledger has
  grown by exactly one entry, for the order and its owner, over the amount of the call,
  and the owner's balance is the balance read plus or minus that amount.
\<close>

lemma approval_unit_money:
  "approval_unit env order user atype aid amount bonus adj db = Inr x \<Longrightarrow>
   users (x_db x) =
     users (x_db (apply_side_effects env order user amount bonus
       (db\<lparr>orders := sql_update (\<lambda>r. order_id r = order_id order)
                       (\<lambda>r. r\<lparr>execution_attempts := execution_attempts r + 1\<rparr>) (orders db)\<rparr>))) \<and>
   game_loads (x_db x) =
     game_loads (x_db (apply_side_effects env order user amount bonus
       (db\<lparr>orders := sql_update (\<lambda>r. order_id r = order_id order)
                       (\<lambda>r. r\<lparr>execution_attempts := execution_attempts r + 1\<rparr>) (orders db)\<rparr>)))"
  by (auto simp: approval_unit_def Let_def split: option.splits)

lemma backend_commits_amount:
  assumes run: "process_approval env order user atype aid fa db = (Inr r, db', evs)"
    and ok: "success r"
    and kind: "order_type order \<in> set [Some ''wallet_topup'', Some ''deposit'', Some ''withdrawal'']"
    and usr: "fetch_one (\<lambda>u. usr_id u = usr_id user) (users db) = Some user"
  shows "\<exists>e. wallet_ledger db' = wallet_ledger db @ [e] \<and>
           led_amount e = (case fa of None \<Rightarrow> ord_amount order | Some a \<Rightarrow> a) \<and>
           reference_id e = order_id order \<and> led_user_id e = usr_id user \<and>
           transaction_type e = (if order_type order = Some ''withdrawal'' then ''debit''
                                 else ''credit'') \<and>
           balance_before e = float_or0 (real_balance user) \<and>
           balance_after e = balance_of db' (usr_id user) \<and>
           balance_of db' (usr_id user) =
             (if order_type order = Some ''withdrawal''
              then fsub env (float_or0 (real_balance user))
                     (case fa of None \<Rightarrow> ord_amount order | Some a \<Rightarrow> a)
              else fadd env (float_or0 (real_balance user))
                     (case fa of None \<Rightarrow> ord_amount order | Some a \<Rightarrow> a))"
proof -
  let ?amount = "case fa of None \<Rightarrow> ord_amount order | Some a \<Rightarrow> a"
  let ?bonus = "float_or0 (bonus_amount order)"
  let ?db1 = "db\<lparr>orders := sql_update (\<lambda>r. order_id r = order_id order)
                       (\<lambda>r. r\<lparr>execution_attempts := execution_attempts r + 1\<rparr>) (orders db)\<rparr>"
  from process_approval_cases[OF run] ok obtain x where
    x: "approval_unit env order user atype aid ?amount ?bonus
          (case fa of None \<Rightarrow> False | Some a \<Rightarrow> py_ne a (ord_amount order)) db = Inr x"
    and db': "db' = x_db x" and st: "x_status x \<noteq> ''APPROVED_FAILED''"
    by auto
  note led = approval_unit_ledger[OF x] approval_unit_money[OF x]
  show ?thesis
  proof (cases "order_type order = Some ''withdrawal''")
    case True
    then have se: "apply_side_effects env order user ?amount ?bonus ?db1 =
        withdraw_wallet env order user ?amount ?db1"
      by (simp add: apply_side_effects_def)
    from led st se withdraw_wallet_executed[of env order user ?amount ?db1] db'
    have l: "wallet_ledger db' = wallet_ledger db @
       [\<lparr>ledger_id = uuid4 env 0, led_user_id = usr_id user,
         transaction_type = ''debit'', led_amount = ?amount,
         balance_before = float_or0 (real_balance user),
         balance_after = fsub env (float_or0 (real_balance user)) ?amount,
         reference_type = ''withdrawal'', reference_id = order_id order,
         description = ''Withdrawal to '' @ pystr (payment_method order)\<rparr>]"
      and u: "users db' = sql_update (\<lambda>u. usr_id u = usr_id user)
        (\<lambda>u. u\<lparr>real_balance := Some (fsub env (float_or0 (real_balance user)) ?amount),
                total_withdrawn := fadd env (total_withdrawn u) ?amount\<rparr>) (users db)"
      by simp_all
    from balance_of_updated[OF usr u] l True show ?thesis by (simp add: float_or0_def)
  next
    case False
    with kind have se: "apply_side_effects env order user ?amount ?bonus ?db1 =
        credit_wallet env order user ?amount ?bonus ?db1"
      by (auto simp: apply_side_effects_def)
    from led st se credit_wallet_executed[of env order user ?amount ?bonus ?db1] db'
    have l: "wallet_ledger db' = wallet_ledger db @
       [\<lparr>ledger_id = uuid4 env 0, led_user_id = usr_id user,
         transaction_type = ''credit'', led_amount = ?amount,
         balance_before = float_or0 (real_balance user),
         balance_after = fadd env (float_or0 (real_balance user)) ?amount,
         reference_type = ''order'', reference_id = order_id order,
         description = ''Wallet top-up via '' @ pystr (payment_method order)\<rparr>]"
      and u: "users db' = sql_update (\<lambda>u. usr_id u = usr_id user)
        (\<lambda>u. u\<lparr>real_balance := Some (fadd env (float_or0 (real_balance user)) ?amount),
                bonus_balance := fadd env (bonus_balance u) ?bonus,
                deposit_count := deposit_count u + 1,
                total_deposited := fadd env (total_deposited u) ?amount\<rparr>) (users db)"
      by simp_all
    from balance_of_updated[OF usr u] l False show ?thesis by (simp add: float_or0_def)
  qed
qed

lemma ai9_side_effects_executed:
  assumes "ai9_side_effects env order user amount bonus db = Inr (db1, okay, res)"
    and "order_type order \<in> set [Some ''wallet_topup'', Some ''deposit'', Some ''withdrawal'']"
  shows "okay \<and> orders db1 = orders db \<and>
     (if order_type order = Some ''withdrawal'' then
        wallet_ledger db1 = wallet_ledger db @
          [\<lparr>ledger_id = uuid4 env 0, led_user_id = usr_id user,
            transaction_type = ''debit'', led_amount = amount,
            balance_before = float_or0 (real_balance user),
            balance_after = fsub env (float_or0 (real_balance user)) amount,
            reference_type = ''withdrawal'', reference_id = order_id order,
            description = ''Withdrawal to '' @ pystr (payment_method order)\<rparr>] \<and>
        users db1 = sql_update (\<lambda>u. usr_id u = usr_id user)
          (\<lambda>u. u\<lparr>real_balance := Some (fsub env (float_or0 (real_balance user)) amount),
                  total_withdrawn := fadd env (total_withdrawn u) amount\<rparr>) (users db)
      else
        wallet_ledger db1 = wallet_ledger db @
          [\<lparr>ledger_id = uuid4 env 0, led_user_id = usr_id user,
            transaction_type = ''credit'', led_amount = amount,
            balance_before = float_or0 (real_balance user),
            balance_after = fadd env (float_or0 (real_balance user)) amount,
            reference_type = ''order'', reference_id = order_id order,
            description = ''Wallet top-up via '' @ pystr (payment_method order)\<rparr>] \<and>
        users db1 = sql_update (\<lambda>u. usr_id u = usr_id user)
          (\<lambda>u. u\<lparr>real_balance := Some (fadd env (float_or0 (real_balance user)) amount),
                  bonus_balance := fadd env (bonus_balance u) bonus,
                  deposit_count := deposit_count u + 1,
                  total_deposited := fadd env (total_deposited u) amount\<rparr>) (users db))"
  using assms
  by (auto simp: ai9_side_effects_def Let_def split: option.splits if_splits)

lemma ai9_commits_amount:
  assumes run: "ai9_process_approval env order user atype aid fa db = (Inr r, db', evs)"
    and ok: "success r"
    and kind: "order_type order \<in> set [Some ''wallet_topup'', Some ''deposit'', Some ''withdrawal'']"
    and usr: "fetch_one (\<lambda>u. usr_id u = usr_id user) (users db) = Some user"
  shows "\<exists>e. wallet_ledger db' = wallet_ledger db @ [e] \<and>
           led_amount e = (case fa of None \<Rightarrow> ord_amount order | Some a \<Rightarrow> a) \<and>
           reference_id e = order_id order \<and> led_user_id e = usr_id user \<and>
           transaction_type e = (if order_type order = Some ''withdrawal'' then ''debit''
                                 else ''credit'') \<and>
           balance_before e = float_or0 (real_balance user) \<and>
           balance_after e = balance_of db' (usr_id user) \<and>
           balance_of db' (usr_id user) =
             (if order_type order = Some ''withdrawal''
              then fsub env (float_or0 (real_balance user))
                     (case fa of None \<Rightarrow> ord_amount order | Some a \<Rightarrow> a)
              else fadd env (float_or0 (real_balance user))
                     (case fa of None \<Rightarrow> ord_amount order | Some a \<Rightarrow> a))"
proof -
  let ?amount = "case fa of None \<Rightarrow> ord_amount order | Some a \<Rightarrow> a"
  let ?bonus = "float_or0 (bonus_amount order)"
  from run ok obtain y where
    y: "ai9_approval_unit env order user aid ?amount ?bonus
          (case fa of None \<Rightarrow> False | Some a \<Rightarrow> py_ne a (ord_amount order)) db = Inr y"
    and db': "db' = y_db y"
    by (auto simp: ai9_process_approval_def Let_def split: sum.splits option.splits)
  from y obtain db1 okay res where
    se: "ai9_side_effects env order user ?amount ?bonus db = Inr (db1, okay, res)"
    and yd: "users (y_db y) = users db1" "wallet_ledger (y_db y) = wallet_ledger db1"
    by (auto simp: ai9_approval_unit_def Let_def split: sum.splits option.splits prod.splits)
  note ex = ai9_side_effects_executed[OF se kind]
  show ?thesis
  proof (cases "order_type order = Some ''withdrawal''")
    case True
    with ex yd db' have
      l: "wallet_ledger db' = wallet_ledger db @
          [\<lparr>ledger_id = uuid4 env 0, led_user_id = usr_id user,
            transaction_type = ''debit'', led_amount = ?amount,
            balance_before = float_or0 (real_balance user),
            balance_after = fsub env (float_or0 (real_balance user)) ?amount,
            reference_type = ''withdrawal'', reference_id = order_id order,
            description = ''Withdrawal to '' @ pystr (payment_method order)\<rparr>]"
      and u: "users db' = sql_update (\<lambda>u. usr_id u = usr_id user)
          (\<lambda>u. u\<lparr>real_balance := Some (fsub env (float_or0 (real_balance user)) ?amount),
                  total_withdrawn := fadd env (total_withdrawn u) ?amount\<rparr>) (users db)"
      by simp_all
    from balance_of_updated[OF usr u] l True show ?thesis by (simp add: float_or0_def)
  next
    case False
    with ex yd db' have
      l: "wallet_ledger db' = wallet_ledger db @
          [\<lparr>ledger_id = uuid4 env 0, led_user_id = usr_id user,
            transaction_type = ''credit'', led_amount = ?amount,
            balance_before = float_or0 (real_balance user),
            balance_after = fadd env (float_or0 (real_balance user)) ?amount,
            reference_type = ''order'', reference_id = order_id order,
            description = ''Wallet top-up via '' @ pystr (payment_method order)\<rparr>]"
      and u: "users db' = sql_update (\<lambda>u. usr_id u = usr_id user)
          (\<lambda>u. u\<lparr>real_balance := Some (fadd env (float_or0 (real_balance user)) ?amount),
                  bonus_balance := fadd env (bonus_balance u) ?bonus,
                  deposit_count := deposit_count u + 1,
                  total_deposited := fadd env (total_deposited u) ?amount\<rparr>) (users db)"
      by simp_all
    from balance_of_updated[OF usr u] l False show ?thesis by (simp add: float_or0_def)
  qed
qed

section \<open>Adjusted amounts\<close>

text \<open>
  A successful approval with an adjusted amount writes the adjustment to the order row
  and emits the adjustment event; the approval event carries the original amount.
\<close>

lemma adjust_event_emitted:
  "\<lparr>event_type = ORDER_AMOUNT_ADJUSTED, ev_reference_id = order_id order,
    ev_reference_type = ''order'', ev_user_id = usr_id user, ev_amount = Some amount,
    extra_data = [(''old_amount'', JNum (ord_amount order)), (''new_amount'', JNum amount),
                  (''adjusted_by'', JStr aid)],
    requires_action = False\<rparr> \<in> set (approval_events order user atype aid amount True x)"
  by (auto simp: approval_events_def emit_event_def Let_def split: option.splits)

lemma approval_event_emitted:
  "\<exists>ev. ev \<in> set (approval_events order user atype aid amount True x) \<and>
     event_type ev \<in> set [ORDER_APPROVED, WALLET_TOPUP_APPROVED, WITHDRAW_APPROVED] \<and>
     ev_reference_id ev = order_id order \<and> ev_amount ev = Some amount \<and>
     map_of (extra_data ev) ''original_amount'' = Some (JNum (ord_amount order))"
proof -
  let ?ev = "\<lparr>event_type =
                   (if order_type order = Some ''wallet_topup'' then WALLET_TOPUP_APPROVED
                    else if order_type order = Some ''withdrawal'' then WITHDRAW_APPROVED
                    else ORDER_APPROVED),
                 ev_reference_id = order_id order, ev_reference_type = ''order'',
                 ev_user_id = usr_id user, ev_amount = Some amount,
                 extra_data = [(''order_type'', jstr_opt (order_type order)), (''approved_by'', JStr aid),
                               (''actor_type'', JStr (actor_value atype)),
                               (''amount_adjusted'', JBool True),
                               (''original_amount'', JNum (ord_amount order)),
                               (''final_status'', JStr (x_status x))],
                 requires_action = False\<rparr>"
  have "?ev \<in> set (approval_events order user atype aid amount True x)"
    by (auto simp: approval_events_def emit_event_def Let_def split: option.splits)
  moreover have "event_type ?ev \<in> set [ORDER_APPROVED, WALLET_TOPUP_APPROVED, WITHDRAW_APPROVED] \<and>
     ev_reference_id ?ev = order_id order \<and> ev_amount ?ev = Some amount \<and>
     map_of (extra_data ?ev) ''original_amount'' = Some (JNum (ord_amount order))"
    by simp
  ultimately show ?thesis by blast
qed

lemma backend_adjusted:
  assumes run: "process_approval env order user atype aid (Some fa) db = (Inr r, db', evs)"
    and ok: "success r"
    and row: "fetch_one (\<lambda>r. order_id r = order_id order) (orders db) = Some order"
    and ne: "py_ne fa (ord_amount order)"
  shows "(\<exists>row. fetch_one (\<lambda>r. order_id r = order_id order) (orders db') = Some row \<and>
           ord_amount row = fa \<and> amount_adjusted row = Some True \<and>
           adjusted_by row = Some aid \<and> adjusted_at row = Some (now env)) \<and>
         \<lparr>event_type = ORDER_AMOUNT_ADJUSTED, ev_reference_id = order_id order,
           ev_reference_type = ''order'', ev_user_id = usr_id user, ev_amount = Some fa,
           extra_data = [(''old_amount'', JNum (ord_amount order)), (''new_amount'', JNum fa),
                         (''adjusted_by'', JStr aid)],
           requires_action = False\<rparr> \<in> set evs \<and>
         (\<exists>ev. ev \<in> set evs \<and>
            event_type ev \<in> set [ORDER_APPROVED, WALLET_TOPUP_APPROVED, WITHDRAW_APPROVED] \<and>
            ev_reference_id ev = order_id order \<and> ev_amount ev = Some fa \<and>
            map_of (extra_data ev) ''original_amount'' = Some (JNum (ord_amount order))) \<and>
         map_of (data r) ''amount'' = Some (JNum fa) \<and>
         map_of (data r) ''amount_adjusted'' = Some (JBool True)"
proof -
  from process_approval_success[OF run ok] ne obtain x where
    x: "approval_unit env order user atype aid fa (float_or0 (bonus_amount order)) True db = Inr x"
    and db': "db' = x_db x"
    and evs: "evs = approval_events order user atype aid fa True x"
    and d: "map_of (data r) ''amount'' = Some (JNum fa)"
           "map_of (data r) ''amount_adjusted'' = Some (JBool True)"
    by auto
  from approval_unit_row[OF x] row db' d evs adjust_event_emitted[of order user fa aid atype x]
    approval_event_emitted[of order user atype aid fa x]
  show ?thesis by simp
qed

lemma ai9_adjusted:
  assumes run: "ai9_process_approval env order user atype aid (Some fa) db = (Inr r, db', evs)"
    and ok: "success r"
    and row: "fetch_one (\<lambda>r. order_id r = order_id order) (orders db) = Some order"
    and ne: "py_ne fa (ord_amount order)"
  shows "(\<exists>row. fetch_one (\<lambda>r. order_id r = order_id order) (orders db') = Some row \<and>
           ord_amount row = fa \<and> amount_adjusted row = Some True \<and>
           adjusted_by row = Some aid \<and> adjusted_at row = Some (now env)) \<and>
         \<lparr>event_type = ORDER_AMOUNT_ADJUSTED, ev_reference_id = order_id order,
           ev_reference_type = ''order'', ev_user_id = usr_id user, ev_amount = Some fa,
           extra_data = [(''old_amount'', JNum (ord_amount order)), (''new_amount'', JNum fa),
                         (''adjusted_by'', JStr aid)],
           requires_action = False\<rparr> \<in> set evs \<and>
         (\<exists>ev. ev \<in> set evs \<and>
            event_type ev \<in> set [ORDER_APPROVED, WALLET_TOPUP_APPROVED, WITHDRAW_APPROVED] \<and>
            ev_reference_id ev = order_id order \<and> ev_amount ev = Some fa \<and>
            map_of (extra_data ev) ''original_amount'' = Some (JNum (ord_amount order))) \<and>
         map_of (data r) ''amount'' = Some (JNum fa) \<and>
         map_of (data r) ''amount_adjusted'' = Some (JBool True)"
proof (cases "ai9_approval_unit env order user aid fa (float_or0 (bonus_amount order)) True db")
  case (Inl e)
  with run ok ne show ?thesis
    by (auto simp: ai9_process_approval_def Let_def split: option.splits)
next
  case (Inr y)
  let ?ev = "\<lparr>event_type =
                   (if order_type order = Some ''wallet_topup'' then WALLET_TOPUP_APPROVED
                    else if order_type order = Some ''withdrawal'' then WITHDRAW_APPROVED
                    else ORDER_APPROVED),
                 ev_reference_id = order_id order, ev_reference_type = ''order'',
                 ev_user_id = usr_id user, ev_amount = Some fa,
                 extra_data = [(''order_type'', jstr_opt (order_type order)), (''approved_by'', JStr aid),
                               (''actor_type'', JStr (actor_value atype)),
                               (''amount_adjusted'', JBool True),
                               (''original_amount'', JNum (ord_amount order)),
                               (''final_status'', JStr (y_status y)),
                               (''execution_result'', jstr_opt (y_result y))],
                 requires_action = False\<rparr>"
  from Inr run ne have db': "db' = y_db y" and
    a: "\<lparr>event_type = ORDER_AMOUNT_ADJUSTED, ev_reference_id = order_id order,
             ev_reference_type = ''order'', ev_user_id = usr_id user, ev_amount = Some fa,
             extra_data = [(''old_amount'', JNum (ord_amount order)), (''new_amount'', JNum fa),
                           (''adjusted_by'', JStr aid)],
             requires_action = False\<rparr> \<in> set evs"
    and e: "?ev \<in> set evs"
    and d: "map_of (data r) ''amount'' = Some (JNum fa)"
      "map_of (data r) ''amount_adjusted'' = Some (JBool True)"
    by (auto simp: ai9_process_approval_def Let_def emit_event_def)
  have "event_type ?ev \<in> set [ORDER_APPROVED, WALLET_TOPUP_APPROVED, WITHDRAW_APPROVED] \<and>
     ev_reference_id ?ev = order_id order \<and> ev_amount ?ev = Some fa \<and>
     map_of (extra_data ?ev) ''original_amount'' = Some (JNum (ord_amount order))"
    by simp
  with e have "\<exists>ev. ev \<in> set evs \<and>
            event_type ev \<in> set [ORDER_APPROVED, WALLET_TOPUP_APPROVED, WITHDRAW_APPROVED] \<and>
            ev_reference_id ev = order_id order \<and> ev_amount ev = Some fa \<and>
            map_of (extra_data ev) ''original_amount'' = Some (JNum (ord_amount order))"
    by blast
  with ai9_approval_unit_row[OF Inr] row db' a d show ?thesis by simp
qed

section \<open>Claims\<close>

text \<open>
  C7. Every status the approval core writes is one of PENDING_REVIEW, APPROVED_EXECUTED,
  APPROVED_FAILED and REJECTED. The wallet-load function of \<^verbatim>\<open>src/backend\<close> does
  not keep this: approving the pending request \<open>w1\<close> stores the status \<open>approved\<close>,
  rejecting it stores \<open>rejected\<close>, and neither is one of the four.
\<close>

theorem backend_wallet_load_writes_legacy_status:
  "request_status WalletLoadFlow
     (fst (snd (approve_or_reject_wallet_load env0 ''w1'' ''approve'' ADMIN ''admin1'' None None None
                  (wallet_db ''pending'' 0)))) ''w1'' = Some ''approved'' \<and>
   request_status WalletLoadFlow
     (fst (snd (approve_or_reject_wallet_load env0 ''w1'' ''reject'' ADMIN ''admin1'' None None None
                  (wallet_db ''pending'' 0)))) ''w1'' = Some ''rejected'' \<and>
   ''approved'' \<notin> set canonical_statuses \<and> ''rejected'' \<notin> set canonical_statuses"
  by (simp add: example_defs python_defs wallet_load_defs canonical_statuses_def Let_def)

text \<open>
  C2. Calling \<open>decide\<close> with the action approve twice in a row on the same request
  yields success exactly once, the second call being stopped as already processed. As
  stated this fails where the first call's execution fails: approving the withdrawal
  order \<open>o1\<close> over 300.00 of a user who holds 100.00 returns success = false (the
  order becomes APPROVED_FAILED), and the second call returns success = false with
  \<open>already_processed\<close>, so neither call succeeds.
\<close>

theorem two_approvals_may_both_fail:
  "(case approve_or_reject_order env0 ''o1'' ''approve'' ADMIN ''admin1'' None None None
            (order_db ''withdrawal'' 300 100) of
      (out1, db1, evs1) \<Rightarrow>
        (\<exists>r1. out1 = Inr r1 \<and> \<not> success r1) \<and>
        request_status OrderFlow db1 ''o1'' = Some ''APPROVED_FAILED'' \<and>
        (case approve_or_reject_order env1 ''o1'' ''approve'' ADMIN ''admin1'' None None None db1 of
           (out2, db2, evs2) \<Rightarrow>
             (\<exists>r2. out2 = Inr r2 \<and> \<not> success r2 \<and> already_processed r2) \<and> db2 = db1))"
  by (simp add: example_defs python_defs backend_order_defs Let_def)

text \<open>
  C2, amended. Two approve calls in a row on the same request succeed at most once. In
  both flows of both copies of the service: when the first call passes the checks and
  returns, whether its execution succeeded or failed, the second call (whatever its
  clock, amount or reason) returns success = false with \<open>already_processed\<close> = true
  and the stored status in its message, leaves the database as the first call left it (so
  no further ledger entry and no balance change) and emits nothing. A first call that
  succeeds has passed the checks, so the two calls then succeed exactly once.
\<close>

theorem second_approve_is_already_processed:
  assumes first: "decide i f env rid ''approve'' atype aid fa rr bid db = (Inr r1, db1, ev1)"
    and passed: "processable i f db rid atype bid \<or> success r1"
  shows "\<exists>s. request_status f db1 rid = Some s \<and>
           decide i f env' rid ''approve'' atype aid' fa' rr' bid db1 =
             (Inr (already_result f s), db1, []) \<and>
           \<not> success (already_result f s) \<and> already_processed (already_result f s)"
proof -
  from passed success_processable[OF first] have "processable i f db rid atype bid" by blast
  from processable_decided[OF this first] obtain s' where
    p: "bot_check f db1 atype bid = None" "request_status f db1 rid = Some s'"
       "s' \<notin> set (pending_statuses i f)" by blast
  from decide_trip[OF p] p(2) show ?thesis
    by (auto simp: already_result_def already_processed_def)
qed

theorem second_approve_is_already_processed_witness:
  "\<exists>r1 db1 ev1.
     decide Backend OrderFlow env0 ''o1'' ''approve'' ADMIN ''admin1'' None None None
       (order_db ''wallet_topup'' 500 0) = (Inr r1, db1, ev1) \<and> success r1 \<and>
     processable Backend OrderFlow (order_db ''wallet_topup'' 500 0) ''o1'' ADMIN None \<and>
     request_status OrderFlow db1 ''o1'' = Some ''APPROVED_EXECUTED'' \<and>
     decide Backend OrderFlow env1 ''o1'' ''approve'' ADMIN ''admin1'' None None None db1 =
       (Inr (already_result OrderFlow ''APPROVED_EXECUTED''), db1, []) \<and>
     wallet_ledger db1 \<noteq> []"
proof -
  obtain out db1 ev1 where run:
    "decide Backend OrderFlow env0 ''o1'' ''approve'' ADMIN ''admin1'' None None None
       (order_db ''wallet_topup'' 500 0) = (out, db1, ev1)"
    by (rule prod_cases3)
  then obtain r1 where r1: "out = Inr r1" "success r1"
    and st: "request_status OrderFlow db1 ''o1'' = Some ''APPROVED_EXECUTED''"
    and led: "wallet_ledger db1 \<noteq> []"
    by (auto simp: example_defs python_defs backend_order_defs Let_def)
  have p: "processable Backend OrderFlow (order_db ''wallet_topup'' 500 0) ''o1'' ADMIN None"
    by (simp add: processable_def order_bot_check_def example_defs fetch_one_def)
  then have "processable Backend OrderFlow (order_db ''wallet_topup'' 500 0) ''o1'' ADMIN None
      \<or> success r1" by simp
  from second_approve_is_already_processed[OF run[unfolded r1(1)] this,
      of env1 "''admin1''" None None] st
  have "decide Backend OrderFlow env1 ''o1'' ''approve'' ADMIN ''admin1'' None None None db1 =
       (Inr (already_result OrderFlow ''APPROVED_EXECUTED''), db1, [])"
    by auto
  with run r1 st led p show ?thesis by blast
qed

text \<open>
  C3. No operation commits a balance below zero: every balance mutation with
  \<open>current + delta < 0\<close> is rejected. The credit paths do not keep this. They add
  the amount of the call to the balance and write the sum without looking at it, where the
  debit branches of the same module compare before they write, and where the module names
  \<open>Amount adjustment limits\<close> among what it enforces. Approving the wallet load request
  \<open>w1\<close> of a user who holds 100.00 with \<open>final_amount\<close> = -500.00 succeeds,
  leaves the balance at -400.00 and writes a ledger entry of the type \<open>credit\<close> over
  -500.00.
\<close>

theorem credit_commits_negative_balance:
  "(case approve_or_reject_wallet_load env0 ''w1'' ''approve'' ADMIN ''admin1''
            (Some (Fin (- 500))) None None (wallet_db ''pending'' 100) of
      (out, db', evs) \<Rightarrow>
        (\<exists>r. out = Inr r \<and> success r) \<and> balance_of db' ''u1'' = Fin (- 400) \<and>
        flt (balance_of db' ''u1'') (Fin 0) \<and>
        map (\<lambda>e. (transaction_type e, led_amount e, balance_before e, balance_after e))
          (wallet_ledger db') = [(''credit'', Fin (- 500), Fin 100, Fin (- 400))])"
  by (simp add: example_defs python_defs wallet_load_defs Let_def)

text \<open>
  The debit branches of the order flow (withdrawal in both copies of the service, game
  load in \<^verbatim>\<open>src/backend\<close>) make the check. Whatever an approve call on a pending
  order of such a kind does, the users table is untouched or the comparison \<open>< 0\<close>
  fails on the owner's balance afterwards. The assumption on the rounding is the one
  \<^verbatim>\<open>src/AI9-main\<close> needs: no exact result that is at least zero is rounded below
  zero.
\<close>

lemma debit_branches_check_the_balance:
  assumes bot: "bot_check OrderFlow db atype bid = None"
    and ord: "fetch_one (\<lambda>r. order_id r = oid) (orders db) = Some ord"
    and pending: "ord_status ord \<in> set (pending_statuses i OrderFlow)"
    and usr: "fetch_one (\<lambda>u. usr_id u = ord_user_id ord) (users db) = Some usr"
    and kind: "order_type ord = Some ''withdrawal'' \<or>
               (i = Backend \<and> order_type ord = Some ''game_load'')"
    and sign: "\<And>q. 0 \<le> q \<Longrightarrow> \<not> flt (rnd env q) (Fin 0)"
    and run: "decide i OrderFlow env oid ''approve'' atype aid fa rr bid db = (out, db', evs)"
  shows "users db' = users db \<or> \<not> flt (balance_of db' (ord_user_id ord)) (Fin 0)"
proof -
  have uid: "usr_id usr = ord_user_id ord" using fetch_one_SomeD[OF usr] by simp
  have usr': "fetch_one (\<lambda>u. usr_id u = usr_id usr) (users db) = Some usr"
    using usr uid by simp
  show ?thesis
  proof (cases i)
    case Backend
    from bot pending have "order_bot_check db atype bid = None"
      "ord_status ord \<in> set [''pending'', ''PENDING_REVIEW'', ''initiated'',
         ''awaiting_payment_proof'']"
      by (simp_all add: Backend)
    from aro_pass[OF this(1) ord this(2) usr, of env "''approve''" aid fa rr] run
    have pa: "process_approval env ord usr atype aid fa db = (out, db', evs)"
      by (simp add: Backend)
    from kind show ?thesis
    proof
      assume t: "order_type ord = Some ''withdrawal''"
      from backend_withdrawal_safe[OF t pa usr'] show ?thesis by (simp add: uid)
    next
      assume "i = Backend \<and> order_type ord = Some ''game_load''"
      then have t: "order_type ord = Some ''game_load''" by simp
      from backend_game_load_safe[OF t pa usr'] show ?thesis by (simp add: uid)
    qed
  next
    case AI9_main
    with kind have t: "order_type ord = Some ''withdrawal''" by simp
    from bot pending have "order_bot_check db atype bid = None"
      "ord_status ord \<in> set [''PENDING_REVIEW'', ''pending_review'', ''pending'', ''initiated'',
         ''awaiting_payment_proof'']"
      by (simp_all add: AI9_main)
    from ai9_aro_pass[OF this(1) ord this(2) usr, of env "''approve''" aid fa rr] run
    have pa: "ai9_process_approval env ord usr atype aid fa db = (out, db', evs)"
      by (simp add: AI9_main)
    from ai9_withdrawal_safe[OF t pa usr' sign] show ?thesis by (simp add: uid)
  qed
qed

text \<open>
  With a balance that the comparison finds too low, the withdrawal of
  \<^verbatim>\<open>src/backend\<close> writes nothing: approving the withdrawal order \<open>o1\<close> over
  300.00 of a user who holds 100.00 fails with the insufficient-balance message and
  leaves users and ledger as they were.
\<close>

lemma withdrawal_over_the_balance_is_refused:
  "(case approve_or_reject_order env0 ''o1'' ''approve'' ADMIN ''admin1'' None None None
            (order_db ''withdrawal'' 300 100) of
      (out, db', evs) \<Rightarrow>
        (\<exists>r. out = Inr r \<and> \<not> success r \<and>
           message r = ''Execution failed: Withdrawal failed: Insufficient balance for withdrawal'') \<and>
        users db' = users (order_db ''withdrawal'' 300 100) \<and> wallet_ledger db' = [] \<and>
        request_status OrderFlow db' ''o1'' = Some ''APPROVED_FAILED'')"
  by (simp add: example_defs python_defs backend_order_defs Let_def)

text \<open>
  Every comparison with NaN is false. A \<open>final_amount\<close> that is NaN therefore passes the
  check of either withdrawal branch, and NaN is written as the balance and as the amount of
  the ledger entry.
\<close>

lemma nan_amount_passes_the_debit_check:
  "(case approve_or_reject_order env0 ''o1'' ''approve'' ADMIN ''admin1'' (Some NaN) None None
            (order_db ''withdrawal'' 300 100) of
      (out, db', evs) \<Rightarrow>
        (\<exists>r. out = Inr r \<and> success r) \<and> balance_of db' ''u1'' = NaN \<and>
        map led_amount (wallet_ledger db') = [NaN]) \<and>
   (case ai9_approve_or_reject_order env0 ''o1'' ''approve'' ADMIN ''admin1'' (Some NaN) None None
            (order_db ''withdrawal'' 300 100) of
      (out, db', evs) \<Rightarrow>
        (\<exists>r. out = Inr r \<and> success r) \<and> balance_of db' ''u1'' = NaN \<and>
        map led_amount (wallet_ledger db') = [NaN])"
  by (simp add: example_defs python_defs backend_order_defs ai9_order_defs Let_def)

text \<open>
  C5. A call whose actor is a bot is decided only if the bot resolves to an active bot
  record with the capability of the flow. The code does not keep this. Its comment reads
  \<open>Validate bot permissions if actor is Telegram bot\<close>, and the module names \<open>Bot
  permissions (if actor is Telegram bot)\<close> among what it enforces, but the validation
  runs only when a non-empty \<open>bot_id\<close> comes with the call. With the actor type
  \<open>TELEGRAM_BOT\<close>, the actor id \<open>b1\<close> and no \<open>bot_id\<close>, the order \<open>o1\<close>
  is approved and the wallet credited although the bot record \<open>b1\<close>, the only one of
  the database, is inactive; the same call with \<open>bot_id\<close> = \<open>b1\<close> is refused.
\<close>

theorem bot_actor_without_bot_id_is_not_validated:
  "(case approve_or_reject_order env0 ''o1'' ''approve'' TELEGRAM_BOT ''b1'' None None None
            (order_db ''wallet_topup'' 500 0) of
      (out, db', evs) \<Rightarrow>
        (\<exists>r. out = Inr r \<and> success r) \<and>
        request_status OrderFlow db' ''o1'' = Some ''APPROVED_EXECUTED'' \<and>
        balance_of db' ''u1'' = Fin 500 \<and>
        map (\<lambda>e. (transaction_type e, led_amount e, reference_id e)) (wallet_ledger db') =
          [(''credit'', Fin 500, ''o1'')]) \<and>
   map (\<lambda>b. (bot_ident b, is_active b)) (telegram_bots (order_db ''wallet_topup'' 500 0)) =
     [(''b1'', False)] \<and>
   approve_or_reject_order env0 ''o1'' ''approve'' TELEGRAM_BOT ''b1'' None None (Some ''b1'')
     (order_db ''wallet_topup'' 500 0) =
     (Inr \<lparr>success = False, message = ''Bot is not active'', data = []\<rparr>,
      order_db ''wallet_topup'' 500 0, [])"
  by (simp add: example_defs python_defs backend_order_defs Let_def)

text \<open>
  Where a non-empty \<open>bot_id\<close> comes with the call of a bot, the validation is what C5
  says, in both flows of both copies: if no bot record has that id, or the record is
  inactive, or it lacks the capability of the flow (\<open>can_approve_payments\<close> for orders,
  \<open>can_approve_wallet_loads\<close> for wallet loads), the call returns success = false with
  the message of that case, changes nothing and emits nothing; the three messages differ.
  Only an active bot with the capability passes the validation.
\<close>

lemma bot_actor_with_bot_id_is_validated:
  assumes "b \<noteq> []"
    and "decide i f env rid action TELEGRAM_BOT aid fa rr (Some b) db = (out, db', evs)"
  shows "(case fetch_one (\<lambda>r. bot_ident r = b) (telegram_bots db) of
            None \<Rightarrow>
              out = Inr \<lparr>success = False, message = ''Bot not found'', data = []\<rparr> \<and>
              db' = db \<and> evs = []
          | Some bot_row \<Rightarrow>
              if \<not> is_active bot_row then
                out = Inr \<lparr>success = False, message = ''Bot is not active'', data = []\<rparr> \<and>
                db' = db \<and> evs = []
              else if \<not> capability f bot_row then
                out = Inr \<lparr>success = False, message = capability_message f, data = []\<rparr> \<and>
                db' = db \<and> evs = []
              else bot_check f db TELEGRAM_BOT (Some b) = None) \<and>
         distinct [''Bot not found'', ''Bot is not active'', capability_message f]"
proof (cases i; cases f)
  assume "i = Backend" "f = OrderFlow"
  with assms show ?thesis
    by (auto simp: approve_or_reject_order_def order_bot_check_def split: option.splits)
next
  assume "i = AI9_main" "f = OrderFlow"
  with assms show ?thesis
    by (auto simp: ai9_approve_or_reject_order_def order_bot_check_def split: option.splits)
next
  assume "i = Backend" "f = WalletLoadFlow"
  with assms show ?thesis
    by (auto simp: approve_or_reject_wallet_load_def wallet_bot_check_def split: option.splits)
next
  assume "i = AI9_main" "f = WalletLoadFlow"
  with assms show ?thesis
    by (auto simp: ai9_approve_or_reject_wallet_load_def wallet_bot_check_def split: option.splits)
qed

text \<open>
  C6. A request stored with any of the legacy synonyms \<open>pending\<close>,
  \<open>pending_review\<close>, \<open>initiated\<close>, \<open>awaiting_payment_proof\<close> passes the
  idempotency check in both flows. As stated this fails: the wallet-load flow of
  \<^verbatim>\<open>src/AI9-main\<close> stops a request stored as \<open>initiated\<close> or as
  \<open>awaiting_payment_proof\<close> as already processed.
\<close>

theorem wallet_load_guard_stops_initiated:
  "ai9_approve_or_reject_wallet_load env0 ''w1'' ''approve'' ADMIN ''admin1'' None None None
     (wallet_db ''initiated'' 0) =
     (Inr (already_result WalletLoadFlow ''initiated''), wallet_db ''initiated'' 0, []) \<and>
   ai9_approve_or_reject_wallet_load env0 ''w1'' ''approve'' ADMIN ''admin1'' None None None
     (wallet_db ''awaiting_payment_proof'' 0) =
     (Inr (already_result WalletLoadFlow ''awaiting_payment_proof''),
      wallet_db ''awaiting_payment_proof'' 0, [])"
  by (simp add: example_defs python_defs wallet_load_defs already_result_def Let_def)

text \<open>
  C6, amended. The order flow lets the legacy synonyms \<open>pending\<close>, \<open>initiated\<close>
  and \<open>awaiting_payment_proof\<close> through in both copies of the service; the wallet-load
  flow lets \<open>pending\<close> through in both copies; \<^verbatim>\<open>src/AI9-main\<close> lets
  \<open>pending_review\<close> through in both flows. A call on such a request that returns is
  never an already-processed result. In the wallet-load flow \<open>initiated\<close> and
  \<open>awaiting_payment_proof\<close> are no pending statuses: a call whose actor passes the
  bot validation returns the already-processed result and changes nothing.
\<close>

theorem legacy_pending_synonyms_pass_the_guard:
  assumes st: "request_status f db rid = Some s"
    and run: "decide i f env rid action atype aid fa rr bid db = (out, db', evs)"
  shows "((f = OrderFlow \<and> s \<in> set [''pending'', ''initiated'', ''awaiting_payment_proof'']) \<or>
          (f = WalletLoadFlow \<and> s = ''pending'') \<or> (i = AI9_main \<and> s = ''pending_review'')
            \<longrightarrow> (\<forall>r. out = Inr r \<longrightarrow> \<not> already_processed r)) \<and>
         (f = WalletLoadFlow \<and> s \<in> set [''initiated'', ''awaiting_payment_proof''] \<and>
          bot_check f db atype bid = None
            \<longrightarrow> out = Inr (already_result f s) \<and> db' = db \<and> evs = [])"
proof (intro conjI impI allI)
  fix r
  assume s: "(f = OrderFlow \<and> s \<in> set [''pending'', ''initiated'', ''awaiting_payment_proof'']) \<or>
          (f = WalletLoadFlow \<and> s = ''pending'') \<or> (i = AI9_main \<and> s = ''pending_review'')"
    and r: "out = Inr r"
  from s have "s \<in> set (pending_statuses i f)"
    by (cases i; cases f) auto
  from decide_not_already[OF run[unfolded r] st this] show "\<not> already_processed r" .
next
  assume a: "f = WalletLoadFlow \<and> s \<in> set [''initiated'', ''awaiting_payment_proof''] \<and>
          bot_check f db atype bid = None"
  then have "s \<notin> set (pending_statuses i f)" by (cases i) auto
  from decide_trip[OF _ st this, of atype bid env action aid fa rr] a run
  show "out = Inr (already_result f s)" "db' = db" "evs = []" by auto
qed

theorem legacy_pending_synonyms_pass_the_guard_witness:
  "request_status OrderFlow
     (order_db ''wallet_topup'' 500 0\<lparr>orders := [(order0 ''wallet_topup'' 500)\<lparr>ord_status := ''initiated''\<rparr>]\<rparr>)
     ''o1'' = Some ''initiated'' \<and>
   (\<exists>r db' evs.
      decide Backend OrderFlow env0 ''o1'' ''approve'' ADMIN ''admin1'' None None None
        (order_db ''wallet_topup'' 500 0\<lparr>orders := [(order0 ''wallet_topup'' 500)\<lparr>ord_status := ''initiated''\<rparr>]\<rparr>)
        = (Inr r, db', evs) \<and> \<not> already_processed r \<and> success r) \<and>
   request_status WalletLoadFlow (wallet_db ''initiated'' 0) ''w1'' = Some ''initiated'' \<and>
   bot_check WalletLoadFlow (wallet_db ''initiated'' 0) ADMIN None = None \<and>
   decide Backend WalletLoadFlow env0 ''w1'' ''approve'' ADMIN ''admin1'' None None None
        (wallet_db ''initiated'' 0) =
     (Inr (already_result WalletLoadFlow ''initiated''), wallet_db ''initiated'' 0, [])"
proof -
  let ?db = "order_db ''wallet_topup'' 500 0\<lparr>orders := [(order0 ''wallet_topup'' 500)\<lparr>ord_status := ''initiated''\<rparr>]\<rparr>"
  let ?wdb = "wallet_db ''initiated'' 0"
  have st: "request_status OrderFlow ?db ''o1'' = Some ''initiated''"
    by (simp add: example_defs fetch_one_def)
  obtain out db' evs where run:
    "decide Backend OrderFlow env0 ''o1'' ''approve'' ADMIN ''admin1'' None None None ?db
       = (out, db', evs)"
    by (rule prod_cases3)
  then obtain r where r: "out = Inr r" "success r"
    by (auto simp: example_defs python_defs backend_order_defs Let_def)
  from legacy_pending_synonyms_pass_the_guard[OF st run] r
  have na: "\<not> already_processed r" by simp
  have wst: "request_status WalletLoadFlow ?wdb ''w1'' = Some ''initiated''"
    by (simp add: example_defs fetch_one_def fetch_load_request_def)
  have wbot: "bot_check WalletLoadFlow ?wdb ADMIN None = None"
    by (simp add: wallet_bot_check_def)
  obtain wout wdb' wevs where wrun:
    "decide Backend WalletLoadFlow env0 ''w1'' ''approve'' ADMIN ''admin1'' None None None ?wdb
       = (wout, wdb', wevs)"
    by (rule prod_cases3)
  from legacy_pending_synonyms_pass_the_guard[OF wst wrun] wbot
  have "wout = Inr (already_result WalletLoadFlow ''initiated'') \<and> wdb' = ?wdb \<and> wevs = []"
    by simp
  with wrun st run r na wst wbot show ?thesis by simp
qed

text \<open>
  C8. An approve call with a \<open>final_amount\<close> that differs from the requested amount
  commits \<open>final_amount\<close>, sets \<open>amount_adjusted\<close> with the adjusting actor and
  time, keeps the original amount in the request's audit fields and emits an adjustment
  event. As stated this fails: an order has one \<open>amount\<close> column, which the status
  update overwrites, and on a top-up order nothing else of the row takes the old value.
  Approving the top-up order \<open>o1\<close> with \<open>final_amount\<close> = 450.00 leaves the same
  order row whether the order asked for 500.00 or for 600.00.
\<close>

theorem original_amount_is_overwritten:
  "fetch_one (\<lambda>r. order_id r = ''o1'')
     (orders (fst (snd (approve_or_reject_order env0 ''o1'' ''approve'' ADMIN ''admin1''
                          (Some (Fin 450)) None None (order_db ''wallet_topup'' 500 0))))) =
   fetch_one (\<lambda>r. order_id r = ''o1'')
     (orders (fst (snd (approve_or_reject_order env0 ''o1'' ''approve'' ADMIN ''admin1''
                          (Some (Fin 450)) None None (order_db ''wallet_topup'' 600 0))))) \<and>
   map_option ord_amount
     (fetch_one (\<lambda>r. order_id r = ''o1'')
        (orders (fst (snd (approve_or_reject_order env0 ''o1'' ''approve'' ADMIN ''admin1''
                             (Some (Fin 450)) None None (order_db ''wallet_topup'' 500 0)))))) =
     Some (Fin 450)"
  by (simp add: example_defs python_defs backend_order_defs Let_def)

text \<open>
  C8, amended. For an approve call on a top-up, deposit or withdrawal order (either copy
  of the service) that succeeds with a \<open>final_amount\<close> different from the requested
  amount, \<open>final_amount\<close> is the amount committed: the ledger grows by exactly one
  entry, for the order and its owner, over \<open>final_amount\<close>; the owner's balance
  becomes the balance read plus \<open>final_amount\<close> (top-up, deposit) or minus
  \<open>final_amount\<close> (withdrawal), which is also the entry's \<open>balance_after\<close>; and
  the order's \<open>amount\<close> column holds \<open>final_amount\<close>. \<open>amount_adjusted\<close> is
  true, \<open>adjusted_by\<close> is the actor and \<open>adjusted_at\<close> the time of the call, and
  the result reports the amount and the adjustment. The original amount is carried by the
  events of the call: the approval event has it as \<open>original_amount\<close> in its payload,
  and an ORDER_AMOUNT_ADJUSTED event is emitted with it as \<open>old_amount\<close> beside the
  new amount.
\<close>

theorem adjusted_amount_is_committed:
  assumes run: "decide i OrderFlow env oid ''approve'' atype aid (Some fa) rr bid db =
                  (Inr r, db', evs)"
    and ok: "success r"
    and ord: "fetch_one (\<lambda>r. order_id r = oid) (orders db) = Some ord"
    and usr: "fetch_one (\<lambda>u. usr_id u = ord_user_id ord) (users db) = Some usr"
    and kind: "order_type ord \<in> set [Some ''wallet_topup'', Some ''deposit'', Some ''withdrawal'']"
    and ne: "py_ne fa (ord_amount ord)"
  shows "(\<exists>e. wallet_ledger db' = wallet_ledger db @ [e] \<and>
            led_amount e = fa \<and> reference_id e = oid \<and> led_user_id e = ord_user_id ord \<and>
            transaction_type e = (if order_type ord = Some ''withdrawal'' then ''debit''
                                  else ''credit'') \<and>
            balance_before e = float_or0 (real_balance usr) \<and>
            balance_after e = balance_of db' (ord_user_id ord) \<and>
            balance_of db' (ord_user_id ord) =
              (if order_type ord = Some ''withdrawal''
               then fsub env (float_or0 (real_balance usr)) fa
               else fadd env (float_or0 (real_balance usr)) fa)) \<and>
         (\<exists>row. fetch_one (\<lambda>r. order_id r = oid) (orders db') = Some row \<and>
            ord_amount row = fa \<and> amount_adjusted row = Some True \<and>
            adjusted_by row = Some aid \<and> adjusted_at row = Some (now env)) \<and>
         \<lparr>event_type = ORDER_AMOUNT_ADJUSTED, ev_reference_id = oid,
           ev_reference_type = ''order'', ev_user_id = ord_user_id ord, ev_amount = Some fa,
           extra_data = [(''old_amount'', JNum (ord_amount ord)), (''new_amount'', JNum fa),
                         (''adjusted_by'', JStr aid)],
           requires_action = False\<rparr> \<in> set evs \<and>
         (\<exists>ev. ev \<in> set evs \<and>
            event_type ev \<in> set [ORDER_APPROVED, WALLET_TOPUP_APPROVED, WITHDRAW_APPROVED] \<and>
            ev_reference_id ev = oid \<and> ev_amount ev = Some fa \<and>
            map_of (extra_data ev) ''original_amount'' = Some (JNum (ord_amount ord))) \<and>
         map_of (data r) ''amount'' = Some (JNum fa) \<and>
         map_of (data r) ''amount_adjusted'' = Some (JBool True)"
    (is "?money \<and> ?audit")
proof -
  have oid: "order_id ord = oid" using fetch_one_SomeD[OF ord] by simp
  have uid: "usr_id usr = ord_user_id ord" using fetch_one_SomeD[OF usr] by simp
  have row: "fetch_one (\<lambda>r. order_id r = order_id ord) (orders db) = Some ord"
    using ord oid by simp
  have usr': "fetch_one (\<lambda>u. usr_id u = usr_id usr) (users db) = Some usr"
    using usr uid by simp
  show ?thesis
  proof (cases i)
    case Backend
    with run have r1: "approve_or_reject_order env oid ''approve'' atype aid (Some fa) rr bid db
        = (Inr r, db', evs)" by simp
    from aro_success_guard[OF r1 ok] ord have
      g: "order_bot_check db atype bid = None"
         "ord_status ord \<in> set [''pending'', ''PENDING_REVIEW'', ''initiated'',
            ''awaiting_payment_proof'']"
      by auto
    from aro_pass[OF g(1) ord g(2) usr, of env "''approve''" aid "Some fa" rr] r1
    have pa: "process_approval env ord usr atype aid (Some fa) db = (Inr r, db', evs)" by simp
    from backend_commits_amount[OF pa ok kind usr'] have m: ?money by (auto simp: oid uid)
    from backend_adjusted[OF pa ok row ne] have a: ?audit by (simp add: oid uid)
    from m a show ?thesis by (rule conjI)
  next
    case AI9_main
    with run have r1: "ai9_approve_or_reject_order env oid ''approve'' atype aid (Some fa) rr bid db
        = (Inr r, db', evs)" by simp
    from ai9_aro_success_guard[OF r1 ok] ord have
      g: "order_bot_check db atype bid = None"
         "ord_status ord \<in> set [''PENDING_REVIEW'', ''pending_review'', ''pending'', ''initiated'',
            ''awaiting_payment_proof'']"
      by auto
    from ai9_aro_pass[OF g(1) ord g(2) usr, of env "''approve''" aid "Some fa" rr] r1
    have pa: "ai9_process_approval env ord usr atype aid (Some fa) db = (Inr r, db', evs)" by simp
    from ai9_commits_amount[OF pa ok kind usr'] have m: ?money by (auto simp: oid uid)
    from ai9_adjusted[OF pa ok row ne] have a: ?audit by (simp add: oid uid)
    from m a show ?thesis by (rule conjI)
  qed
qed

theorem adjusted_amount_is_committed_witness:
  "\<exists>r db' evs.
     decide AI9_main OrderFlow env0 ''o1'' ''approve'' ADMIN ''admin1'' (Some (Fin 250)) None None
       (order_db ''withdrawal'' 300 1000) = (Inr r, db', evs) \<and> success r \<and>
     fetch_one (\<lambda>r. order_id r = ''o1'') (orders (order_db ''withdrawal'' 300 1000)) =
       Some (order0 ''withdrawal'' 300) \<and>
     fetch_one (\<lambda>u. usr_id u = ord_user_id (order0 ''withdrawal'' 300))
       (users (order_db ''withdrawal'' 300 1000)) = Some (user0 1000) \<and>
     order_type (order0 ''withdrawal'' 300) \<in>
       set [Some ''wallet_topup'', Some ''deposit'', Some ''withdrawal''] \<and>
     py_ne (Fin 250) (ord_amount (order0 ''withdrawal'' 300)) \<and>
     map (\<lambda>e. (transaction_type e, led_amount e, reference_id e, led_user_id e,
                 balance_before e, balance_after e)) (wallet_ledger db') =
       [(''debit'', Fin 250, ''o1'', ''u1'', Fin 1000, Fin 750)] \<and>
     balance_of db' ''u1'' = Fin 750 \<and>
     map_option (\<lambda>row. (ord_amount row, amount_adjusted row, adjusted_by row, adjusted_at row))
       (fetch_one (\<lambda>r. order_id r = ''o1'') (orders db')) =
       Some (Fin 250, Some True, Some ''admin1'', Some 100) \<and>
     \<lparr>event_type = ORDER_AMOUNT_ADJUSTED, ev_reference_id = ''o1'',
       ev_reference_type = ''order'', ev_user_id = ''u1'', ev_amount = Some (Fin 250),
       extra_data = [(''old_amount'', JNum (Fin 300)), (''new_amount'', JNum (Fin 250)),
                     (''adjusted_by'', JStr ''admin1'')],
       requires_action = False\<rparr> \<in> set evs"
proof -
  let ?db = "order_db ''withdrawal'' 300 1000"
  obtain out db' evs where run:
    "decide AI9_main OrderFlow env0 ''o1'' ''approve'' ADMIN ''admin1'' (Some (Fin 250)) None None ?db
       = (out, db', evs)"
    by (rule prod_cases3)
  then obtain r where r: "out = Inr r" "success r"
    by (auto simp: example_defs python_defs ai9_order_defs Let_def)
  have ord: "fetch_one (\<lambda>r. order_id r = ''o1'') (orders ?db) = Some (order0 ''withdrawal'' 300)"
    by (simp add: example_defs fetch_one_def)
  have usr: "fetch_one (\<lambda>u. usr_id u = ord_user_id (order0 ''withdrawal'' 300)) (users ?db) =
      Some (user0 1000)"
    by (simp add: example_defs fetch_one_def)
  have kind: "order_type (order0 ''withdrawal'' 300) \<in>
      set [Some ''wallet_topup'', Some ''deposit'', Some ''withdrawal'']"
    by (simp add: example_defs)
  have ne: "py_ne (Fin 250) (ord_amount (order0 ''withdrawal'' 300))"
    by (simp add: example_defs)
  note c = adjusted_amount_is_committed[OF run[unfolded r(1)] r(2) ord usr kind ne]
  from c obtain e where
    e: "wallet_ledger db' = wallet_ledger ?db @ [e]" "led_amount e = Fin 250"
       "reference_id e = ''o1''" "led_user_id e = ord_user_id (order0 ''withdrawal'' 300)"
       "transaction_type e = ''debit''" "balance_before e = Fin 1000"
       "balance_after e = balance_of db' (ord_user_id (order0 ''withdrawal'' 300))"
       "balance_of db' (ord_user_id (order0 ''withdrawal'' 300)) = Fin 750"
    by (auto simp: example_defs float_or0_def fsub_def)
  from c obtain row where
    row: "fetch_one (\<lambda>r. order_id r = ''o1'') (orders db') = Some row"
      "ord_amount row = Fin 250" "amount_adjusted row = Some True"
      "adjusted_by row = Some ''admin1''" "adjusted_at row = Some 100"
    by (auto simp: example_defs)
  from c have ev:
    "\<lparr>event_type = ORDER_AMOUNT_ADJUSTED, ev_reference_id = ''o1'',
       ev_reference_type = ''order'', ev_user_id = ''u1'', ev_amount = Some (Fin 250),
       extra_data = [(''old_amount'', JNum (Fin 300)), (''new_amount'', JNum (Fin 250)),
                     (''adjusted_by'', JStr ''admin1'')],
       requires_action = False\<rparr> \<in> set evs"
    by (simp add: example_defs)
  from e have led: "map (\<lambda>e. (transaction_type e, led_amount e, reference_id e, led_user_id e,
                 balance_before e, balance_after e)) (wallet_ledger db') =
       [(''debit'', Fin 250, ''o1'', ''u1'', Fin 1000, Fin 750)]"
    and bal: "balance_of db' ''u1'' = Fin 750"
    by (simp_all add: example_defs)
  from run r ord usr kind ne led bal row ev show ?thesis by simp
qed

text \<open>
  Outside this statement is what \<^verbatim>\<open>src/backend\<close> reports as paid out:
  \<open>execute_withdrawal\<close> takes \<open>payout_amount\<close> from the order as it was read. A
  withdrawal over 300.00 approved with \<open>final_amount\<close> = 250.00 debits 250.00,
  stores 250.00 as the order's amount, and stores and reports an execution result with a
  payout of 300.00.
\<close>

lemma backend_withdrawal_reports_the_original_payout:
  "(case approve_or_reject_order env0 ''o1'' ''approve'' ADMIN ''admin1'' (Some (Fin 250)) None None
            (order_db ''withdrawal'' 300 1000) of
      (out, db', evs) \<Rightarrow>
        (\<exists>r. out = Inr r \<and> success r) \<and>
        map led_amount (wallet_ledger db') = [Fin 250] \<and> balance_of db' ''u1'' = Fin 750 \<and>
        map_option (\<lambda>row. (ord_amount row, execution_result row))
          (fetch_one (\<lambda>r. order_id r = ''o1'') (orders db')) =
          Some (Fin 250,
                Some (JObj [(''success'', JBool True), (''transaction_id'', JStr ''6fa459ea-ee8a''),
                            (''payout_amount'', JNum (Fin 300)), (''void_amount'', JNum (Fin 0)),
                            (''wallet_balance_remaining'', JNum (Fin 750)),
                            (''executed_at'', JTime 101)])))"
  by (simp add: example_defs python_defs backend_order_defs Let_def)

text \<open>
  C1. An approved request of a credit or debit kind ends APPROVED_EXECUTED if and only
  if a ledger entry with its amount and a reference to it was written in the same unit.
  The game-load branches do not keep this. In \<^verbatim>\<open>src/AI9-main\<close> the game-load
  order \<open>o1\<close> over 50.00 ends APPROVED_EXECUTED with no ledger entry and an untouched
  balance. In \<^verbatim>\<open>src/backend\<close>, approving it with \<open>final_amount\<close> = 45.00
  stores the amount 45.00 on the order, while the one ledger entry debits 50.00 and refers
  to the game-load record (\<open>reference_type\<close> game_load, \<open>reference_id\<close> the new
  load id), not to the order.
\<close>

theorem game_load_executed_without_matching_ledger_entry:
  "(case ai9_approve_or_reject_order env0 ''o1'' ''approve'' ADMIN ''admin1'' None None None
            (order_db ''game_load'' 50 100) of
      (out, db', evs) \<Rightarrow>
        (\<exists>r. out = Inr r \<and> success r) \<and>
        request_status OrderFlow db' ''o1'' = Some ''APPROVED_EXECUTED'' \<and>
        wallet_ledger db' = [] \<and> balance_of db' ''u1'' = Fin 100) \<and>
   (case approve_or_reject_order env0 ''o1'' ''approve'' ADMIN ''admin1'' (Some (Fin 45)) None None
            (order_db ''game_load'' 50 100) of
      (out, db', evs) \<Rightarrow>
        (\<exists>r. out = Inr r \<and> success r) \<and>
        request_status OrderFlow db' ''o1'' = Some ''APPROVED_EXECUTED'' \<and>
        map_option ord_amount (fetch_one (\<lambda>r. order_id r = ''o1'') (orders db')) = Some (Fin 45) \<and>
        map (\<lambda>e. (transaction_type e, led_amount e, reference_type e, reference_id e))
          (wallet_ledger db') = [(''debit'', Fin 50, ''game_load'', ''1b4e28ba-2fa1'')] \<and>
        balance_of db' ''u1'' = Fin 50)"
  by (simp add: example_defs python_defs backend_order_defs ai9_order_defs Let_def)

text \<open>
  For the other kinds the ledger entry is what C1 says. When an approve call of
  \<^verbatim>\<open>src/backend\<close> on a top-up, deposit or withdrawal order succeeds, the ledger
  has grown by exactly one entry, with the committed amount and the order's id.
\<close>

lemma executed_order_has_its_ledger_entry:
  assumes run: "process_approval env order user atype aid fa db = (Inr r, db', evs)"
    and ok: "success r"
    and kind: "order_type order \<in> set [Some ''wallet_topup'', Some ''deposit'', Some ''withdrawal'']"
  shows "\<exists>e. wallet_ledger db' = wallet_ledger db @ [e] \<and>
           led_amount e = (case fa of None \<Rightarrow> ord_amount order | Some a \<Rightarrow> a) \<and>
           reference_id e = order_id order \<and> led_user_id e = usr_id user \<and>
           transaction_type e = (if order_type order = Some ''withdrawal'' then ''debit''
                                 else ''credit'')"
proof -
  let ?amount = "case fa of None \<Rightarrow> ord_amount order | Some a \<Rightarrow> a"
  let ?bonus = "float_or0 (bonus_amount order)"
  let ?db1 = "db\<lparr>orders := sql_update (\<lambda>r. order_id r = order_id order)
                       (\<lambda>r. r\<lparr>execution_attempts := execution_attempts r + 1\<rparr>) (orders db)\<rparr>"
  from process_approval_cases[OF run] ok obtain x where
    x: "approval_unit env order user atype aid ?amount ?bonus
          (case fa of None \<Rightarrow> False | Some a \<Rightarrow> py_ne a (ord_amount order)) db = Inr x"
    and db': "db' = x_db x" and st: "x_status x \<noteq> ''APPROVED_FAILED''"
    by auto
  note led = approval_unit_ledger[OF x]
  show ?thesis
  proof (cases "order_type order = Some ''withdrawal''")
    case True
    then have "apply_side_effects env order user ?amount ?bonus ?db1 =
        withdraw_wallet env order user ?amount ?db1"
      by (simp add: apply_side_effects_def)
    with led st withdraw_wallet_executed[of env order user ?amount ?db1] db' True
    show ?thesis by auto
  next
    case False
    with kind have "apply_side_effects env order user ?amount ?bonus ?db1 =
        credit_wallet env order user ?amount ?bonus ?db1"
      by (auto simp: apply_side_effects_def)
    with led st credit_wallet_executed[of env order user ?amount ?bonus ?db1] db' False
    show ?thesis by auto
  qed
qed

text \<open>
  C4. After an approve or reject call that completes, the request's status is one of
  the four canonical values and is not left pending; an error inside the atomic unit
  still ends in APPROVED_FAILED. \<^verbatim>\<open>src/backend\<close> does not keep this. Its
  wallet-load function leaves the approved request \<open>w1\<close> with the status
  \<open>approved\<close>. No handler surrounds its atomic unit: when the ledger insert raises,
  the exception leaves the call and the request stays \<open>pending\<close>. The same holds for
  its order function when the final status update raises: the order stays
  PENDING_REVIEW.
\<close>

theorem backend_request_left_without_terminal_status:
  "request_status WalletLoadFlow
     (fst (snd (approve_or_reject_wallet_load env0 ''w1'' ''approve'' ADMIN ''admin1'' None None None
                  (wallet_db ''pending'' 0)))) ''w1'' = Some ''approved'' \<and>
   ''approved'' \<notin> set canonical_statuses \<and>
   approve_or_reject_wallet_load (faulty S_wl_ledger) ''w1'' ''approve'' ADMIN ''admin1'' None None
     None (wallet_db ''pending'' 0) = (Inl ''connection lost'', wallet_db ''pending'' 0, []) \<and>
   request_status WalletLoadFlow (wallet_db ''pending'' 0) ''w1'' = Some ''pending'' \<and>
   approve_or_reject_order (faulty S_final_status) ''o1'' ''approve'' ADMIN ''admin1'' None None
     None (order_db ''wallet_topup'' 500 0) =
     (Inl ''connection lost'', order_db ''wallet_topup'' 500 0, []) \<and>
   request_status OrderFlow (order_db ''wallet_topup'' 500 0) ''o1'' = Some ''PENDING_REVIEW''"
  by (simp add: example_defs python_defs backend_order_defs wallet_load_defs
      canonical_statuses_def Let_def)

text \<open>
  The other three functions keep the first half of C4: a call that passes the checks and
  returns leaves one of APPROVED_EXECUTED, APPROVED_FAILED and REJECTED.
\<close>

lemma decided_request_has_terminal_status:
  assumes "processable i f db rid atype bid"
    and "decide i f env rid action atype aid fa rr bid db = (Inr r, db', evs)"
    and "i = AI9_main \<or> f = OrderFlow"
  shows "\<exists>s'. request_status f db' rid = Some s' \<and>
           s' \<in> set [''APPROVED_EXECUTED'', ''APPROVED_FAILED'', ''REJECTED'']"
  using processable_decided[OF assms(1,2)] assms(3) by auto

text \<open>
  In \<^verbatim>\<open>src/AI9-main\<close> the handler does what C4 says: when a statement of the unit
  raises and the follow-up write goes through, the order ends APPROVED_FAILED, the call
  reports failure, and balances and ledger are as before.
\<close>

lemma ai9_error_in_unit_ends_approved_failed:
  assumes unit: "ai9_approval_unit env order user aid
           (case fa of None \<Rightarrow> ord_amount order | Some a \<Rightarrow> a) (float_or0 (bonus_amount order))
           (case fa of None \<Rightarrow> False | Some a \<Rightarrow> py_ne a (ord_amount order)) db = Inl e"
    and follow: "fault env S_followup_status = None"
    and row: "fetch_one (\<lambda>r. order_id r = order_id order) (orders db) = Some order"
  shows "\<exists>r db'. ai9_process_approval env order user atype aid fa db = (Inr r, db', []) \<and>
           \<not> success r \<and> request_status OrderFlow db' (order_id order) = Some ''APPROVED_FAILED'' \<and>
           users db' = users db \<and> wallet_ledger db' = wallet_ledger db"
  using assms by (simp add: ai9_process_approval_def Let_def fetch_one_sql_update)

text \<open>
  \<open>approve_or_reject_order\<close> with the action approve is its reads followed by
  \<open>_process_approval\<close> on what was read.
\<close>

lemma approve_is_guard_then_process_approval:
  "approve_or_reject_order env oid ''approve'' atype aid fa rr bid db =
     (case load_and_guard db oid atype bid of
        Inl r \<Rightarrow> (Inr r, db, [])
      | Inr (order, user) \<Rightarrow> process_approval env order user atype aid fa db)"
  by (simp add: approve_or_reject_order_phases split: sum.splits)

text \<open>
  C9. Of N concurrent approve calls on one pending request exactly one commits its side
  effects and the others return already processed. The code does not keep this: it reads
  the status first and writes it later, with no lock and no condition on the write. When
  two approve calls on the top-up order \<open>o1\<close> (500.00, balance 0) both finish their
  reads before either opens its unit, both pass the idempotency check, both return
  success, and two credit entries for \<open>o1\<close> reach the ledger; the second unit computes
  the new balance from the balance it read earlier, so the balance ends at 500.00.
\<close>

theorem concurrent_approvals_both_execute:
  "(case two_approvals_interleaved env0 env1 ''o1'' ADMIN ''admin1''
           (order_db ''wallet_topup'' 500 0) of
      None \<Rightarrow> False
    | Some (outA, outB, db2) \<Rightarrow>
        (\<exists>ra rb. outA = Inr ra \<and> outB = Inr rb \<and> success ra \<and> success rb \<and>
                  \<not> already_processed ra \<and> \<not> already_processed rb) \<and>
        map (\<lambda>e. (transaction_type e, led_amount e, reference_id e, balance_before e,
                    balance_after e)) (wallet_ledger db2) =
          [(''credit'', Fin 500, ''o1'', Fin 0, Fin 500),
           (''credit'', Fin 500, ''o1'', Fin 0, Fin 500)] \<and>
        balance_of db2 ''u1'' = Fin 500 \<and>
        request_status OrderFlow db2 ''o1'' = Some ''APPROVED_EXECUTED'')"
  by (simp add: two_approvals_interleaved_def load_and_guard_def example_defs python_defs
      backend_order_defs Let_def)

text \<open>
  C10. A call on a pending request with any action other than \<open>approve\<close> is processed
  as a rejection: the request becomes REJECTED and a rejection event is emitted. The
  wallet-load function of \<^verbatim>\<open>src/backend\<close> treats the action \<open>cancel\<close> as a
  rejection and emits the event, but the status it stores is \<open>rejected\<close>.
\<close>

theorem backend_wallet_load_rejection_stores_lowercase_status:
  "(case approve_or_reject_wallet_load env0 ''w1'' ''cancel'' SYSTEM ''job7'' None None None
            (wallet_db ''pending'' 0) of
      (out, db', evs) \<Rightarrow>
        (\<exists>r. out = Inr r \<and> success r \<and> message r = ''Wallet load rejected'') \<and>
        request_status WalletLoadFlow db' ''w1'' = Some ''rejected'' \<and>
        map event_type evs = [WALLET_LOAD_REJECTED] \<and>
        balance_of db' ''u1'' = Fin 0 \<and> wallet_ledger db' = []) \<and>
   ''rejected'' \<noteq> ''REJECTED''"
  by (simp add: example_defs python_defs wallet_load_defs Let_def)

text \<open>
  In the order flow of both copies and in the wallet-load flow of
  \<^verbatim>\<open>src/AI9-main\<close>, C10 holds: whatever the action is, if it is not
  \<open>approve\<close>, a call that passes the checks and returns has stored REJECTED, has
  emitted exactly one event, a rejection event, and has touched neither balances nor
  ledger.
\<close>

lemma other_action_is_a_rejection:
  assumes "processable i f db rid atype bid"
    and "action \<noteq> ''approve''"
    and "decide i f env rid action atype aid fa rr bid db = (Inr r, db', evs)"
    and "i = AI9_main \<or> f = OrderFlow"
  shows "success r \<and> request_status f db' rid = Some ''REJECTED'' \<and>
         (\<exists>e. evs = [e] \<and> event_type e \<in> set [ORDER_REJECTED, WALLET_TOPUP_REJECTED,
                  WITHDRAW_REJECTED, WALLET_LOAD_REJECTED]) \<and>
         users db' = users db \<and> wallet_ledger db' = wallet_ledger db"
proof -
  from processableD(2)[OF assms(1)] obtain s where
    s: "request_status f db rid = Some s" "s \<in> set (pending_statuses i f)" by blast
  from other_action_is_a_rejection_aux[OF processableD(1)[OF assms(1)] s
      processableD(3)[OF assms(1)] assms(2,3,4)]
  show ?thesis .
qed

end
